(* ===== verification/ROI_Prelude.thy ===== *)
theory ROI_Prelude
  imports Main "HOL-Library.Word" "HOL-Library.Sublist"
begin

text \<open>
  Shared vocabulary of the development.

  A JavaScript string is a finite sequence of UTF-16 code units, so the model's
  strings are lists of 16-bit words (\<open>jsstring\<close>); every string operation of the
  source (\<open>trim\<close>, \<open>split\<close>, \<open>includes\<close>, \<open>substring\<close>, \<open>replace\<close>) counts and
  compares code units, never code points, and the model does the same.
  \<open>js\<close> turns an ASCII literal of the theory text into its code units, \<open>utf16\<close>
  encodes one Unicode code point the way a string literal of the source is
  encoded. The theory also holds the fact collections the component theories
  add to, and the generic list lemmas they share.
\<close>

section \<open>Fact collections\<close>

named_theorems js_defs "definitions of the string operations, for unfolding on ground terms"
named_theorems fmt_defs "definitions of the two formatters, for unfolding on ground terms"
named_theorems wf_intros "preservation of well-formed UTF-16 by the string operations"
named_theorems form_defs "definitions of the form state and its handlers, for unfolding on ground terms"

section \<open>Strings as sequences of UTF-16 code units\<close>

type_synonym code_unit = "16 word"
type_synonym jsstring = "code_unit list"

definition js :: "string \<Rightarrow> jsstring" where
  "js s = map of_char s"

definition utf16 :: "nat \<Rightarrow> jsstring" where
  "utf16 cp =
     (if cp < 0x10000 then [of_nat cp]
      else [of_nat (0xD800 + (cp - 0x10000) div 0x400),
            of_nat (0xDC00 + (cp - 0x10000) mod 0x400)])"

definition LF :: code_unit where
  "LF = 0x0A"

definition truthy :: "jsstring \<Rightarrow> bool" where
  "truthy s \<longleftrightarrow> s \<noteq> []"

text \<open>Dropping from the end, as \<open>trimEnd\<close> does.\<close>

definition dropWhileEnd :: "('a \<Rightarrow> bool) \<Rightarrow> 'a list \<Rightarrow> 'a list" where
  "dropWhileEnd P xs = rev (dropWhile P (rev xs))"

lemmas [js_defs] = js_def utf16_def LF_def truthy_def

section \<open>Literals\<close>

lemma js_Nil [simp]: "js [] = []"
  by (simp add: js_def)

lemma js_Cons [simp]: "js (c # cs) = of_char c # js cs"
  by (simp add: js_def)

lemma js_append [simp]: "js (s @ t) = js s @ js t"
  by (simp add: js_def)

lemma length_js [simp]: "length (js s) = length s"
  by (simp add: js_def)

lemma js_eq_Nil_iff [simp]: "js s = [] \<longleftrightarrow> s = []"
  by (simp add: js_def)

lemma unat_of_char [simp]: "unat (of_char c :: code_unit) = of_char c"
proof -
  have "(of_char c :: nat) < 2 ^ 16"
    using nat_of_char_less_256 [of c] by (simp del: nat_of_char_less_256)
  then have "unat (of_nat (of_char c) :: code_unit) = of_char c"
    by (simp add: unat_of_nat)
  then show ?thesis
    by (simp add: of_nat_of_char)
qed

lemma of_char_unit_inj [simp]: "(of_char c :: code_unit) = of_char d \<longleftrightarrow> c = d"
proof
  assume "(of_char c :: code_unit) = of_char d"
  then have "unat (of_char c :: code_unit) = unat (of_char d :: code_unit)"
    by simp
  then show "c = d" by simp
qed simp

lemma js_inj [simp]: "js s = js t \<longleftrightarrow> s = t"
proof (induction s arbitrary: t)
  case Nil
  then show ?case by (auto simp: eq_commute [of "[]"])
next
  case (Cons c s)
  then show ?case by (cases t) auto
qed

lemma truthy_simps [simp]:
  "truthy [] = False"
  "truthy (c # cs) = True"
  by (simp_all add: truthy_def)

section \<open>Lists: loops that push, trailing elements\<close>

text \<open>
  A \<open>forEach\<close> whose body pushes at most a few elements onto an accumulator is a
  left fold that appends; it produces the concatenation of what each step pushed.
\<close>

lemma foldl_push_concat:
  "foldl (\<lambda>acc x. acc @ f x) acc xs = acc @ concat (map f xs)"
  by (induction xs arbitrary: acc) simp_all

lemma foldl_push_cong:
  assumes "\<And>acc x. x \<in> set xs \<Longrightarrow> step acc x = acc @ f x"
  shows "foldl step acc xs = acc @ concat (map f xs)"
  using assms by (induction xs arbitrary: acc) simp_all

lemma concat_map_singleton [simp]: "concat (map (\<lambda>x. [f x]) xs) = map f xs"
  by (induction xs) simp_all

lemma map_enumerate_snd: "map (\<lambda>ip. f (snd ip)) (enumerate n xs) = map f xs"
  by (induction xs arbitrary: n) simp_all

lemma map_enumerate_fst:
  "map (\<lambda>ip. f (fst ip)) (enumerate n xs) = map f [n..<n + length xs]"
proof -
  have "map (\<lambda>ip. f (fst ip)) (enumerate n xs) = map f (map fst (enumerate n xs))"
    by (simp only: map_map comp_def)
  also have "\<dots> = map f [n..<n + length xs]"
    by (simp only: map_fst_enumerate)
  finally show ?thesis .
qed

lemma snd_in_set_enumerate: "ip \<in> set (enumerate n xs) \<Longrightarrow> snd ip \<in> set xs"
  by (metis imageI map_snd_enumerate set_map)

lemma map_snd_enumerate_filter:
  "map snd (filter (\<lambda>ip. P (snd ip)) (enumerate n xs)) = filter P xs"
  by (induction xs arbitrary: n) simp_all

lemma all_dropWhile_iff: "(\<forall>x \<in> set (dropWhile P xs). P x) \<longleftrightarrow> (\<forall>x \<in> set xs. P x)"
proof
  assume all: "\<forall>x \<in> set (dropWhile P xs). P x"
  have "dropWhile P xs = []"
  proof (rule ccontr)
    assume ne: "dropWhile P xs \<noteq> []"
    then have "\<not> P (hd (dropWhile P xs))" by (rule hd_dropWhile)
    with ne all show False by (cases "dropWhile P xs") auto
  qed
  then show "\<forall>x \<in> set xs. P x" by simp
next
  assume "\<forall>x \<in> set xs. P x"
  then show "\<forall>x \<in> set (dropWhile P xs). P x"
    by (auto dest: set_dropWhileD)
qed

lemma dropWhileEnd_Nil [simp]: "dropWhileEnd P [] = []"
  by (simp add: dropWhileEnd_def)

lemma dropWhileEnd_snoc [simp]:
  "dropWhileEnd P (xs @ [x]) = (if P x then dropWhileEnd P xs else xs @ [x])"
  by (simp add: dropWhileEnd_def)

lemma dropWhileEnd_eq_Nil_iff [simp]: "dropWhileEnd P xs = [] \<longleftrightarrow> (\<forall>x \<in> set xs. P x)"
  by (simp add: dropWhileEnd_def)

lemma dropWhileEnd_Cons:
  "dropWhileEnd P (x # xs) =
     (if (\<forall>y \<in> set xs. P y) \<and> P x then [] else x # dropWhileEnd P xs)"
  by (simp add: dropWhileEnd_def dropWhile_append)

lemma dropWhileEnd_idem [simp]: "dropWhileEnd P (dropWhileEnd P xs) = dropWhileEnd P xs"
  by (induction xs rule: rev_induct) auto

lemma dropWhileEnd_last: "dropWhileEnd P xs \<noteq> [] \<Longrightarrow> \<not> P (last (dropWhileEnd P xs))"
  by (induction xs rule: rev_induct) (auto split: if_splits)

lemma prefix_dropWhileEnd: "prefix (dropWhileEnd P xs) xs"
  by (induction xs rule: rev_induct) (auto intro: prefix_order.trans)

lemma dropWhileEnd_id: "xs \<noteq> [] \<Longrightarrow> \<not> P (last xs) \<Longrightarrow> dropWhileEnd P xs = xs"
  by (cases xs rule: rev_cases) simp_all

lemma set_dropWhileEnd: "set (dropWhileEnd P xs) \<subseteq> set xs"
  using set_dropWhileD [of _ P "rev xs"] by (auto simp: dropWhileEnd_def)

lemma dropWhile_all: "\<forall>x \<in> set xs. P x \<Longrightarrow> dropWhile P xs = []"
  by simp

lemma dropWhileEnd_all: "\<forall>x \<in> set xs. P x \<Longrightarrow> dropWhileEnd P xs = []"
  by simp

lemma dropWhileEnd_dropWhile_commute:
  "dropWhileEnd P (dropWhile P xs) = dropWhile P (dropWhileEnd P xs)"
proof (induction xs)
  case Nil
  then show ?case by simp
next
  case (Cons x xs)
  show ?case
  proof (cases "P x")
    case True
    show ?thesis
    proof (cases "\<forall>y \<in> set xs. P y")
      case all: True
      with True show ?thesis
        by (simp add: dropWhile_all dropWhileEnd_all)
    next
      case False
      with True Cons show ?thesis by (auto simp: dropWhileEnd_Cons)
    qed
  next
    case False
    then show ?thesis by (simp add: dropWhileEnd_Cons)
  qed
qed

section \<open>Lists: sizes\<close>

lemma length_concat_filter: "length (concat (filter P xs)) \<le> length (concat xs)"
  by (induction xs) simp_all

lemma length_concat_map:
  "(\<And>x. x \<in> set xs \<Longrightarrow> length (f x) \<le> length (g x)) \<Longrightarrow>
   length (concat (map f xs)) \<le> length (concat (map g xs))"
  by (induction xs) (simp_all add: add_mono)

lemma count_list_subseq: "subseq xs ys \<Longrightarrow> count_list xs a \<le> count_list ys a"
  by (induction rule: list_emb.induct) simp_all

end
