(* ===== verification/JS_String.thy ===== *)
theory JS_String
  imports ROI_Prelude
begin

text \<open>
  The string operations that \<open>src/components/CalculadoraROI.tsx\<close> calls on the
  report text, as functions on sequences of UTF-16 code units, each at the
  argument shape the source uses it with:
  \<^item> \<open>trim\<close> is \<open>String.prototype.trim\<close>: it removes the code units of the
    ECMAScript classes WhiteSpace and LineTerminator from both ends;
  \<^item> \<open>split\<close> is \<open>String.prototype.split\<close> with a separator of one code unit
    (the source splits on the line feed): it searches the next separator, emits
    the substring before it and goes on behind it;
  \<^item> \<open>startsWith\<close>, \<open>endsWith\<close> and \<open>includesStr\<close> compare code units at the
    start, at the end and at any position;
  \<^item> \<open>substring\<close> with a start index only;
  \<^item> \<open>stripAll\<close> is \<open>replace(/pat/g, '')\<close> for a literal pattern: matches are
    searched from left to right and a search resumes behind a match;
  \<^item> \<open>stripClass\<close> is \<open>replace(/[cls]/g, '')\<close> for a regular expression without
    the \<open>u\<close> flag, whose character class is a set of code units: a character
    outside the Basic Multilingual Plane contributes its two surrogates to the
    class, each on its own.

  The lemmas give each operation its reference meaning from the list library
  (\<open>prefix\<close>, \<open>suffix\<close>, \<open>sublist\<close>, \<open>filter\<close>), the round trip between \<open>split\<close>
  and \<open>join\<close>, the termination of \<open>stripAll\<close>, and which operations keep a
  string well-formed UTF-16 (\<open>wellFormed\<close>, the predicate of
  \<open>String.prototype.isWellFormed\<close>).
\<close>

section \<open>Definitions\<close>

subsection \<open>White space and trimming\<close>

definition isWhiteSpace :: "code_unit \<Rightarrow> bool" where
  "isWhiteSpace c \<longleftrightarrow>
     c = 0x0009 \<or> c = 0x000B \<or> c = 0x000C \<or> c = 0x0020 \<or> c = 0x00A0 \<or> c = 0xFEFF \<or>
     c = 0x1680 \<or> (0x2000 \<le> c \<and> c \<le> 0x200A) \<or> c = 0x202F \<or> c = 0x205F \<or> c = 0x3000 \<or>
     c = 0x000A \<or> c = 0x000D \<or> c = 0x2028 \<or> c = 0x2029"

definition trimStart :: "jsstring \<Rightarrow> jsstring" where
  "trimStart s = dropWhile isWhiteSpace s"

definition trimEnd :: "jsstring \<Rightarrow> jsstring" where
  "trimEnd s = dropWhileEnd isWhiteSpace s"

definition trim :: "jsstring \<Rightarrow> jsstring" where
  "trim s = trimEnd (trimStart s)"

subsection \<open>Splitting and joining\<close>

function split :: "'a \<Rightarrow> 'a list \<Rightarrow> 'a list list" where
  "split sep s =
     (case dropWhile (\<lambda>c. c \<noteq> sep) s of
        [] \<Rightarrow> [s]
      | _ # rest \<Rightarrow> takeWhile (\<lambda>c. c \<noteq> sep) s # split sep rest)"
  by pat_completeness auto
termination
proof (relation "measure (\<lambda>(sep, s). length s)")
  show "wf (measure (\<lambda>(sep, s). length s))" by simp
next
  fix sep :: 'a and s x rest
  assume "dropWhile (\<lambda>c. c \<noteq> sep) s = x # rest"
  then have "Suc (length rest) = length (dropWhile (\<lambda>c. c \<noteq> sep) s)"
    by simp
  also have "\<dots> \<le> length s"
    by (rule length_dropWhile_le)
  finally show "((sep, rest), (sep, s)) \<in> measure (\<lambda>(sep, s). length s)"
    by simp
qed

declare split.simps [simp del]

fun join :: "'a \<Rightarrow> 'a list list \<Rightarrow> 'a list" where
  "join sep [] = []"
| "join sep [l] = l"
| "join sep (l # ls) = l @ sep # join sep ls"

subsection \<open>Tests at the start, at the end and inside\<close>

definition startsWith :: "'a list \<Rightarrow> 'a list \<Rightarrow> bool" where
  "startsWith s p \<longleftrightarrow> take (length p) s = p"

definition endsWith :: "'a list \<Rightarrow> 'a list \<Rightarrow> bool" where
  "endsWith s p \<longleftrightarrow> length p \<le> length s \<and> drop (length s - length p) s = p"

fun includesStr :: "'a list \<Rightarrow> 'a list \<Rightarrow> bool" where
  "includesStr [] p = (p = [])"
| "includesStr (c # cs) p = (startsWith (c # cs) p \<or> includesStr cs p)"

definition substring :: "nat \<Rightarrow> 'a list \<Rightarrow> 'a list" where
  "substring start s = drop start s"

subsection \<open>Global replacement by the empty string\<close>

function stripAll :: "'a list \<Rightarrow> 'a list \<Rightarrow> 'a list" where
  "stripAll pat s =
     (if pat = [] \<or> s = [] then s
      else if startsWith s pat then stripAll pat (drop (length pat) s)
      else hd s # stripAll pat (tl s))"
  by pat_completeness auto
termination
  by (relation "measure (\<lambda>(pat, s). length s)") auto

declare stripAll.simps [simp del]

definition stripClass :: "'a list \<Rightarrow> 'a list \<Rightarrow> 'a list" where
  "stripClass cls s = filter (\<lambda>c. c \<notin> set cls) s"

subsection \<open>Well-formed UTF-16\<close>

definition isHighSurrogate :: "code_unit \<Rightarrow> bool" where
  "isHighSurrogate c \<longleftrightarrow> 0xD800 \<le> c \<and> c \<le> 0xDBFF"

definition isLowSurrogate :: "code_unit \<Rightarrow> bool" where
  "isLowSurrogate c \<longleftrightarrow> 0xDC00 \<le> c \<and> c \<le> 0xDFFF"

definition isSurrogate :: "code_unit \<Rightarrow> bool" where
  "isSurrogate c \<longleftrightarrow> isHighSurrogate c \<or> isLowSurrogate c"

fun wellFormed :: "jsstring \<Rightarrow> bool" where
  "wellFormed [] = True"
| "wellFormed [c] = (\<not> isHighSurrogate c \<and> \<not> isLowSurrogate c)"
| "wellFormed (c # d # cs) =
     (if isHighSurrogate c then isLowSurrogate d \<and> wellFormed cs
      else \<not> isLowSurrogate c \<and> wellFormed (d # cs))"

lemmas [js_defs] =
  isWhiteSpace_def trimStart_def trimEnd_def trim_def dropWhileEnd_def
  split.simps startsWith_def endsWith_def substring_def stripAll.simps stripClass_def
  isHighSurrogate_def isLowSurrogate_def isSurrogate_def

section \<open>Trimming\<close>

lemma trim_Nil [simp]: "trim [] = []"
  by (simp add: trim_def trimStart_def trimEnd_def)

lemma trim_eq_Nil_iff: "trim s = [] \<longleftrightarrow> (\<forall>c \<in> set s. isWhiteSpace c)"
  by (simp add: trim_def trimStart_def trimEnd_def all_dropWhile_iff)

lemma truthy_trim_iff: "truthy (trim s) \<longleftrightarrow> (\<exists>c \<in> set s. \<not> isWhiteSpace c)"
  by (simp add: truthy_def trim_eq_Nil_iff)

lemma trim_idem [simp]: "trim (trim s) = trim s"
  by (simp add: trim_def trimStart_def trimEnd_def flip: dropWhileEnd_dropWhile_commute)

lemma trim_hd: "trim s \<noteq> [] \<Longrightarrow> \<not> isWhiteSpace (hd (trim s))"
  unfolding trim_def trimStart_def trimEnd_def dropWhileEnd_dropWhile_commute
  by (rule hd_dropWhile)

lemma trim_last: "trim s \<noteq> [] \<Longrightarrow> \<not> isWhiteSpace (last (trim s))"
  unfolding trim_def trimStart_def trimEnd_def
  by (rule dropWhileEnd_last)

lemma sublist_trim: "sublist (trim s) s"
proof -
  have "prefix (trim s) (trimStart s)"
    by (simp add: trim_def trimEnd_def prefix_dropWhileEnd)
  moreover have "suffix (trimStart s) s"
    by (simp add: trimStart_def suffix_dropWhile)
  ultimately show ?thesis
    by (auto simp: sublist_altdef')
qed

lemma set_trim: "set (trim s) \<subseteq> set s"
proof -
  from sublist_trim [of s] obtain ps ss where "s = ps @ trim s @ ss"
    by (auto simp: sublist_def)
  then have "set s = set ps \<union> set (trim s) \<union> set ss"
    by (metis set_append sup_assoc)
  then show ?thesis by blast
qed

lemma trim_id: "s \<noteq> [] \<Longrightarrow> \<not> isWhiteSpace (hd s) \<Longrightarrow> \<not> isWhiteSpace (last s) \<Longrightarrow> trim s = s"
  by (cases s) (simp_all add: trim_def trimStart_def trimEnd_def dropWhileEnd_id)

lemma trim_fixed_iff:
  "trim s = s \<longleftrightarrow> s = [] \<or> \<not> isWhiteSpace (hd s) \<and> \<not> isWhiteSpace (last s)"
  using trim_hd [of s] trim_last [of s] trim_id [of s] by (cases "s = []") auto

section \<open>Splitting and joining\<close>

lemma split_Nil [simp]: "split sep [] = [[]]"
  by (simp add: split.simps)

lemma split_sep_Cons: "split sep (sep # s) = [] # split sep s"
  by (simp add: split.simps [of sep "sep # s"])

lemma split_other_Cons:
  assumes "c \<noteq> sep"
  shows "split sep (c # s) = (c # hd (split sep s)) # tl (split sep s)"
proof (cases "dropWhile (\<lambda>c. c \<noteq> sep) s")
  case Nil
  with assms show ?thesis
    by (simp add: split.simps [of sep "c # s"] split.simps [of sep s] dropWhile_all)
next
  case (Cons x rest)
  with assms show ?thesis
    by (simp add: split.simps [of sep "c # s"] split.simps [of sep s])
qed

lemma split_Cons:
  "split sep (c # cs) =
     (if c = sep then [] # split sep cs
      else (c # hd (split sep cs)) # tl (split sep cs))"
  by (simp add: split_sep_Cons split_other_Cons)

lemma split_not_Nil [simp]: "split sep s \<noteq> []"
  by (induction s) (simp_all add: split_Cons)

lemma length_split: "length (split sep s) = Suc (count_list s sep)"
  by (induction s) (simp_all add: split_Cons)

lemma join_Cons: "ls \<noteq> [] \<Longrightarrow> join sep (l # ls) = l @ sep # join sep ls"
  by (cases ls) simp_all

lemma join_split [simp]: "join sep (split sep s) = s"
proof (induction s)
  case Nil
  then show ?case by simp
next
  case (Cons c s)
  obtain l ls where spl: "split sep s = l # ls"
    by (cases "split sep s") simp_all
  with Cons show ?case
    by (cases ls) (auto simp: join_Cons split_Cons)
qed

lemma split_no_sep: "l \<in> set (split sep s) \<Longrightarrow> sep \<notin> set l"
proof (induction s arbitrary: l)
  case Nil
  then show ?case by simp
next
  case (Cons c s)
  obtain k ks where spl: "split sep s = k # ks"
    by (cases "split sep s") simp_all
  with Cons show ?case
    by (auto simp: split_Cons split: if_splits)
qed

lemma split_id: "sep \<notin> set s \<Longrightarrow> split sep s = [s]"
  by (induction s) (auto simp: split_Cons)

lemma split_append: "sep \<notin> set a \<Longrightarrow> split sep (a @ sep # b) = a # split sep b"
  by (induction a) (auto simp: split_Cons)

lemma split_join:
  "ls \<noteq> [] \<Longrightarrow> \<forall>l \<in> set ls. sep \<notin> set l \<Longrightarrow> split sep (join sep ls) = ls"
proof (induction sep ls rule: join.induct)
  case (1 sep)
  then show ?case by simp
next
  case (2 sep l)
  then show ?case by (simp add: split_id)
next
  case (3 sep l k ks)
  then show ?case by (simp add: split_append)
qed

lemma concat_split: "concat (split sep s) = filter (\<lambda>c. c \<noteq> sep) s"
proof (induction s)
  case Nil
  then show ?case by simp
next
  case (Cons c s)
  obtain k ks where "split sep s = k # ks"
    by (cases "split sep s") simp_all
  with Cons show ?case by (auto simp: split_Cons)
qed

lemma length_concat_split: "length (concat (filter P (split sep s))) \<le> length s"
  by (rule order_trans [OF length_concat_filter]) (simp add: concat_split)

section \<open>Tests at the start, at the end and inside\<close>

lemma startsWith_iff_prefix: "startsWith s p \<longleftrightarrow> prefix p s"
  by (auto simp: startsWith_def prefix_def) (metis append_take_drop_id)

lemma endsWith_iff_suffix: "endsWith s p \<longleftrightarrow> suffix p s"
proof
  assume "endsWith s p"
  then have "s = take (length s - length p) s @ p"
    by (metis append_take_drop_id endsWith_def)
  then show "suffix p s" by (rule suffixI)
next
  assume "suffix p s"
  then obtain zs where "s = zs @ p" by (auto simp: suffix_def)
  then show "endsWith s p" by (simp add: endsWith_def)
qed

lemma includesStr_iff_sublist: "includesStr s p \<longleftrightarrow> sublist p s"
  by (induction s) (simp_all add: startsWith_iff_prefix sublist_Cons_right)

lemma startsWith_unit [simp]: "startsWith s [c] \<longleftrightarrow> s \<noteq> [] \<and> hd s = c"
  by (cases s) (simp_all add: startsWith_def)

lemma endsWith_unit [simp]: "endsWith s [c] \<longleftrightarrow> s \<noteq> [] \<and> last s = c"
  by (cases s rule: rev_cases) (simp_all add: endsWith_def)

lemma includesStr_unit [simp]: "includesStr s [c] \<longleftrightarrow> c \<in> set s"
  by (induction s) auto

lemma includesStr_Nil [simp]: "includesStr s []"
  by (simp add: includesStr_iff_sublist)

lemma includesStr_append: "includesStr (a @ p @ b) p"
  by (simp add: includesStr_iff_sublist)

lemma includesStr_set: "includesStr s p \<Longrightarrow> set p \<subseteq> set s"
  by (auto simp: includesStr_iff_sublist sublist_def)

lemma substring_0 [simp]: "substring 0 s = s"
  by (simp add: substring_def)

lemma substring_1_Cons [simp]: "substring (Suc 0) (c # cs) = cs"
  by (simp add: substring_def)

lemma suffix_substring: "suffix (substring n s) s"
  by (simp add: substring_def suffix_drop)

section \<open>Global replacement\<close>

lemma stripAll_Nil [simp]: "stripAll pat [] = []"
  by (simp add: stripAll.simps)

lemma stripAll_empty_pattern [simp]: "stripAll [] s = s"
  by (simp add: stripAll.simps)

lemma stripAll_match:
  assumes "pat \<noteq> []" and "startsWith s pat"
  shows "stripAll pat s = stripAll pat (drop (length pat) s)"
proof -
  from assms have "s \<noteq> []"
    by (auto simp: startsWith_iff_prefix)
  with assms show ?thesis
    by (subst stripAll.simps) simp
qed

lemma stripAll_skip:
  "pat \<noteq> [] \<Longrightarrow> \<not> startsWith (c # s) pat \<Longrightarrow> stripAll pat (c # s) = c # stripAll pat s"
  by (subst stripAll.simps) simp

lemma stripAll_append_match [simp]: "pat \<noteq> [] \<Longrightarrow> stripAll pat (pat @ s) = stripAll pat s"
  by (simp add: stripAll_match startsWith_iff_prefix)

lemma subseq_stripAll: "subseq (stripAll pat s) s"
proof (induction pat s rule: stripAll.induct)
  case (1 pat s)
  show ?case
  proof (cases "pat = [] \<or> s = []")
    case True
    then show ?thesis by (auto simp: stripAll.simps)
  next
    case False
    then obtain c t where s: "s = c # t" by (cases s) auto
    show ?thesis
    proof (cases "startsWith s pat")
      case True
      with False "1.IH"(1) have "subseq (stripAll pat s) (drop (length pat) s)"
        by (simp add: stripAll_match)
      moreover have "subseq (drop (length pat) s) s"
        by (simp add: suffix_drop suffix_imp_subseq)
      ultimately show ?thesis
        by (rule subseq_order.trans)
    next
      case nomatch: False
      with False "1.IH"(2) s show ?thesis
        by (simp add: stripAll_skip)
    qed
  qed
qed

lemma length_stripAll: "length (stripAll pat s) \<le> length s"
  using subseq_stripAll [of pat s] by (rule list_emb_length)

lemma set_stripAll: "set (stripAll pat s) \<subseteq> set s"
  using subseq_stripAll [of pat s] by (auto dest: list_emb_set)

lemma stripAll_id: "\<not> includesStr s pat \<Longrightarrow> stripAll pat s = s"
proof (induction s)
  case Nil
  then show ?case by simp
next
  case (Cons c s)
  then have "pat \<noteq> []" by auto
  with Cons show ?case by (simp add: stripAll_skip)
qed

text \<open>A pattern of one code unit twice, such as the emphasis marker.\<close>

lemma startsWith_double [simp]:
  "startsWith s [c, c] \<longleftrightarrow> (\<exists>t. s = c # c # t)"
  by (auto simp: startsWith_iff_prefix prefix_def)

lemma stripAll_double_simps [simp]:
  "stripAll [c, c] (c # c # s) = stripAll [c, c] s"
  "x \<noteq> c \<Longrightarrow> stripAll [c, c] (x # s) = x # stripAll [c, c] s"
  "stripAll [c, c] [x] = [x]"
  "y \<noteq> c \<Longrightarrow> stripAll [c, c] (c # y # s) = c # y # stripAll [c, c] s"
  by (simp_all add: stripAll_match stripAll_skip)

lemma stripAll_double_hd:
  assumes "stripAll [c, c] s \<noteq> []" and "hd (stripAll [c, c] s) = c"
  shows "s \<noteq> [] \<and> hd s = c"
proof (cases s)
  case Nil
  with assms show ?thesis by simp
next
  case (Cons x t)
  show ?thesis
  proof (cases "x = c")
    case True
    with Cons show ?thesis by simp
  next
    case False
    with assms Cons show ?thesis by simp
  qed
qed

lemma stripAll_double_free: "\<not> includesStr (stripAll [c, c] s) [c, c]"
proof (induction "[c, c]" s rule: stripAll.induct)
  case (1 s)
  show ?case
  proof (cases "s = []")
    case True
    then show ?thesis by simp
  next
    case False
    then obtain x t where s: "s = x # t" by (cases s) auto
    show ?thesis
    proof (cases "startsWith s [c, c]")
      case True
      with "1.hyps"(1) False show ?thesis
        by (simp add: stripAll_match)
    next
      case nomatch: False
      with "1.hyps"(2) False s have IH: "\<not> includesStr (stripAll [c, c] t) [c, c]"
        by simp
      have "\<not> startsWith (x # stripAll [c, c] t) [c, c]"
      proof
        assume "startsWith (x # stripAll [c, c] t) [c, c]"
        then obtain u where "x = c" and u: "stripAll [c, c] t = c # u"
          by auto
        then have "t \<noteq> [] \<and> hd t = c"
          using stripAll_double_hd [of c t] by simp
        with \<open>x = c\<close> s have "startsWith s [c, c]"
          by (cases t) simp_all
        with nomatch show False ..
      qed
      with IH nomatch s show ?thesis
        by (simp add: stripAll_skip del: startsWith_double)
    qed
  qed
qed

lemma stripAll_double_idem: "stripAll [c, c] (stripAll [c, c] s) = stripAll [c, c] s"
  by (rule stripAll_id) (rule stripAll_double_free)

section \<open>Removing a class of code units\<close>

lemma stripClass_Nil [simp]: "stripClass cls [] = []"
  by (simp add: stripClass_def)

lemma stripClass_Cons [simp]:
  "stripClass cls (c # s) = (if c \<in> set cls then stripClass cls s else c # stripClass cls s)"
  by (simp add: stripClass_def)

lemma set_stripClass [simp]: "set (stripClass cls s) = set s - set cls"
  by (auto simp: stripClass_def)

lemma stripClass_idem [simp]: "stripClass cls (stripClass cls s) = stripClass cls s"
  by (simp add: stripClass_def)

lemma stripClass_append [simp]: "stripClass cls (s @ t) = stripClass cls s @ stripClass cls t"
  by (simp add: stripClass_def)

lemma stripClass_free: "p \<noteq> [] \<Longrightarrow> set p \<subseteq> set cls \<Longrightarrow> \<not> includesStr (stripClass cls s) p"
proof
  assume "p \<noteq> []" and sub: "set p \<subseteq> set cls" and "includesStr (stripClass cls s) p"
  then have "set p \<subseteq> set s - set cls"
    using includesStr_set [of "stripClass cls s" p] by simp
  with sub \<open>p \<noteq> []\<close> show False
    by (cases p) auto
qed

section \<open>Well-formed UTF-16\<close>

lemma surrogate_disjoint: "isHighSurrogate c \<Longrightarrow> \<not> isLowSurrogate c"
  by (auto simp: isHighSurrogate_def isLowSurrogate_def word_le_nat_alt)

lemma isWhiteSpace_plain: "isWhiteSpace c \<Longrightarrow> \<not> isSurrogate c"
  by (auto simp: isWhiteSpace_def isSurrogate_def isHighSurrogate_def isLowSurrogate_def
      word_le_nat_alt)

lemma of_char_plain [simp]: "\<not> isSurrogate (of_char c)"
  using nat_of_char_less_256 [of c]
  by (auto simp: isSurrogate_def isHighSurrogate_def isLowSurrogate_def word_le_nat_alt
      simp del: nat_of_char_less_256)

lemma wellFormed_Cons_plain [simp]:
  "\<not> isSurrogate c \<Longrightarrow> wellFormed (c # s) = wellFormed s"
  by (cases s) (simp_all add: isSurrogate_def)

lemma wellFormed_Cons_plain' [simp]:
  "\<not> isHighSurrogate c \<Longrightarrow> \<not> isLowSurrogate c \<Longrightarrow> wellFormed (c # s) = wellFormed s"
  by (simp add: isSurrogate_def)

lemma wellFormed_pair [simp]:
  "isHighSurrogate c \<Longrightarrow> wellFormed (c # d # s) = (isLowSurrogate d \<and> wellFormed s)"
  by simp

lemma wellFormed_low [simp]: "isLowSurrogate c \<Longrightarrow> \<not> wellFormed (c # s)"
  by (cases s) (auto simp: surrogate_disjoint)

lemma wellFormed_cases:
  assumes "wellFormed s"
  obtains (empty) "s = []"
  | (plain) c t where "s = c # t" "\<not> isSurrogate c" "wellFormed t"
  | (pair) c d t where "s = c # d # t" "isHighSurrogate c" "isLowSurrogate d" "wellFormed t"
proof (cases s)
  case Nil
  then show ?thesis by (rule empty)
next
  case (Cons c t)
  show ?thesis
  proof (cases "isHighSurrogate c")
    case True
    with assms Cons obtain d u where "t = d # u" "isLowSurrogate d" "wellFormed u"
      by (cases t) auto
    with True Cons show ?thesis by (auto intro: pair)
  next
    case False
    with assms Cons have "\<not> isSurrogate c" "wellFormed t"
      by (cases t; auto simp: isSurrogate_def)+
    with Cons show ?thesis by (auto intro: plain)
  qed
qed

lemma wellFormed_append: "wellFormed a \<Longrightarrow> wellFormed b \<Longrightarrow> wellFormed (a @ b)"
  by (induction a rule: wellFormed.induct) (auto simp: surrogate_disjoint split: if_splits)

lemma wellFormed_append_plain [simp]:
  "\<not> isSurrogate c \<Longrightarrow> wellFormed (a @ c # b) \<longleftrightarrow> wellFormed a \<and> wellFormed b"
  by (induction a rule: wellFormed.induct) (auto simp: isSurrogate_def split: if_splits)

lemma wellFormed_snoc_plain [simp]:
  "\<not> isSurrogate c \<Longrightarrow> wellFormed (a @ [c]) \<longleftrightarrow> wellFormed a"
  using wellFormed_append_plain [of c a "[]"] by simp

lemma wellFormed_plain: "\<forall>c \<in> set s. \<not> isSurrogate c \<Longrightarrow> wellFormed s"
  by (induction s) simp_all

lemma wellFormed_js [simp]: "wellFormed (js s)"
  by (rule wellFormed_plain) (auto simp: js_def)

lemma wellFormed_plain_append [simp]:
  "\<forall>c \<in> set p. \<not> isSurrogate c \<Longrightarrow> wellFormed (p @ s) = wellFormed s"
  by (induction p) simp_all

lemma wellFormed_dropWhile [wf_intros]:
  "\<forall>c. P c \<longrightarrow> \<not> isSurrogate c \<Longrightarrow> wellFormed s \<Longrightarrow> wellFormed (dropWhile P s)"
  by (induction s) (auto split: if_splits)

lemma wellFormed_dropWhileEnd [wf_intros]:
  "\<forall>c. P c \<longrightarrow> \<not> isSurrogate c \<Longrightarrow> wellFormed s \<Longrightarrow> wellFormed (dropWhileEnd P s)"
  by (induction s rule: rev_induct) (auto split: if_splits)

lemma wellFormed_trim [wf_intros]: "wellFormed s \<Longrightarrow> wellFormed (trim s)"
  by (simp add: trim_def trimStart_def trimEnd_def isWhiteSpace_plain
      wellFormed_dropWhile wellFormed_dropWhileEnd)

lemma wellFormed_split [wf_intros]:
  "\<not> isSurrogate sep \<Longrightarrow> wellFormed s \<Longrightarrow> l \<in> set (split sep s) \<Longrightarrow> wellFormed l"
proof (induction "count_list s sep" arbitrary: s l)
  case 0
  then have "sep \<notin> set s"
    by (simp add: count_list_0_iff)
  with 0 show ?case by (simp add: split_id)
next
  case (Suc n)
  then have "sep \<in> set s"
    by (metis count_list_0_iff nat.distinct(1))
  then obtain a b where s: "s = a @ sep # b" and a: "sep \<notin> set a"
    by (auto dest: split_list_first)
  with Suc.hyps(2) have "n = count_list b sep"
    by (simp add: count_list_0_iff)
  moreover from Suc.prems s have "wellFormed a" "wellFormed b"
    by simp_all
  moreover from Suc.prems s a have "l = a \<or> l \<in> set (split sep b)"
    by (simp add: split_append)
  ultimately show ?case
    using Suc.hyps(1) Suc.prems(1) by blast
qed

lemma wellFormed_substring_plain [wf_intros]:
  "wellFormed s \<Longrightarrow> s \<noteq> [] \<Longrightarrow> \<not> isSurrogate (hd s) \<Longrightarrow> wellFormed (substring (Suc 0) s)"
  by (cases s) simp_all

lemma wellFormed_stripAll [wf_intros]:
  assumes pat: "\<forall>c \<in> set pat. \<not> isSurrogate c"
  shows "wellFormed s \<Longrightarrow> wellFormed (stripAll pat s)"
proof (induction "length s" arbitrary: s rule: less_induct)
  case less
  show ?case
  proof (cases "pat = []")
    case True
    with less.prems show ?thesis by simp
  next
    case ne: False
    from less.prems show ?thesis
    proof (cases s rule: wellFormed_cases)
      case empty
      then show ?thesis by simp
    next
      case (plain c t)
      show ?thesis
      proof (cases "startsWith s pat")
        case True
        then obtain r where r: "s = pat @ r"
          by (auto simp: startsWith_iff_prefix prefix_def)
        with less.prems pat have "wellFormed r" by simp
        moreover from r ne have "length r < length s" by simp
        ultimately have "wellFormed (stripAll pat r)" by (rule less.hyps [rotated])
        with r ne show ?thesis by simp
      next
        case False
        with plain ne less.hyps [of t] show ?thesis
          by (simp add: stripAll_skip)
      qed
    next
      case (pair c d t)
      from ne pat obtain p ps where p: "pat = p # ps" "\<not> isSurrogate p"
        by (cases pat) auto
      with pair have "\<not> startsWith (c # d # t) pat" "\<not> startsWith (d # t) pat"
        by (auto simp: startsWith_def isSurrogate_def)
      with pair ne have "stripAll pat s = c # d # stripAll pat t"
        by (simp add: stripAll_skip)
      with pair less.hyps [of t] show ?thesis by simp
    qed
  qed
qed

lemma wellFormed_stripClass_plain [wf_intros]:
  "\<forall>c \<in> set cls. \<not> isSurrogate c \<Longrightarrow> wellFormed s \<Longrightarrow> wellFormed (stripClass cls s)"
  by (induction s rule: wellFormed.induct) (auto simp: isSurrogate_def split: if_splits)

section \<open>White space at the ends of lines\<close>

lemma LF_ws [simp]: "isWhiteSpace LF"
  by (simp add: LF_def isWhiteSpace_def)

lemma trim_Cons_ws [simp]: "isWhiteSpace c \<Longrightarrow> trim (c # s) = trim s"
  by (simp add: trim_def trimStart_def)

lemma trim_snoc_ws [simp]: "isWhiteSpace c \<Longrightarrow> trim (s @ [c]) = trim s"
  by (simp add: trim_def trimStart_def trimEnd_def dropWhile_append dropWhile_all)

lemma split_snoc:
  "split sep (s @ [c]) =
     (if c = sep then split sep s @ [[]]
      else butlast (split sep s) @ [last (split sep s) @ [c]])"
proof (induction s)
  case Nil
  then show ?case by (simp add: split_Cons)
next
  case (Cons x s)
  obtain l ls where "split sep s = l # ls"
    by (cases "split sep s") simp_all
  with Cons show ?case
    by (auto simp: split_Cons)
qed

lemma split_sublist:
  "l \<in> set (split sep s) \<Longrightarrow> sublist l s"
proof (induction "count_list s sep" arbitrary: s)
  case 0
  then have "sep \<notin> set s"
    by (simp add: count_list_0_iff)
  with 0 show ?case by (simp add: split_id)
next
  case (Suc n)
  then have "sep \<in> set s"
    by (metis count_list_0_iff nat.distinct(1))
  then obtain a b where s: "s = a @ sep # b" and a: "sep \<notin> set a"
    by (auto dest: split_list_first)
  with Suc.hyps(2) have "n = count_list b sep"
    by (simp add: count_list_0_iff)
  moreover from Suc.prems s a have "l = a \<or> l \<in> set (split sep b)"
    by (simp add: split_append)
  ultimately have "l = a \<or> sublist l b"
    using Suc.hyps(1) by blast
  then show ?case
  proof
    assume "l = a"
    with s show ?thesis by simp
  next
    assume "sublist l b"
    moreover have "sublist b ((a @ [sep]) @ b)"
      by (rule sublist_append_leftI)
    ultimately have "sublist l ((a @ [sep]) @ b)"
      by (rule sublist_order.order_trans)
    with s show ?thesis by simp
  qed
qed

section \<open>Substrings of joined lines\<close>

lemma sublist_append_sep:
  assumes "sep \<notin> set p"
  shows "sublist p (a @ sep # b) \<longleftrightarrow> sublist p a \<or> sublist p b"
proof
  assume "sublist p (a @ sep # b)"
  then consider "sublist p a" | "sublist p (sep # b)"
    | xs1 xs2 where "p = xs1 @ xs2" "suffix xs1 a" "prefix xs2 (sep # b)"
    by (auto simp: sublist_append)
  then show "sublist p a \<or> sublist p b"
  proof cases
    case 1
    then show ?thesis ..
  next
    case 2
    with assms show ?thesis
      by (cases p) (auto simp: sublist_Cons_right)
  next
    case 3
    show ?thesis
    proof (cases xs2)
      case Nil
      with 3 show ?thesis by auto
    next
      case (Cons x xs)
      with 3 assms show ?thesis by auto
    qed
  qed
next
  assume "sublist p a \<or> sublist p b"
  then show "sublist p (a @ sep # b)"
    by (auto simp: sublist_append sublist_Cons_right)
qed

lemma sublist_join:
  "sep \<notin> set p \<Longrightarrow> p \<noteq> [] \<Longrightarrow> sublist p (join sep ls) \<longleftrightarrow> (\<exists>l \<in> set ls. sublist p l)"
  by (induction sep ls rule: join.induct) (auto simp: sublist_append_sep)

section \<open>Properties of the string operations\<close>

lemma trim_surrounded:
  assumes "\<forall>c \<in> set a. isWhiteSpace c" and "\<forall>c \<in> set b. isWhiteSpace c"
  shows "trim (a @ t @ b) = trim t"
proof -
  from assms(2) have "trim (t @ b) = trim t"
  proof (induction b rule: rev_induct)
    case Nil
    then show ?case by simp
  next
    case (snoc c b)
    then show ?case by (simp flip: append_assoc)
  qed
  with assms(1) show ?thesis
    by (induction a) simp_all
qed



text \<open>
  The three searches of the source are the relations of the list
  library: \<open>startsWith\<close> is \<open>prefix\<close>, \<open>endsWith\<close> is \<open>suffix\<close>, and \<open>includes\<close> is
  \<open>sublist\<close>, on code units.
\<close>

theorem searches_spec:
  "(startsWith s p \<longleftrightarrow> prefix p s) \<and> (endsWith s p \<longleftrightarrow> suffix p s) \<and>
   (includesStr s p \<longleftrightarrow> sublist p s)"
  by (simp add: startsWith_iff_prefix endsWith_iff_suffix includesStr_iff_sublist)




end
