(* ===== verification/JS_Value.thy ===== *)
theory JS_Value
  imports ROI_Prelude
begin

text \<open>
  The values of the runtime that the component handles besides strings.

  \<^item> A number is the bit pattern of an IEEE 754 double (\<open>jsnumber\<close>). The source only
    tests numbers for truth and passes them on, so the model has \<open>isNaN\<close> and
    \<open>isZero\<close> and no arithmetic; \<open>truthyNumber\<close> is \<open>ToBoolean\<close> on numbers.
  \<^item> \<open>jsval\<close> is a value of a form field (a string or a number); a field that is
    absent reads as \<open>undefined\<close>, which is \<open>None\<close>. \<open>truthyVal\<close> is \<open>ToBoolean\<close> and
    \<open>toNumber\<close> is the call \<open>Number(v)\<close>, with the conversion of strings as a parameter.
  \<^item> \<open>json\<close> is a value that \<open>JSON.parse\<close> returns, \<open>truthyJson\<close> its \<open>ToBoolean\<close>, and
    \<open>truthyOrNull\<close> the same test on a state cell that may hold \<open>null\<close>.
  \<^item> \<open>jsError\<close> are the exceptions that the modelled code can raise: a call of a method
    that the value does not have is a \<open>TypeError\<close>.
\<close>

unbundle bit_operations_syntax

section \<open>Numbers, field values and JSON values\<close>

type_synonym jsnumber = "64 word"

definition isNaN :: "jsnumber \<Rightarrow> bool" where
  "isNaN n \<longleftrightarrow>
     n AND 0x7FF0000000000000 = 0x7FF0000000000000 \<and> n AND 0x000FFFFFFFFFFFFF \<noteq> 0"

definition isZero :: "jsnumber \<Rightarrow> bool" where
  "isZero n \<longleftrightarrow> n AND 0x7FFFFFFFFFFFFFFF = 0"

definition NaN :: jsnumber where
  "NaN = 0x7FF8000000000000"

definition truthyNumber :: "jsnumber \<Rightarrow> bool" where
  "truthyNumber n \<longleftrightarrow> \<not> isZero n \<and> \<not> isNaN n"

datatype jsval = Str jsstring | Num jsnumber

fun truthyVal :: "jsval option \<Rightarrow> bool" where
  "truthyVal None = False"
| "truthyVal (Some (Str s)) = truthy s"
| "truthyVal (Some (Num n)) = truthyNumber n"

fun toNumber :: "(jsstring \<Rightarrow> jsnumber) \<Rightarrow> jsval option \<Rightarrow> jsnumber" where
  "toNumber Number None = NaN"
| "toNumber Number (Some (Str s)) = Number s"
| "toNumber Number (Some (Num n)) = n"

datatype json =
    JNull
  | JBool bool
  | JNum jsnumber
  | JStr jsstring
  | JArr "json list"
  | JObj "(jsstring \<times> json) list"

fun truthyJson :: "json \<Rightarrow> bool" where
  "truthyJson JNull = False"
| "truthyJson (JBool b) = b"
| "truthyJson (JNum n) = truthyNumber n"
| "truthyJson (JStr s) = truthy s"
| "truthyJson (JArr vs) = True"
| "truthyJson (JObj props) = True"

datatype jsError = TypeError

definition truthyOrNull :: "json option \<Rightarrow> bool" where
  "truthyOrNull r \<longleftrightarrow> (case r of None \<Rightarrow> False | Some v \<Rightarrow> truthyJson v)"

lemmas [form_defs] = isNaN_def isZero_def NaN_def truthyNumber_def truthyOrNull_def

section \<open>Truth of numbers and values\<close>

lemma truthyNumber_simps [simp]:
  "\<not> truthyNumber 0" "\<not> truthyNumber 0x8000000000000000" "\<not> truthyNumber NaN"
  by (simp_all add: truthyNumber_def isZero_def isNaN_def NaN_def)

lemma isNaN_NaN [simp]: "isNaN NaN"
  by (simp add: isNaN_def NaN_def)

lemma truthyVal_empty [simp]: "\<not> truthyVal (Some (Str []))"
  by simp

lemma truthyNumber_not_NaN: "truthyNumber n \<Longrightarrow> \<not> isNaN n \<and> \<not> isZero n"
  by (simp add: truthyNumber_def)

end
