(* ===== verification/JSX.thy ===== *)
theory JSX
  imports JS_Value
begin

text \<open>
  The element trees that the component returns. A JSX expression of the source
  is an \<open>Element\<close> with its tag, its React \<open>key\<close> (if the source gives one), its
  other attributes in source order (\<open>props\<close>), its \<open>className\<close>, its inline \<open>style\<close>
  object as the list of its properties in source order, and its children; a string
  child is a \<open>TextNode\<close>. An attribute is a string literal, a boolean, a number, a
  value read from the state, or a reference to a handler or to a ref of the
  component. \<open>textOf\<close> is the text a tree displays (the DOM's \<open>textContent\<close>).
\<close>

datatype attr =
    Lit string
  | Flag bool
  | Numeric jsnumber
  | Value "jsval option"
  | Handler string
  | Ref string

datatype jsx =
    Element (tag: string) (key: "nat option") (props: "(string \<times> attr) list")
      (className: string) (style: "(string \<times> string) list") (children: "jsx list")
  | TextNode (content: jsstring)

fun textOf :: "jsx \<Rightarrow> jsstring" where
  "textOf (TextNode s) = s"
| "textOf (Element t k ps c st cs) = concat (map textOf cs)"

end
