(* ===== verification/Report_Formatter.thy ===== *)
theory Report_Formatter
  imports JS_String JSX
begin

text \<open>
  The on-screen formatter \<open>formatRoiResult\<close> of
  \<open>src/components/CalculadoraROI.tsx\<close> (lines 78 to 128) and the contract it
  implements.

  \<^item> \<open>paragraphsOf\<close> is the cleaning and splitting of the report text,
    \<open>paragraphElement\<close> the chain of tests that chooses the element of one line,
    \<open>pushParagraph\<close> the body of the \<open>forEach\<close> loop with its early return, and
    \<open>formatRoiResult\<close> the loop over the indexed paragraphs.
  \<^item> \<open>block\<close>, \<open>classify\<close> and \<open>format\<close> are the contract: a report is a sequence
    of headings, subheadings, list items and paragraphs, one per non-blank line,
    in the order of the lines. They are stated with the predicates of the list
    library and not with the string operations of the source.
  \<^item> \<open>block_of\<close> reads an element back as a block; the refinement lemma
    \<open>formatRoiResult_refines\<close> says that the elements of \<open>formatRoiResult\<close> are the blocks
    of \<open>format\<close>.
\<close>

section \<open>The formatter of the source\<close>

definition paragraphsOf :: "jsstring \<Rightarrow> jsstring list" where
  "paragraphsOf result =
     (let cleanText = trim (stripAll (js ''**'') result)
      in filter (\<lambda>p. truthy (trim p)) (split LF cleanText))"

definition paragraphElement :: "nat \<Rightarrow> jsstring \<Rightarrow> jsx" where
  "paragraphElement index trimmed =
     (if includesStr trimmed (utf16 0x1F64C) \<or> includesStr trimmed (utf16 0x1F4C8) \<or>
         includesStr trimmed (utf16 0x1F4B0) \<or> includesStr trimmed (utf16 0x23F0) \<or>
         includesStr trimmed (utf16 0x1F3AF) then
        Element ''h2'' (Some index) []
          ''text-2xl font-bold text-cyan-700 mb-6 mt-8 first:mt-0 text-center'' []
          [TextNode trimmed]
      else if endsWith trimmed (js '':'') \<or> endsWith trimmed (js ''?'') then
        Element ''h3'' (Some index) []
          ''text-lg font-semibold text-slate-800 mb-3 mt-6 first:mt-0'' []
          [TextNode trimmed]
      else if startsWith trimmed (js ''-'') \<or> startsWith trimmed (utf16 0x2022) \<or>
              startsWith trimmed (js ''*'') then
        Element ''div'' (Some index) [] ''flex items-start mb-2 ml-4'' []
          [Element ''div'' None []
             ''flex-shrink-0 w-1.5 h-1.5 bg-cyan-600 rounded-full mt-2.5 mr-3'' [] [],
           Element ''p'' None [] ''text-slate-700 leading-relaxed'' []
             [TextNode (trim (substring 1 trimmed))]]
      else
        Element ''p'' (Some index) [] ''text-slate-700 leading-relaxed text-base mb-4'' []
          [TextNode trimmed])"

definition pushParagraph :: "jsx list \<Rightarrow> nat \<times> jsstring \<Rightarrow> jsx list" where
  "pushParagraph elements ip =
     (let index = fst ip; paragraph = snd ip; trimmed = trim paragraph
      in if \<not> truthy trimmed then elements
         else elements @ [paragraphElement index trimmed])"

definition formatRoiResult :: "jsstring \<Rightarrow> jsx list" where
  "formatRoiResult result = foldl pushParagraph [] (enumerate 0 (paragraphsOf result))"

lemmas [fmt_defs] =
  paragraphsOf_def paragraphElement_def pushParagraph_def formatRoiResult_def

section \<open>The contract\<close>

datatype block =
    Heading jsstring
  | Subheading jsstring
  | ListItem jsstring
  | Paragraph jsstring

datatype kind = HeadingK | SubheadingK | ListItemK | ParagraphK

fun kindOf :: "block \<Rightarrow> kind" where
  "kindOf (Heading t) = HeadingK"
| "kindOf (Subheading t) = SubheadingK"
| "kindOf (ListItem t) = ListItemK"
| "kindOf (Paragraph t) = ParagraphK"

fun blockText :: "block \<Rightarrow> jsstring" where
  "blockText (Heading t) = t"
| "blockText (Subheading t) = t"
| "blockText (ListItem t) = t"
| "blockText (Paragraph t) = t"

definition headingMarkers :: "jsstring list" where
  "headingMarkers = [utf16 0x1F64C, utf16 0x1F4C8, utf16 0x1F4B0, utf16 0x23F0, utf16 0x1F3AF]"

definition isHeading :: "jsstring \<Rightarrow> bool" where
  "isHeading t \<longleftrightarrow> (\<exists>m \<in> set headingMarkers. sublist m t)"

definition isSubheading :: "jsstring \<Rightarrow> bool" where
  "isSubheading t \<longleftrightarrow> t \<noteq> [] \<and> last t \<in> {0x3A, 0x3F}"

definition isListItem :: "jsstring \<Rightarrow> bool" where
  "isListItem t \<longleftrightarrow> t \<noteq> [] \<and> hd t \<in> {0x2D, 0x2022, 0x2A}"

definition classify :: "jsstring \<Rightarrow> block" where
  "classify t =
     (if isHeading t then Heading t
      else if isSubheading t then Subheading t
      else if isListItem t then ListItem (trim (tl t))
      else Paragraph t)"

definition blank :: "jsstring \<Rightarrow> bool" where
  "blank l \<longleftrightarrow> (\<forall>c \<in> set l. isWhiteSpace c)"

definition trimmedLines :: "jsstring \<Rightarrow> jsstring list" where
  "trimmedLines s = map trim (filter (\<lambda>l. \<not> blank l) (split LF s))"

definition format :: "jsstring \<Rightarrow> block list" where
  "format text =
     map (classify \<circ> trim)
       (filter (\<lambda>l. \<not> blank l) (split LF (trim (stripAll [0x2A, 0x2A] text))))"

section \<open>Reading an element as a block\<close>

definition block_of :: "jsx \<Rightarrow> block option" where
  "block_of e =
     (case e of
        TextNode s \<Rightarrow> None
      | Element t k ps c st cs \<Rightarrow>
          if t = ''h2'' then Some (Heading (textOf e))
          else if t = ''h3'' then Some (Subheading (textOf e))
          else if t = ''div'' then Some (ListItem (textOf e))
          else if t = ''p'' then Some (Paragraph (textOf e))
          else None)"

section \<open>The example of the specification\<close>

definition example_report :: jsstring where
  "example_report =
     utf16 0x1F3AF @ js '' Resumen'' @ [LF] @ js ''Ahorro estimado: $500'' @ [LF] @
     js ''- Reduce 3 horas'' @ [LF] @ js ''Este es un comentario final''"

section \<open>Literals of the source\<close>

lemma literal_units [simp]:
  "js '':'' = [0x3A]" "js ''?'' = [0x3F]" "js ''-'' = [0x2D]" "js ''*'' = [0x2A]"
  "js ''**'' = [0x2A, 0x2A]" "utf16 0x2022 = [0x2022]" "utf16 0x23F0 = [0x23F0]"
  by (simp_all add: utf16_def)

lemma marker_units:
  "utf16 0x1F64C = [0xD83D, 0xDE4C]" "utf16 0x1F4C8 = [0xD83D, 0xDCC8]"
  "utf16 0x1F4B0 = [0xD83D, 0xDCB0]" "utf16 0x1F3AF = [0xD83C, 0xDFAF]"
  by (simp_all add: utf16_def)

section \<open>The loop is a map over the indexed paragraphs\<close>

lemma truthy_trim_blank: "truthy (trim p) \<longleftrightarrow> \<not> blank p"
  by (simp add: truthy_trim_iff blank_def)

lemma paragraphsOf_eq:
  "paragraphsOf result =
     filter (\<lambda>l. \<not> blank l) (split LF (trim (stripAll [0x2A, 0x2A] result)))"
  by (simp add: paragraphsOf_def truthy_trim_blank)

lemma paragraphsOf_not_blank: "p \<in> set (paragraphsOf result) \<Longrightarrow> \<not> blank p"
  by (simp add: paragraphsOf_eq)

lemma pushParagraph_paragraph:
  "\<not> blank p \<Longrightarrow> pushParagraph es (i, p) = es @ [paragraphElement i (trim p)]"
  by (simp add: pushParagraph_def truthy_trim_blank)

lemma pushParagraph_blank: "blank p \<Longrightarrow> pushParagraph es (i, p) = es"
  by (simp add: pushParagraph_def truthy_trim_blank)

lemma formatRoiResult_map:
  "formatRoiResult result =
     map (\<lambda>ip. paragraphElement (fst ip) (trim (snd ip))) (enumerate 0 (paragraphsOf result))"
proof -
  have "foldl pushParagraph [] (enumerate 0 (paragraphsOf result)) =
      [] @ concat (map (\<lambda>ip. [paragraphElement (fst ip) (trim (snd ip))])
        (enumerate 0 (paragraphsOf result)))"
  proof (rule foldl_push_cong)
    fix acc ip
    assume "ip \<in> set (enumerate 0 (paragraphsOf result))"
    then have "snd ip \<in> set (paragraphsOf result)"
      by (rule snd_in_set_enumerate)
    then have "\<not> blank (snd ip)"
      by (rule paragraphsOf_not_blank)
    then show "pushParagraph acc ip = acc @ [paragraphElement (fst ip) (trim (snd ip))]"
      using pushParagraph_paragraph [of "snd ip" acc "fst ip"] by simp
  qed
  then show ?thesis
    by (simp add: formatRoiResult_def)
qed

lemma length_formatRoiResult: "length (formatRoiResult result) = length (paragraphsOf result)"
  by (simp add: formatRoiResult_map)

section \<open>One element for one line\<close>

lemma key_paragraphElement [simp]: "key (paragraphElement i t) = Some i"
  by (simp add: paragraphElement_def)

lemma includes_marker_iff:
  "includesStr t (utf16 0x1F64C) \<or> includesStr t (utf16 0x1F4C8) \<or>
   includesStr t (utf16 0x1F4B0) \<or> includesStr t (utf16 0x23F0) \<or>
   includesStr t (utf16 0x1F3AF) \<longleftrightarrow> isHeading t"
  by (simp add: isHeading_def headingMarkers_def includesStr_iff_sublist del: literal_units)

lemma ends_mark_iff: "endsWith t (js '':'') \<or> endsWith t (js ''?'') \<longleftrightarrow> isSubheading t"
  by (auto simp: isSubheading_def)

lemma starts_mark_iff:
  "startsWith t (js ''-'') \<or> startsWith t (utf16 0x2022) \<or> startsWith t (js ''*'') \<longleftrightarrow>
   isListItem t"
  by (auto simp: isListItem_def)

lemma substring_1_tl [simp]: "substring (Suc 0) t = tl t"
  by (cases t) (simp_all add: substring_def)

lemma block_of_paragraphElement [simp]: "block_of (paragraphElement i t) = Some (classify t)"
  unfolding paragraphElement_def includes_marker_iff ends_mark_iff starts_mark_iff
  by (simp add: block_of_def classify_def)

section \<open>Refinement\<close>

lemma blocks_paragraphsOf:
  "map block_of (formatRoiResult result) = map (Some \<circ> classify \<circ> trim) (paragraphsOf result)"
proof -
  have "map block_of (formatRoiResult result) =
      map (\<lambda>ip. (Some \<circ> classify \<circ> trim) (snd ip)) (enumerate 0 (paragraphsOf result))"
    by (simp add: formatRoiResult_map comp_def)
  also have "\<dots> = map (Some \<circ> classify \<circ> trim) (paragraphsOf result)"
    by (rule map_enumerate_snd)
  finally show ?thesis .
qed

section \<open>The trimmed lines of a text\<close>

lemma blank_simps [simp]:
  "blank []"
  "blank (c # l) \<longleftrightarrow> isWhiteSpace c \<and> blank l"
  "blank (l @ k) \<longleftrightarrow> blank l \<and> blank k"
  by (auto simp: blank_def)

lemma trimmedLines_Cons_ws: "isWhiteSpace c \<Longrightarrow> trimmedLines (c # s) = trimmedLines s"
proof -
  assume ws: "isWhiteSpace c"
  obtain l ls where spl: "split LF s = l # ls"
    by (cases "split LF s") simp_all
  with ws show ?thesis
    by (simp add: trimmedLines_def split_Cons)
qed

lemma trimmedLines_snoc_ws: "isWhiteSpace c \<Longrightarrow> trimmedLines (s @ [c]) = trimmedLines s"
proof -
  assume ws: "isWhiteSpace c"
  obtain ls l where spl: "split LF s = ls @ [l]"
    by (cases "split LF s" rule: rev_cases) simp_all
  with ws show ?thesis
    by (simp add: trimmedLines_def split_snoc)
qed

lemma trimmedLines_trimStart: "trimmedLines (trimStart s) = trimmedLines s"
  by (induction s) (simp_all add: trimStart_def trimmedLines_Cons_ws)

lemma trimmedLines_trimEnd: "trimmedLines (trimEnd s) = trimmedLines s"
  by (induction s rule: rev_induct) (simp_all add: trimEnd_def trimmedLines_snoc_ws)

lemma trimmedLines_trim [simp]: "trimmedLines (trim s) = trimmedLines s"
  by (simp add: trim_def trimmedLines_trimEnd trimmedLines_trimStart)

section \<open>One block for each line\<close>

lemma format_trimmedLines: "format text = map classify (trimmedLines (stripAll [0x2A, 0x2A] text))"
proof -
  have "format text = map classify (trimmedLines (trim (stripAll [0x2A, 0x2A] text)))"
    by (simp add: format_def trimmedLines_def)
  then show ?thesis by simp
qed

lemma trimmedLines_join:
  assumes "\<forall>l \<in> set ls. LF \<notin> set l \<and> \<not> blank l"
  shows "trimmedLines (join LF ls) = map trim ls"
proof (cases "ls = []")
  case True
  then show ?thesis by (simp add: trimmedLines_def)
next
  case False
  with assms have "split LF (join LF ls) = ls"
    by (simp add: split_join)
  moreover from assms have "filter (\<lambda>l. \<not> blank l) ls = ls"
    by (simp add: filter_id_conv)
  ultimately show ?thesis
    by (simp add: trimmedLines_def)
qed

lemma stripAll_join_id:
  assumes "\<forall>l \<in> set ls. \<not> sublist [0x2A, 0x2A] l"
  shows "stripAll [0x2A, 0x2A] (join LF ls) = join LF ls"
proof (rule stripAll_id)
  have "LF \<notin> set [0x2A, 0x2A :: code_unit]"
    by (simp add: LF_def)
  with assms show "\<not> includesStr (join LF ls) [0x2A, 0x2A]"
    by (simp add: includesStr_iff_sublist sublist_join del: set_simps)
qed

lemma format_join:
  assumes "\<forall>l \<in> set ls. LF \<notin> set l \<and> \<not> blank l \<and> \<not> sublist [0x2A, 0x2A] l"
  shows "format (join LF ls) = map (classify \<circ> trim) ls"
  using assms by (simp add: format_trimmedLines stripAll_join_id trimmedLines_join)

section \<open>What the elements display\<close>

lemma textOf_paragraphElement [simp]: "textOf (paragraphElement i t) = blockText (classify t)"
  unfolding paragraphElement_def includes_marker_iff ends_mark_iff starts_mark_iff
  by (simp add: classify_def)

lemma sublist_blockText: "sublist (blockText (classify t)) t"
proof -
  have "sublist (trim (tl t)) t"
    using sublist_trim [of "tl t"] sublist_tl [of t] by (rule sublist_order.order_trans)
  then show ?thesis
    by (simp add: classify_def)
qed

lemma isListItem_not_Nil: "isListItem t \<Longrightarrow> t \<noteq> []"
  by (simp add: isListItem_def)

lemma isListItem_plain: "isListItem t \<Longrightarrow> \<not> isSurrogate (hd t)"
  by (auto simp: isListItem_def isSurrogate_def isHighSurrogate_def isLowSurrogate_def
      word_le_nat_alt)

lemma wellFormed_tl_listItem:
  assumes "wellFormed t" and "isListItem t"
  shows "wellFormed (trim (tl t))"
proof (cases t)
  case Nil
  then show ?thesis by simp
next
  case (Cons c u)
  with assms(2) have "\<not> isSurrogate c"
    using isListItem_plain [of t] by simp
  with assms(1) Cons have "wellFormed u"
    by simp
  with Cons show ?thesis
    by (simp add: wellFormed_trim)
qed

lemma wellFormed_blockText: "wellFormed t \<Longrightarrow> wellFormed (blockText (classify t))"
  by (simp add: classify_def wellFormed_tl_listItem)

lemma paragraphsOf_sublist:
  assumes "p \<in> set (paragraphsOf result)"
  shows "sublist p (stripAll [0x2A, 0x2A] result)"
proof -
  from assms have "p \<in> set (split LF (trim (stripAll [0x2A, 0x2A] result)))"
    by (simp add: paragraphsOf_eq)
  then have "sublist p (trim (stripAll [0x2A, 0x2A] result))"
    by (rule split_sublist)
  then show ?thesis
    using sublist_trim by (rule sublist_order.order_trans)
qed

lemma paragraphsOf_wellFormed:
  assumes "wellFormed result" and "p \<in> set (paragraphsOf result)"
  shows "wellFormed p"
proof -
  have "\<forall>c \<in> set [0x2A, 0x2A :: code_unit]. \<not> isSurrogate c"
    by (simp add: isSurrogate_def isHighSurrogate_def isLowSurrogate_def)
  with assms(1) have wf: "wellFormed (trim (stripAll [0x2A, 0x2A] result))"
    by (simp add: wellFormed_trim wellFormed_stripAll)
  have "\<not> isSurrogate LF"
    using LF_ws by (rule isWhiteSpace_plain)
  moreover note wf
  moreover from assms(2) have "p \<in> set (split LF (trim (stripAll [0x2A, 0x2A] result)))"
    by (simp add: paragraphsOf_eq)
  ultimately show ?thesis
    by (rule wellFormed_split)
qed

lemma formatRoiResult_elem:
  assumes "e \<in> set (formatRoiResult result)"
  obtains i p where "p \<in> set (paragraphsOf result)" "e = paragraphElement i (trim p)"
proof -
  from assms have "e \<in> (\<lambda>ip. paragraphElement (fst ip) (trim (snd ip))) `
      set (enumerate 0 (paragraphsOf result))"
    by (simp only: formatRoiResult_map set_map)
  then obtain ip where ip: "ip \<in> set (enumerate 0 (paragraphsOf result))"
    and e: "e = paragraphElement (fst ip) (trim (snd ip))"
    by (rule imageE)
  from ip have "snd ip \<in> set (paragraphsOf result)"
    by (rule snd_in_set_enumerate)
  then show thesis
    using e by (rule that)
qed

lemma formatRoiResult_empty: "formatRoiResult [] = []"
  by (simp add: formatRoiResult_def paragraphsOf_eq split.simps)

section \<open>Properties of the formatter\<close>

lemma blank_trim [simp]: "blank (trim l) \<longleftrightarrow> blank l"
proof
  assume b: "blank (trim l)"
  have "trim l = []"
  proof (rule ccontr)
    assume ne: "trim l \<noteq> []"
    then have "\<not> isWhiteSpace (hd (trim l))" by (rule trim_hd)
    moreover from ne have "hd (trim l) \<in> set (trim l)" by simp
    ultimately show False using b by (auto simp: blank_def)
  qed
  then show "blank l" by (simp add: trim_eq_Nil_iff blank_def)
next
  assume "blank l"
  then have "trim l = []" by (simp add: trim_eq_Nil_iff blank_def)
  then show "blank (trim l)" by simp
qed

lemma paragraphElement_cases:
  "isHeading t \<Longrightarrow> paragraphElement i t =
     Element ''h2'' (Some i) []
       ''text-2xl font-bold text-cyan-700 mb-6 mt-8 first:mt-0 text-center'' [] [TextNode t]"
  "\<not> isHeading t \<Longrightarrow> isSubheading t \<Longrightarrow> paragraphElement i t =
     Element ''h3'' (Some i) []
       ''text-lg font-semibold text-slate-800 mb-3 mt-6 first:mt-0'' [] [TextNode t]"
  "\<not> isHeading t \<Longrightarrow> \<not> isSubheading t \<Longrightarrow> isListItem t \<Longrightarrow> paragraphElement i t =
     Element ''div'' (Some i) [] ''flex items-start mb-2 ml-4'' []
       [Element ''div'' None []
          ''flex-shrink-0 w-1.5 h-1.5 bg-cyan-600 rounded-full mt-2.5 mr-3'' [] [],
        Element ''p'' None [] ''text-slate-700 leading-relaxed'' [] [TextNode (trim (tl t))]]"
  "\<not> isHeading t \<Longrightarrow> \<not> isSubheading t \<Longrightarrow> \<not> isListItem t \<Longrightarrow> paragraphElement i t =
     Element ''p'' (Some i) [] ''text-slate-700 leading-relaxed text-base mb-4'' [] [TextNode t]"
  unfolding paragraphElement_def includes_marker_iff ends_mark_iff starts_mark_iff
  by simp_all

lemma length_trimmedLines:
  "length (trimmedLines s) = length (filter (\<lambda>l. \<not> blank l) (split LF s))"
  by (simp add: trimmedLines_def)

lemma formatRoiResult_trimmedLines:
  "map block_of (formatRoiResult result) =
     map (Some \<circ> classify) (trimmedLines (stripAll [0x2A, 0x2A] result))"
proof -
  have "map block_of (formatRoiResult result) =
      map (Some \<circ> classify) (trimmedLines (trim (stripAll [0x2A, 0x2A] result)))"
    by (simp add: blocks_paragraphsOf paragraphsOf_eq trimmedLines_def)
  then show ?thesis by simp
qed

text \<open>
  C1 (refinement). The elements that \<open>formatRoiResult\<close> returns are, read as blocks,
  exactly the blocks of the contract \<open>format\<close>, in the same order: the loop with its
  index, its early return and its four pushes implements the ordered classification
  of the non-blank lines.
\<close>

theorem formatRoiResult_refines:
  "map block_of (formatRoiResult result) = map Some (format result)"
  by (simp add: formatRoiResult_trimmedLines format_trimmedLines)

text \<open>
  C13 (functional). For a text given as lines that hold no line feed, are not blank and
  hold no emphasis marker, \<open>formatRoiResult\<close> returns one element for each line, in the
  order of the lines, and the element of a line is the classification of the trimmed
  line.
\<close>

theorem formatRoiResult_lines:
  assumes "\<forall>l \<in> set ls. LF \<notin> set l \<and> \<not> blank l \<and> \<not> sublist [0x2A, 0x2A] l"
  shows "map block_of (formatRoiResult (join LF ls)) = map (Some \<circ> classify \<circ> trim) ls"
proof -
  have "map block_of (formatRoiResult (join LF ls)) = map Some (map (classify \<circ> trim) ls)"
    using assms by (simp add: formatRoiResult_trimmedLines stripAll_join_id trimmedLines_join)
  then show ?thesis by simp
qed

theorem formatRoiResult_lines_witness:
  "map block_of (formatRoiResult (join LF [js ''Costo:'', js '' - uno '', js ''fin'']))
     = [Some (Subheading (js ''Costo:'')), Some (ListItem (js ''uno'')), Some (Paragraph (js ''fin''))]"
proof -
  have "\<forall>l \<in> set [js ''Costo:'', js '' - uno '', js ''fin''].
      LF \<notin> set l \<and> \<not> blank l \<and> \<not> sublist [0x2A, 0x2A] l"
    by (simp add: LF_def blank_def isWhiteSpace_def flip: includesStr_iff_sublist)
  from formatRoiResult_lines [OF this] show ?thesis
    by (simp add: classify_def isHeading_def isSubheading_def isListItem_def headingMarkers_def
        js_defs flip: includesStr_iff_sublist)
qed


text \<open>
  C32 (invariant). The React keys of the returned elements are \<open>0, 1, \<dots>, n - 1\<close>: the
  index that \<open>forEach\<close> passes counts the paragraphs that passed the filter, and since
  the early return of the loop body never fires after that filter, no index is skipped
  and no key is used twice.
\<close>

theorem formatRoiResult_keys:
  "map key (formatRoiResult result) = map Some [0..<length (formatRoiResult result)]"
proof -
  have "map key (formatRoiResult result) =
      map (\<lambda>ip. Some (fst ip)) (enumerate 0 (paragraphsOf result))"
    by (simp add: formatRoiResult_map comp_def)
  also have "\<dots> = map Some [0..<0 + length (paragraphsOf result)]"
    by (rule map_enumerate_fst)
  finally show ?thesis
    by (simp add: length_formatRoiResult)
qed

text \<open>
  The number of elements is the number of non-blank lines of the text
  without its emphasis markers. The \<open>trim\<close> of the whole text, which the source applies
  before it splits, does not change that number.
\<close>

theorem formatRoiResult_count:
  "length (formatRoiResult result) =
     length (filter (\<lambda>l. \<not> blank l) (split LF (stripAll (js ''**'') result)))"
proof -
  have "length (formatRoiResult result) = length (map block_of (formatRoiResult result))"
    by simp
  also have "\<dots> = length (trimmedLines (stripAll [0x2A, 0x2A] result))"
    by (simp only: formatRoiResult_trimmedLines length_map)
  finally show ?thesis
    by (simp add: length_trimmedLines)
qed

text \<open>
  C33 (invariant). If the report text is well-formed UTF-16, so is the text of every
  element that \<open>formatRoiResult\<close> returns: stripping the emphasis markers, trimming,
  splitting at line feeds and dropping the list marker never separate the two
  surrogates of a character.
\<close>

theorem formatRoiResult_wellFormed:
  assumes "wellFormed result" and "e \<in> set (formatRoiResult result)"
  shows "wellFormed (textOf e)"
proof -
  from assms(2) obtain i p where p: "p \<in> set (paragraphsOf result)"
    and e: "e = paragraphElement i (trim p)"
    by (rule formatRoiResult_elem)
  from assms(1) p have "wellFormed p"
    by (rule paragraphsOf_wellFormed)
  then have "wellFormed (trim p)"
    by (rule wellFormed_trim)
  with e show ?thesis
    by (simp add: wellFormed_blockText)
qed

theorem formatRoiResult_wellFormed_witness:
  "wellFormed (utf16 0x1F4B0 @ js '' ok'') \<and>
   Element ''h2'' (Some 0) [] ''text-2xl font-bold text-cyan-700 mb-6 mt-8 first:mt-0 text-center'' []
     [TextNode (utf16 0x1F4B0 @ js '' ok'')] \<in> set (formatRoiResult (utf16 0x1F4B0 @ js '' ok'')) \<and>
   wellFormed (textOf (Element ''h2'' (Some 0) []
     ''text-2xl font-bold text-cyan-700 mb-6 mt-8 first:mt-0 text-center'' []
     [TextNode (utf16 0x1F4B0 @ js '' ok'')]))"
proof -
  have wf: "wellFormed (utf16 0x1F4B0 @ js '' ok'')"
    by (simp add: js_defs)
  have mem: "Element ''h2'' (Some 0) []
      ''text-2xl font-bold text-cyan-700 mb-6 mt-8 first:mt-0 text-center'' []
      [TextNode (utf16 0x1F4B0 @ js '' ok'')] \<in> set (formatRoiResult (utf16 0x1F4B0 @ js '' ok''))"
    by (simp add: fmt_defs js_defs)
  from formatRoiResult_wellFormed [OF wf mem] wf mem show ?thesis
    by blast
qed

text \<open>
  C35 (safety). No element that \<open>formatRoiResult\<close> returns displays the emphasis marker
  \<open>**\<close>: the markers are removed from the whole text before it is split, and the
  removal leaves no two adjacent asterisks behind.
\<close>

theorem formatRoiResult_bold_free:
  assumes "e \<in> set (formatRoiResult result)"
  shows "\<not> sublist (js ''**'') (textOf e)"
proof
  assume bold: "sublist (js ''**'') (textOf e)"
  from assms obtain i p where p: "p \<in> set (paragraphsOf result)"
    and e: "e = paragraphElement i (trim p)"
    by (rule formatRoiResult_elem)
  have "sublist (textOf e) (trim p)"
    by (simp add: e sublist_blockText)
  also have "sublist (trim p) p"
    by (rule sublist_trim)
  also from p have "sublist p (stripAll [0x2A, 0x2A] result)"
    by (rule paragraphsOf_sublist)
  finally have "sublist [0x2A, 0x2A] (stripAll [0x2A, 0x2A] result)"
    using bold by (simp add: sublist_order.order_trans)
  then show False
    using stripAll_double_free [of "0x2A" result] by (simp add: includesStr_iff_sublist)
qed

theorem formatRoiResult_bold_free_witness:
  "Element ''p'' (Some 0) [] ''text-slate-700 leading-relaxed text-base mb-4'' []
     [TextNode (js ''a*b'')] \<in> set (formatRoiResult (js ''a***b'')) \<and>
   \<not> sublist (js ''**'') (textOf (Element ''p'' (Some 0) []
     ''text-slate-700 leading-relaxed text-base mb-4'' [] [TextNode (js ''a*b'')]))"
proof -
  have mem: "Element ''p'' (Some 0) [] ''text-slate-700 leading-relaxed text-base mb-4'' []
      [TextNode (js ''a*b'')] \<in> set (formatRoiResult (js ''a***b''))"
    by (simp add: fmt_defs js_defs)
  from formatRoiResult_bold_free [OF mem] mem show ?thesis
    by blast
qed


text \<open>
  C37 (functional). A line that holds one of the five heading glyphs becomes a heading,
  whatever it ends or starts with: the test for the glyphs comes first. The heading is
  the only element, it has key 0, and it displays the trimmed line.
\<close>

theorem formatRoiResult_heading_first:
  assumes "LF \<notin> set l" and "\<not> sublist (js ''**'') l" and "isHeading (trim l)"
  shows "formatRoiResult l =
     [Element ''h2'' (Some 0) []
        ''text-2xl font-bold text-cyan-700 mb-6 mt-8 first:mt-0 text-center'' []
        [TextNode (trim l)]]"
proof -
  from assms(3) have "trim l \<noteq> []"
    by (auto simp: isHeading_def headingMarkers_def utf16_def)
  then have nb: "\<not> blank l"
    by (simp add: trim_eq_Nil_iff blank_def)
  from assms(2) have "stripAll [0x2A, 0x2A] l = l"
    by (simp add: stripAll_id includesStr_iff_sublist)
  moreover from assms(1) have "LF \<notin> set (trim l)"
    using set_trim [of l] by blast
  ultimately have "paragraphsOf l = [trim l]"
    using nb by (simp add: paragraphsOf_eq split_id)
  with assms(3) show ?thesis
    by (simp add: formatRoiResult_map paragraphElement_cases)
qed

theorem formatRoiResult_heading_first_witness:
  "formatRoiResult (js ''- Plan '' @ utf16 0x23F0 @ js '':'') =
     [Element ''h2'' (Some 0) []
        ''text-2xl font-bold text-cyan-700 mb-6 mt-8 first:mt-0 text-center'' []
        [TextNode (js ''- Plan '' @ utf16 0x23F0 @ js '':'')]]"
proof -
  have 1: "LF \<notin> set (js ''- Plan '' @ utf16 0x23F0 @ js '':'')"
    by (simp add: js_defs)
  have 2: "\<not> sublist (js ''**'') (js ''- Plan '' @ utf16 0x23F0 @ js '':'')"
    by (simp add: js_defs flip: includesStr_iff_sublist)
  have 3: "trim (js ''- Plan '' @ utf16 0x23F0 @ js '':'') = js ''- Plan '' @ utf16 0x23F0 @ js '':''"
    by (simp add: js_defs)
  have 4: "isHeading (trim (js ''- Plan '' @ utf16 0x23F0 @ js '':''))"
    unfolding 3 by (simp add: isHeading_def headingMarkers_def js_defs flip: includesStr_iff_sublist)
  from formatRoiResult_heading_first [OF 1 2 4] show ?thesis
    by (simp only: 3)
qed

end
