(* ===== verification/Code_Points.thy ===== *)
theory Code_Points
  imports JS_String
begin

text \<open>
  Strings as sequences of Unicode code points, the reading under which the
  specification speaks of glyphs.

  \<^item> \<open>codePoints\<close> reads a string the way the string iterator of the runtime does: a
    high surrogate followed by a low surrogate is one code point, every other code
    unit stands for itself. \<open>fromCodePoints\<close> is the encoding, \<open>scalar\<close> says that a
    number is a code point that a well-formed text can hold.
  \<^item> \<open>stripGlyphs\<close> removes code points: it is what a regular expression with a
    character class does when it has the \<open>u\<close> flag, and what the specification means
    by removing the marker glyphs.

  The lemmas give the round trip between the two readings and say when \<open>stripClass\<close>,
  which removes code units, agrees with \<open>stripGlyphs\<close>.
\<close>

section \<open>Code points\<close>

fun codePoints :: "jsstring \<Rightarrow> nat list" where
  "codePoints [] = []"
| "codePoints [c] = [unat c]"
| "codePoints (c # d # cs) =
     (if isHighSurrogate c \<and> isLowSurrogate d
      then (0x10000 + (unat c - 0xD800) * 0x400 + (unat d - 0xDC00)) # codePoints cs
      else unat c # codePoints (d # cs))"

definition fromCodePoints :: "nat list \<Rightarrow> jsstring" where
  "fromCodePoints cps = concat (map utf16 cps)"

definition stripGlyphs :: "nat list \<Rightarrow> jsstring \<Rightarrow> jsstring" where
  "stripGlyphs glyphs s = fromCodePoints (filter (\<lambda>cp. cp \<notin> set glyphs) (codePoints s))"

definition scalar :: "nat \<Rightarrow> bool" where
  "scalar cp \<longleftrightarrow> cp < 0x110000 \<and> \<not> (0xD800 \<le> cp \<and> cp \<le> 0xDFFF)"

section \<open>Encoding and decoding\<close>

lemma utf16_unit [simp]: "utf16 (unat (c :: code_unit)) = [c]"
proof -
  have "unat c < 0x10000"
    using unsigned_less [of c, where ?'a = nat] by simp
  then show ?thesis
    by (simp add: utf16_def)
qed

lemma surrogate_bounds:
  "isHighSurrogate c \<longleftrightarrow> 0xD800 \<le> unat c \<and> unat c \<le> 0xDBFF"
  "isLowSurrogate d \<longleftrightarrow> 0xDC00 \<le> unat d \<and> unat d \<le> 0xDFFF"
  by (simp_all add: isHighSurrogate_def isLowSurrogate_def word_le_nat_alt)

lemma utf16_pair:
  assumes "isHighSurrogate c" and "isLowSurrogate d"
  shows "utf16 (0x10000 + (unat c - 0xD800) * 0x400 + (unat d - 0xDC00)) = [c, d]"
proof -
  from assms have c: "0xD800 \<le> unat c" and d: "0xDC00 \<le> unat d" "unat d - 0xDC00 < 0x400"
    by (auto simp: surrogate_bounds)
  have "((unat c - 0xD800) * 0x400 + (unat d - 0xDC00)) div 0x400 = unat c - 0xD800"
    using d(2) by simp
  moreover have "((unat c - 0xD800) * 0x400 + (unat d - 0xDC00)) mod 0x400 = unat d - 0xDC00"
    using d(2) by simp
  ultimately show ?thesis
    using c d(1) by (simp add: utf16_def)
qed

lemma fromCodePoints_simps [simp]:
  "fromCodePoints [] = []"
  "fromCodePoints (cp # cps) = utf16 cp @ fromCodePoints cps"
  by (simp_all add: fromCodePoints_def)

lemma fromCodePoints_codePoints: "fromCodePoints (codePoints s) = s"
  by (induction s rule: codePoints.induct) (simp_all add: utf16_pair)

lemma codePoints_plain_Cons:
  "\<not> isHighSurrogate c \<Longrightarrow> codePoints (c # s) = unat c # codePoints s"
  by (cases s) simp_all

lemma codePoints_pair_Cons:
  assumes "isHighSurrogate c" and "isLowSurrogate d"
  shows "codePoints (c # d # s) = (0x10000 + (unat c - 0xD800) * 0x400 + (unat d - 0xDC00)) # codePoints s"
  using assms by simp

lemma unat_of_nat_unit: "n < 0x10000 \<Longrightarrow> unat (of_nat n :: code_unit) = n"
  by (simp add: unat_of_nat)

lemma utf16_scalar_cases:
  assumes "scalar cp"
  obtains (bmp) c where "utf16 cp = [c]" "unat c = cp" "\<not> isHighSurrogate c"
        | (astral) c d where "utf16 cp = [c, d]" "isHighSurrogate c" "isLowSurrogate d"
            "0x10000 + (unat c - 0xD800) * 0x400 + (unat d - 0xDC00) = cp"
proof (cases "cp < 0x10000")
  case True
  then have u: "unat (of_nat cp :: code_unit) = cp"
    by (rule unat_of_nat_unit)
  with assms have "\<not> isHighSurrogate (of_nat cp :: code_unit)"
    by (auto simp: surrogate_bounds scalar_def)
  with True u show ?thesis
    by (intro bmp [of "of_nat cp"]) (simp_all add: utf16_def)
next
  case False
  define k where "k = cp - 0x10000"
  define c :: code_unit where "c = of_nat (0xD800 + k div 0x400)"
  define d :: code_unit where "d = of_nat (0xDC00 + k mod 0x400)"
  from False assms have k: "k < 0x100000" "cp = 0x10000 + k"
    by (simp_all add: scalar_def k_def)
  then have hi: "k div 0x400 < 0x400" and lo: "k mod 0x400 < 0x400"
    by simp_all
  from hi have c: "unat c = 0xD800 + k div 0x400"
    unfolding c_def by (intro unat_of_nat_unit) simp
  from lo have d: "unat d = 0xDC00 + k mod 0x400"
    unfolding d_def by (intro unat_of_nat_unit) simp
  have "utf16 cp = [c, d]"
    using False by (simp add: utf16_def k_def c_def d_def)
  moreover from c hi have "isHighSurrogate c"
    by (simp add: surrogate_bounds)
  moreover from d lo have "isLowSurrogate d"
    by (simp add: surrogate_bounds)
  moreover have "0x10000 + (unat c - 0xD800) * 0x400 + (unat d - 0xDC00) = cp"
    unfolding c d using k(2) by simp
  ultimately show ?thesis
    by (rule astral)
qed

lemma codePoints_utf16_append:
  assumes "scalar cp"
  shows "codePoints (utf16 cp @ s) = cp # codePoints s"
  using assms
  by (cases cp rule: utf16_scalar_cases) (simp_all add: codePoints_plain_Cons)

lemma codePoints_fromCodePoints:
  "\<forall>cp \<in> set cps. scalar cp \<Longrightarrow> codePoints (fromCodePoints cps) = cps"
  by (induction cps) (simp_all add: codePoints_utf16_append)

lemma utf16_in_class: "cp \<in> set glyphs \<Longrightarrow> set (utf16 cp) \<subseteq> set (fromCodePoints glyphs)"
  by (auto simp: fromCodePoints_def)

lemma stripClass_keep: "set p \<inter> set cls = {} \<Longrightarrow> stripClass cls p = p"
  by (auto simp: stripClass_def filter_id_conv)

lemma stripClass_drop: "set p \<subseteq> set cls \<Longrightarrow> stripClass cls p = []"
  by (auto simp: stripClass_def filter_empty_conv)

lemma stripGlyphs_Nil [simp]: "stripGlyphs glyphs [] = []"
  by (simp add: stripGlyphs_def)

lemma stripGlyphs_step:
  assumes "codePoints (p @ s) = cp # codePoints s" and "utf16 cp = p"
  shows "stripGlyphs glyphs (p @ s) =
           (if cp \<in> set glyphs then stripGlyphs glyphs s else p @ stripGlyphs glyphs s)"
  using assms by (simp add: stripGlyphs_def)

lemma stripClass_step:
  assumes "codePoints (p @ s) = cp # codePoints s" and "utf16 cp = p"
      and "cp \<notin> set glyphs \<longrightarrow> set p \<inter> set (fromCodePoints glyphs) = {}"
      and "stripClass (fromCodePoints glyphs) s = stripGlyphs glyphs s"
  shows "stripClass (fromCodePoints glyphs) (p @ s) = stripGlyphs glyphs (p @ s)"
proof (cases "cp \<in> set glyphs")
  case True
  with assms(2) have "set p \<subseteq> set (fromCodePoints glyphs)"
    using utf16_in_class [of cp glyphs] by simp
  with True assms(1,2,4) show ?thesis
    by (simp add: stripClass_drop stripGlyphs_step)
next
  case False
  with assms show ?thesis
    by (simp add: stripClass_keep stripGlyphs_step)
qed

lemma codePoints_head:
  assumes "s \<noteq> []"
  obtains cp rest where "s = utf16 cp @ rest" and "codePoints s = cp # codePoints rest"
    and "length rest < length s"
proof (cases s rule: codePoints.cases)
  case 1
  with assms show ?thesis by simp
next
  case (2 c)
  then show ?thesis
    by (intro that [of "unat c" "[]"]) simp_all
next
  case (3 c d cs)
  show ?thesis
  proof (cases "isHighSurrogate c \<and> isLowSurrogate d")
    case True
    with 3 show ?thesis
      by (intro that [of "0x10000 + (unat c - 0xD800) * 0x400 + (unat d - 0xDC00)" cs])
        (simp_all add: utf16_pair)
  next
    case False
    with 3 show ?thesis
      by (intro that [of "unat c" "d # cs"]) auto
  qed
qed

lemma stripClass_stripGlyphs:
  assumes "\<forall>cp \<in> set (codePoints s).
             cp \<notin> set glyphs \<longrightarrow> set (utf16 cp) \<inter> set (fromCodePoints glyphs) = {}"
  shows "stripClass (fromCodePoints glyphs) s = stripGlyphs glyphs s"
  using assms
proof (induction s rule: length_induct)
  case (1 s)
  show ?case
  proof (cases "s = []")
    case True
    then show ?thesis by simp
  next
    case False
    then obtain cp rest where s: "s = utf16 cp @ rest"
      and cps: "codePoints (utf16 cp @ rest) = cp # codePoints rest"
      and less: "length rest < length s"
      by (rule codePoints_head) simp
    from "1.prems" cps
    have head: "cp \<notin> set glyphs \<longrightarrow> set (utf16 cp) \<inter> set (fromCodePoints glyphs) = {}"
      and rest: "\<forall>cp \<in> set (codePoints rest).
        cp \<notin> set glyphs \<longrightarrow> set (utf16 cp) \<inter> set (fromCodePoints glyphs) = {}"
      unfolding s by simp_all
    from less rest have "stripClass (fromCodePoints glyphs) rest = stripGlyphs glyphs rest"
      by (simp add: "1.IH")
    with cps refl head show ?thesis
      unfolding s by (rule stripClass_step)
  qed
qed

lemma wellFormed_utf16_append:
  assumes "scalar cp"
  shows "wellFormed (utf16 cp @ s) = wellFormed s"
proof (cases "cp < 0x10000")
  case True
  then have "unat (of_nat cp :: code_unit) = cp"
    by (rule unat_of_nat_unit)
  with assms have "\<not> isSurrogate (of_nat cp :: code_unit)"
    by (auto simp: isSurrogate_def surrogate_bounds scalar_def)
  with True show ?thesis
    by (simp add: utf16_def)
next
  case False
  with assms obtain c d where "utf16 cp = [c, d]" "isHighSurrogate c" "isLowSurrogate d"
    by (cases cp rule: utf16_scalar_cases) (auto simp: utf16_def)
  then show ?thesis by simp
qed

lemma wellFormed_fromCodePoints:
  "\<forall>cp \<in> set cps. scalar cp \<Longrightarrow> wellFormed (fromCodePoints cps)"
  by (induction cps) (simp_all add: wellFormed_utf16_append)

section \<open>Properties of the two readings\<close>



end
