(* ===== verification/Document_Formatter.thy ===== *)
theory Document_Formatter
  imports Report_Formatter Code_Points
begin

text \<open>
  The content that \<open>src/components/CalculadoraROI.tsx\<close> renders for the PDF export
  (lines 274 to 359): a hidden container with a fixed header, one styled element for
  each non-blank line of the report, and a fixed footer.

  \<^item> \<open>pdfLine\<close> is the callback of the \<open>map\<close> of lines 286 to 346, \<open>pdfLines\<close> the
    split, filter and map of the report text, \<open>pdfHeader\<close>, \<open>pdfFooter\<close> and
    \<open>pdfDocument\<close> the surrounding elements. The date that the header shows is a
    parameter: the source reads the clock.
  \<^item> \<open>markerClass\<close> is the character class of the regular expression of line 291.
    The expression has no \<open>u\<close> flag, so the class holds the nine code units of the
    five glyphs and \<open>replace\<close> removes each of them wherever it stands.
  \<^item> \<open>classifyExport\<close> and \<open>formatForExport\<close> are the contract of the export (the same
    ordered classification as on screen, the heading without its glyphs), and
    \<open>pdf_block_of\<close> reads a styled element back as a block. \<open>markerGlyphs\<close> are the
    five glyphs as code points.

  This formatter repeats the tests of the on-screen formatter instead of sharing
  them, and it neither strips the emphasis markers nor trims the whole text. The
  lemmas here relate it to the contract; the root theory compares the two formatters.
\<close>

section \<open>The export content of the source\<close>

definition markerClass :: jsstring where
  "markerClass =
     utf16 0x1F64C @ utf16 0x1F4C8 @ utf16 0x1F4B0 @ utf16 0x23F0 @ utf16 0x1F3AF"

definition pdfLine :: "nat \<Rightarrow> jsstring \<Rightarrow> jsx" where
  "pdfLine index line =
     (let trimmed = trim line in
      if includesStr trimmed (utf16 0x1F64C) \<or> includesStr trimmed (utf16 0x1F4C8) \<or>
         includesStr trimmed (utf16 0x1F4B0) \<or> includesStr trimmed (utf16 0x23F0) \<or>
         includesStr trimmed (utf16 0x1F3AF) then
        (let cleanTitle = trim (stripClass markerClass trimmed) in
         Element ''h2'' (Some index) [] ''''
           [(''fontSize'', ''24px''), (''fontWeight'', ''bold''), (''color'', ''#0891b2''),
            (''textAlign'', ''center''), (''marginTop'', ''32px''), (''marginBottom'', ''24px'')]
           [TextNode cleanTitle])
      else if endsWith trimmed (js '':'') \<or> endsWith trimmed (js ''?'') then
        Element ''h3'' (Some index) [] ''''
          [(''fontSize'', ''18px''), (''fontWeight'', ''bold''), (''color'', ''#334155''),
           (''marginTop'', ''24px''), (''marginBottom'', ''12px'')]
          [TextNode trimmed]
      else if startsWith trimmed (js ''-'') \<or> startsWith trimmed (utf16 0x2022) \<or>
              startsWith trimmed (js ''*'') then
        Element ''div'' (Some index) [] ''''
          [(''marginLeft'', ''24px''), (''marginBottom'', ''8px''), (''display'', ''flex''),
           (''alignItems'', ''flex-start'')]
          [Element ''span'' None [] ''''
             [(''color'', ''#0891b2''), (''marginRight'', ''8px''), (''fontSize'', ''18px'')]
             [TextNode (utf16 0x2022)],
           Element ''span'' None [] '''' [] [TextNode (trim (substring 1 trimmed))]]
      else
        Element ''p'' (Some index) [] ''''
          [(''marginBottom'', ''16px''), (''textAlign'', ''justify''), (''fontSize'', ''16px'')]
          [TextNode trimmed])"

definition pdfLines :: "jsstring \<Rightarrow> jsx list" where
  "pdfLines roiResult =
     map (\<lambda>ip. pdfLine (fst ip) (snd ip))
       (enumerate 0 (filter (\<lambda>line. truthy (trim line)) (split LF roiResult)))"

definition pdfHeader :: "jsstring \<Rightarrow> jsx" where
  "pdfHeader today =
     Element ''div'' None [] ''text-center mb-12'' []
       [Element ''h1'' None [] ''''
          [(''fontSize'', ''32px''), (''fontWeight'', ''bold''), (''color'', ''#0891b2''),
           (''marginBottom'', ''8px'')]
          [TextNode (js ''AN'' @ [0xC1] @ js ''LISIS ROI'')],
        Element ''h2'' None [] ''''
          [(''fontSize'', ''20px''), (''color'', ''#64748b''), (''marginBottom'', ''16px'')]
          [TextNode (js ''Setterless 360'' @ [0xB0])],
        Element ''div'' None [] ''''
          [(''width'', ''100%''), (''height'', ''2px''), (''backgroundColor'', ''#0891b2''),
           (''marginBottom'', ''16px'')]
          [],
        Element ''p'' None [] '''' [(''fontSize'', ''14px''), (''color'', ''#94a3b8'')]
          [TextNode (js ''Generado el: ''), TextNode today]]"

definition pdfFooter :: jsx where
  "pdfFooter =
     Element ''div'' None [] ''''
       [(''marginTop'', ''48px''), (''paddingTop'', ''16px''),
        (''borderTop'', ''1px solid #e2e8f0''), (''textAlign'', ''center'')]
       [Element ''p'' None [] '''' [(''fontSize'', ''12px''), (''color'', ''#94a3b8'')]
          [TextNode (js ''Setterless 360'' @ [0xB0] @ js '' - An'' @ [0xE1] @ js ''lisis ROI'')]]"

definition pdfDocument :: "jsstring \<Rightarrow> jsstring \<Rightarrow> jsx" where
  "pdfDocument today roiResult =
     Element ''div'' None [(''ref'', Ref ''pdfContentRef'')]
       ''fixed -top-[9999px] left-0 w-[800px] bg-white p-12 min-h-screen''
       [(''fontFamily'', ''Arial, sans-serif''), (''fontSize'', ''16px''),
        (''lineHeight'', ''1.6'')]
       [pdfHeader today,
        Element ''div'' None [] '''' [(''color'', ''#1e293b''), (''lineHeight'', ''1.8'')]
          (pdfLines roiResult),
        pdfFooter]"

lemmas [fmt_defs] =
  markerClass_def pdfLine_def pdfLines_def pdfHeader_def pdfFooter_def pdfDocument_def

section \<open>The contract of the export\<close>

definition classifyExport :: "jsstring \<Rightarrow> block" where
  "classifyExport t =
     (if isHeading t then Heading (trim (stripClass markerClass t))
      else if isSubheading t then Subheading t
      else if isListItem t then ListItem (trim (tl t))
      else Paragraph t)"

definition formatForExport :: "jsstring \<Rightarrow> block list" where
  "formatForExport text = map classifyExport (trimmedLines text)"

definition pdf_block_of :: "jsx \<Rightarrow> block option" where
  "pdf_block_of e =
     (case e of
        TextNode s \<Rightarrow> None
      | Element t k ps c st cs \<Rightarrow>
          if t = ''h2'' then Some (Heading (textOf e))
          else if t = ''h3'' then Some (Subheading (textOf e))
          else if t = ''div'' then
            (case rev cs of [] \<Rightarrow> None | item # _ \<Rightarrow> Some (ListItem (textOf item)))
          else if t = ''p'' then Some (Paragraph (textOf e))
          else None)"

definition exportBlock :: "block \<Rightarrow> block" where
  "exportBlock b =
     (case b of Heading t \<Rightarrow> Heading (trim (stripClass markerClass t)) | _ \<Rightarrow> b)"

definition markerGlyphs :: "nat list" where
  "markerGlyphs = [0x1F64C, 0x1F4C8, 0x1F4B0, 0x23F0, 0x1F3AF]"

definition example_title :: jsstring where
  "example_title = utf16 0x1F3AF @ js '' Meta '' @ utf16 0x1F680"

section \<open>One styled element for one line\<close>

lemma pdfLines_eq:
  "pdfLines roiResult =
     map (\<lambda>ip. pdfLine (fst ip) (snd ip))
       (enumerate 0 (filter (\<lambda>l. \<not> blank l) (split LF roiResult)))"
  by (simp add: pdfLines_def truthy_trim_blank)

lemma length_pdfLines: "length (pdfLines roiResult) = length (trimmedLines roiResult)"
  by (simp add: pdfLines_eq trimmedLines_def)

lemma key_pdfLine [simp]: "key (pdfLine i l) = Some i"
  by (simp add: pdfLine_def Let_def)

lemma pdfLine_cases:
  "isHeading (trim l) \<Longrightarrow> pdfLine i l =
     Element ''h2'' (Some i) [] ''''
       [(''fontSize'', ''24px''), (''fontWeight'', ''bold''), (''color'', ''#0891b2''),
        (''textAlign'', ''center''), (''marginTop'', ''32px''), (''marginBottom'', ''24px'')]
       [TextNode (trim (stripClass markerClass (trim l)))]"
  "\<not> isHeading (trim l) \<Longrightarrow> isSubheading (trim l) \<Longrightarrow> pdfLine i l =
     Element ''h3'' (Some i) [] ''''
       [(''fontSize'', ''18px''), (''fontWeight'', ''bold''), (''color'', ''#334155''),
        (''marginTop'', ''24px''), (''marginBottom'', ''12px'')]
       [TextNode (trim l)]"
  "\<not> isHeading (trim l) \<Longrightarrow> \<not> isSubheading (trim l) \<Longrightarrow> isListItem (trim l) \<Longrightarrow>
   pdfLine i l =
     Element ''div'' (Some i) [] ''''
       [(''marginLeft'', ''24px''), (''marginBottom'', ''8px''), (''display'', ''flex''),
        (''alignItems'', ''flex-start'')]
       [Element ''span'' None [] ''''
          [(''color'', ''#0891b2''), (''marginRight'', ''8px''), (''fontSize'', ''18px'')]
          [TextNode [0x2022]],
        Element ''span'' None [] '''' [] [TextNode (trim (tl (trim l)))]]"
  "\<not> isHeading (trim l) \<Longrightarrow> \<not> isSubheading (trim l) \<Longrightarrow> \<not> isListItem (trim l) \<Longrightarrow>
   pdfLine i l =
     Element ''p'' (Some i) [] ''''
       [(''marginBottom'', ''16px''), (''textAlign'', ''justify''), (''fontSize'', ''16px'')]
       [TextNode (trim l)]"
  unfolding pdfLine_def Let_def includes_marker_iff ends_mark_iff starts_mark_iff
  by simp_all

lemma pdf_block_of_pdfLine [simp]: "pdf_block_of (pdfLine i l) = Some (classifyExport (trim l))"
  unfolding pdfLine_def Let_def includes_marker_iff ends_mark_iff starts_mark_iff
  by (simp add: pdf_block_of_def classifyExport_def)

lemma pdf_blocks_trimmedLines:
  "map pdf_block_of (pdfLines roiResult) = map (Some \<circ> classifyExport) (trimmedLines roiResult)"
proof -
  have "map pdf_block_of (pdfLines roiResult) =
      map (\<lambda>ip. (Some \<circ> classifyExport \<circ> trim) (snd ip))
        (enumerate 0 (filter (\<lambda>l. \<not> blank l) (split LF roiResult)))"
    by (simp add: pdfLines_eq comp_def)
  also have "\<dots> = map (Some \<circ> classifyExport \<circ> trim) (filter (\<lambda>l. \<not> blank l) (split LF roiResult))"
    by (rule map_enumerate_snd)
  finally show ?thesis
    by (simp add: trimmedLines_def)
qed

lemma kindOf_classifyExport [simp]: "kindOf (classifyExport t) = kindOf (classify t)"
  by (simp add: classifyExport_def classify_def)

lemma classifyExport_plain: "\<not> isHeading t \<Longrightarrow> classifyExport t = classify t"
  by (simp add: classifyExport_def classify_def)

lemma set_markerClass:
  "set markerClass = {0xD83D, 0xDE4C, 0xDCC8, 0xDCB0, 0x23F0, 0xD83C, 0xDFAF}"
  by (auto simp: markerClass_def marker_units)

lemma cleanTitle_marker_free: "set (trim (stripClass markerClass t)) \<inter> set markerClass = {}"
  using set_trim [of "stripClass markerClass t"] by auto

lemma cleanTitle_not_heading: "\<not> isHeading (trim (stripClass markerClass t))"
proof
  assume "isHeading (trim (stripClass markerClass t))"
  then obtain m where m: "m \<in> set headingMarkers" and sub: "sublist m (trim (stripClass markerClass t))"
    by (auto simp: isHeading_def)
  from m have "m \<noteq> []" and "set m \<subseteq> set markerClass"
    by (auto simp: headingMarkers_def set_markerClass marker_units)
  moreover from sub have "set m \<subseteq> set (trim (stripClass markerClass t))"
    by (rule set_mono_sublist)
  ultimately show False
    using cleanTitle_marker_free [of t] by (cases m) auto
qed

lemma subseq_stripClass: "subseq (stripClass cls s) s"
  by (simp add: stripClass_def)

lemma cleanTitle_subseq: "subseq (trim (stripClass markerClass t)) t"
proof -
  have "subseq (trim (stripClass markerClass t)) (stripClass markerClass t)"
    using sublist_trim by (rule sublist_imp_subseq)
  then show ?thesis
    using subseq_stripClass by (rule subseq_order.order_trans)
qed

section \<open>Lines and titles\<close>

lemma trimmedLines_elem:
  assumes "t \<in> set (trimmedLines s)"
  shows "t \<noteq> [] \<and> sublist t s \<and> trim t = t"
proof -
  from assms obtain l where l: "l \<in> set (split LF s)" "\<not> blank l" "t = trim l"
    by (auto simp: trimmedLines_def)
  then have "sublist t l"
    by (simp add: sublist_trim)
  moreover from l(1) have "sublist l s"
    by (rule split_sublist)
  ultimately have "sublist t s"
    by (rule sublist_order.order_trans)
  with l show ?thesis
    by (simp add: trim_eq_Nil_iff blank_def)
qed

lemma trimmedLines_wellFormed:
  assumes "wellFormed s" and "t \<in> set (trimmedLines s)"
  shows "wellFormed t"
proof -
  from assms(2) obtain l where l: "l \<in> set (split LF s)" "t = trim l"
    by (auto simp: trimmedLines_def)
  have "\<not> isSurrogate LF"
    by (simp add: LF_def isSurrogate_def isHighSurrogate_def isLowSurrogate_def word_le_nat_alt)
  from this assms(1) l(1) have "wellFormed l"
    by (rule wellFormed_split)
  with l(2) show ?thesis
    by (simp add: wellFormed_trim)
qed

lemma pdfLines_elem:
  assumes "e \<in> set (pdfLines roiResult)"
  obtains i t where "e = pdfLine i t" and "t \<in> set (trimmedLines roiResult)"
proof -
  from assms obtain ip where
      ip: "ip \<in> set (enumerate 0 (filter (\<lambda>l. \<not> blank l) (split LF roiResult)))"
      and e: "e = pdfLine (fst ip) (snd ip)"
    by (auto simp: pdfLines_eq)
  from ip have "snd ip \<in> set (filter (\<lambda>l. \<not> blank l) (split LF roiResult))"
    by (rule snd_in_set_enumerate)
  then have "trim (snd ip) \<in> set (trimmedLines roiResult)"
    by (simp add: trimmedLines_def)
  moreover have "pdfLine (fst ip) (snd ip) = pdfLine (fst ip) (trim (snd ip))"
    by (simp add: pdfLine_def)
  ultimately show thesis
    using e that by simp
qed

lemma wellFormed_cleanTitle:
  assumes "\<forall>c \<in> set t. isSurrogate c \<longrightarrow> c \<in> set markerClass"
  shows "wellFormed (trim (stripClass markerClass t))"
proof (rule wellFormed_trim, rule wellFormed_plain)
  from assms show "\<forall>c \<in> set (stripClass markerClass t). \<not> isSurrogate c"
    by auto
qed

lemma wellFormed_classifyExport:
  assumes "wellFormed t" and "\<forall>c \<in> set t. isSurrogate c \<longrightarrow> c \<in> set markerClass"
  shows "wellFormed (blockText (classifyExport t))"
proof (cases "isHeading t")
  case True
  with assms(2) show ?thesis
    by (simp add: classifyExport_def wellFormed_cleanTitle)
next
  case False
  with assms(1) show ?thesis
    by (simp add: classifyExport_plain wellFormed_blockText)
qed

lemma classifyExport_exportBlock: "classifyExport t = exportBlock (classify t)"
  by (simp add: classifyExport_def classify_def exportBlock_def)

lemma length_textOf_pdfLine: "length (textOf (pdfLine i l)) \<le> length l"
proof -
  have t: "length (trim l) \<le> length l"
    using sublist_trim by (rule sublist_length_le)
  have "length (trim (stripClass markerClass (trim l))) \<le> length (trim l)"
    using cleanTitle_subseq by (rule list_emb_length)
  moreover have "Suc (length (trim (tl (trim l)))) \<le> length (trim l)" if "isListItem (trim l)"
    using sublist_length_le [OF sublist_trim, of "tl (trim l)"] isListItem_not_Nil [OF that]
    by (cases "trim l") simp_all
  ultimately show ?thesis
    using t
    by (cases "isHeading (trim l)"; cases "isSubheading (trim l)"; cases "isListItem (trim l)")
      (simp_all add: pdfLine_cases)
qed

section \<open>Properties of the export\<close>

text \<open>
  C2 (refinement). The styled elements of the export are, read as blocks, exactly the
  blocks of the contract \<open>formatForExport\<close>, in the order of the lines: one block for
  each non-blank line of the text as it is, classified by the ordered rule, the
  heading without the code units of the five glyphs.
\<close>

theorem pdfLines_refines:
  "map pdf_block_of (pdfLines text) = map Some (formatForExport text)"
  by (simp add: pdf_blocks_trimmedLines formatForExport_def)

text \<open>
  The React keys of the styled elements are \<open>0, 1, \<dots>, n - 1\<close>: the
  index counts the lines that passed the filter, so no key is skipped or repeated.
\<close>

theorem pdfLines_keys:
  "map key (pdfLines roiResult) = map Some [0..<length (pdfLines roiResult)]"
proof -
  have "map key (pdfLines roiResult) =
      map (\<lambda>ip. Some (fst ip)) (enumerate 0 (filter (\<lambda>l. \<not> blank l) (split LF roiResult)))"
    by (simp add: pdfLines_eq comp_def)
  also have "\<dots> = map Some [0..<0 + length (filter (\<lambda>l. \<not> blank l) (split LF roiResult))]"
    by (rule map_enumerate_fst)
  finally show ?thesis
    by (simp add: length_pdfLines length_trimmedLines)
qed

text \<open>
  C36 (safety). The title of a heading of the export holds none of the code units of
  the five glyphs, has no white space at its ends, and is not itself a heading line.
\<close>

theorem pdfLines_title_clean:
  assumes "e \<in> set (pdfLines roiResult)" and "pdf_block_of e = Some (Heading title)"
  shows "set title \<inter> set markerClass = {} \<and> trim title = title \<and> \<not> isHeading title"
proof -
  from assms(1) obtain i t where "e = pdfLine i t"
    by (rule pdfLines_elem)
  with assms(2) have "classifyExport (trim t) = Heading title"
    by simp
  then have "title = trim (stripClass markerClass (trim t))"
    by (simp add: classifyExport_def split: if_splits)
  then show ?thesis
    by (simp add: cleanTitle_marker_free cleanTitle_not_heading)
qed

theorem pdfLines_title_clean_witness:
  "set (js ''Resumen'') \<inter> set markerClass = {} \<and> trim (js ''Resumen'') = js ''Resumen'' \<and>
   \<not> isHeading (js ''Resumen'')"
proof -
  let ?e = "pdfLine 0 (utf16 0x1F3AF @ js '' Resumen'')"
  have "pdfLines (utf16 0x1F3AF @ js '' Resumen'') = [?e]"
    by (simp add: pdfLines_def js_defs)
  then have mem: "?e \<in> set (pdfLines (utf16 0x1F3AF @ js '' Resumen''))"
    by simp
  have "pdf_block_of ?e = Some (Heading (js ''Resumen''))"
    by (simp add: fmt_defs js_defs pdf_block_of_def)
  from pdfLines_title_clean [OF mem this] show ?thesis .
qed


text \<open>
  C34 (invariant). If the report text is well-formed UTF-16 and its only surrogate
  code units are those of the five glyphs, so is every text that the export shows.
\<close>

theorem pdfLines_wellFormed:
  assumes "wellFormed roiResult"
      and "\<forall>c \<in> set roiResult. isSurrogate c \<longrightarrow> c \<in> set markerClass"
      and "e \<in> set (pdfLines roiResult)" and "pdf_block_of e = Some b"
  shows "wellFormed (blockText b)"
proof -
  from assms(3) obtain i t where e: "e = pdfLine i t" and t: "t \<in> set (trimmedLines roiResult)"
    by (rule pdfLines_elem)
  from t have "trim t = t" and "sublist t roiResult"
    by (simp_all add: trimmedLines_elem)
  with assms(2) have "\<forall>c \<in> set t. isSurrogate c \<longrightarrow> c \<in> set markerClass"
    by (auto dest: set_mono_sublist)
  moreover from assms(1) t have "wellFormed t"
    by (rule trimmedLines_wellFormed)
  moreover from e assms(4) \<open>trim t = t\<close> have "b = classifyExport t"
    by simp
  ultimately show ?thesis
    by (simp add: wellFormed_classifyExport)
qed

theorem pdfLines_wellFormed_witness:
  "wellFormed (blockText (Heading (js ''Resumen'')))"
proof -
  let ?r = "utf16 0x1F3AF @ js '' Resumen''"
  let ?e = "pdfLine 0 ?r"
  have wf: "wellFormed ?r"
    by (simp add: js_defs)
  have sur: "\<forall>c \<in> set ?r. isSurrogate c \<longrightarrow> c \<in> set markerClass"
    by (simp add: js_defs markerClass_def word_le_nat_alt)
  have "pdfLines ?r = [?e]"
    by (simp add: pdfLines_def js_defs)
  then have mem: "?e \<in> set (pdfLines ?r)"
    by simp
  have "pdf_block_of ?e = Some (Heading (js ''Resumen''))"
    by (simp add: fmt_defs js_defs pdf_block_of_def)
  from pdfLines_wellFormed [OF wf sur mem this] show ?thesis .
qed

section \<open>Code units and glyphs\<close>

lemma markerClass_glyphs: "markerClass = fromCodePoints markerGlyphs"
  by (simp add: markerClass_def markerGlyphs_def)

text \<open>
  C15 (equivalence). On a text in which no character besides the five glyphs is encoded
  with a code unit of the class, removing the code units of the class is removing the
  five glyphs: the regular expression of the source then does what the same
  expression with the \<open>u\<close> flag does.
\<close>

theorem stripClass_glyphs:
  assumes "\<forall>cp \<in> set (codePoints t).
             cp \<notin> set markerGlyphs \<longrightarrow> set (utf16 cp) \<inter> set markerClass = {}"
  shows "stripClass markerClass t = stripGlyphs markerGlyphs t"
  using assms unfolding markerClass_glyphs by (rule stripClass_stripGlyphs)

theorem stripClass_glyphs_witness:
  "stripClass markerClass (utf16 0x1F3AF @ js '' Meta '' @ utf16 0x2728) =
     stripGlyphs markerGlyphs (utf16 0x1F3AF @ js '' Meta '' @ utf16 0x2728)"
proof (rule stripClass_glyphs)
  have "codePoints (utf16 0x1F3AF @ js '' Meta '' @ utf16 0x2728) =
      [0x1F3AF, 0x20, 0x4D, 0x65, 0x74, 0x61, 0x20, 0x2728]"
    by (simp add: js_defs word_le_nat_alt)
  then show "\<forall>cp \<in> set (codePoints (utf16 0x1F3AF @ js '' Meta '' @ utf16 0x2728)).
      cp \<notin> set markerGlyphs \<longrightarrow> set (utf16 cp) \<inter> set markerClass = {}"
    by (simp add: markerGlyphs_def markerClass_def utf16_def)
qed

end
