(* ===== verification/Form_State.thy ===== *)
theory Form_State
  imports JS_Value
begin

text \<open>
  The view-model of the form of \<open>src/components/CalculadoraROI.tsx\<close> and the two
  handlers that change it: \<open>handleInputChange\<close> (lines 130 to 137) and \<open>handleSubmit\<close>
  (lines 139 to 208).

  \<^item> A field of the form holds a string or a number (\<open>jsval\<close>), a parsed response
    any JSON value (\<open>json\<close>); both are defined with the values of the runtime.
  \<^item> The form data is a map from property names to values, because
    \<open>handleInputChange\<close> writes the property that the event names. The state of the
    component is the record \<open>State\<close> of its four \<open>useState\<close> cells.
  \<^item> \<open>handleSubmit\<close> runs to its first \<open>await\<close> and returns the state and the request
    it sends, if any; \<open>handleSubmit_response\<close> is the rest of the handler, run when
    the request settles (\<open>fetchResult\<close>). Both include the \<open>finally\<close> block.
  \<^item> The conversions \<open>Number\<close> and \<open>JSON.parse\<close>, which the source calls and does not
    define, are parameters of the handlers.
  \<^item> \<open>step\<close> runs one event on a page (the state and the requests in flight) with
    the guards of the rendered controls, \<open>reachable\<close> are the pages that events lead
    to from the initial one, and \<open>phase\<close> reads a page as a state of the submission
    flow \<open>Idle\<close>, \<open>Submitting\<close>, \<open>Success\<close>, \<open>Failure\<close>.
\<close>

section \<open>The state of the component\<close>

type_synonym FormData = "jsstring \<rightharpoonup> jsval"

datatype messageType = success | error

record Message =
  msg_text :: jsstring
  msg_type :: messageType

record State =
  formData :: FormData
  isLoading :: bool
  message :: "Message option"
  roiResult :: "json option"

definition emptyForm :: FormData where
  "emptyForm =
     [js ''consultas'' \<mapsto> Str (js ''''),
      js ''consultasConversion'' \<mapsto> Str (js ''''),
      js ''oportunidadesPerdidas'' \<mapsto> Str (js ''''),
      js ''tiempoSemanal'' \<mapsto> Str (js ''''),
      js ''ticket'' \<mapsto> Str (js '''')]"

definition initialState :: State where
  "initialState =
     \<lparr>formData = emptyForm, isLoading = False, message = None, roiResult = None\<rparr>"

section \<open>Editing a field\<close>

type_synonym ChangeEvent = "jsstring \<times> jsstring \<times> jsstring"

definition handleInputChange :: "(jsstring \<Rightarrow> jsnumber) \<Rightarrow> ChangeEvent \<Rightarrow> State \<Rightarrow> State" where
  "handleInputChange Number e prev =
     (case e of (name, value, type) \<Rightarrow>
        prev\<lparr>formData := (formData prev)
          (name \<mapsto> (if type = js ''number''
                      then (if value = js '''' then Str (js '''') else Num (Number value))
                      else Str value))\<rparr>)"

section \<open>Submitting\<close>

record DataToSend =
  consultas :: jsnumber
  consultasConversion :: "jsnumber option"
  oportunidadesPerdidas :: jsnumber
  tiempoSemanal :: "jsnumber option"
  ticket :: "jsnumber option"

record Request =
  url :: string
  http_method :: string
  headers :: "(string \<times> string) list"
  body :: DataToSend

datatype fetchResult = Rejected | Responded bool "jsstring option"

definition validationMessage :: Message where
  "validationMessage =
     \<lparr>msg_text = js ''Por favor completa todos los campos obligatorios'', msg_type = error\<rparr>"

definition successMessage :: Message where
  "successMessage =
     \<lparr>msg_text = [0xA1] @ js ''C'' @ [0xE1] @ js ''lculo completado exitosamente!'',
      msg_type = success\<rparr>"

definition failureMessage :: Message where
  "failureMessage =
     \<lparr>msg_text = js ''Error al procesar los datos. Por favor intenta de nuevo.'',
      msg_type = error\<rparr>"

definition dataToSend :: "(jsstring \<Rightarrow> jsnumber) \<Rightarrow> FormData \<Rightarrow> DataToSend" where
  "dataToSend Number fd =
     \<lparr>consultas = toNumber Number (fd (js ''consultas'')),
      consultasConversion =
        (if truthyVal (fd (js ''consultasConversion''))
         then Some (toNumber Number (fd (js ''consultasConversion''))) else None),
      oportunidadesPerdidas = toNumber Number (fd (js ''oportunidadesPerdidas'')),
      tiempoSemanal =
        (if truthyVal (fd (js ''tiempoSemanal''))
         then Some (toNumber Number (fd (js ''tiempoSemanal''))) else None),
      ticket =
        (if truthyVal (fd (js ''ticket''))
         then Some (toNumber Number (fd (js ''ticket''))) else None)\<rparr>"

definition request :: "DataToSend \<Rightarrow> Request" where
  "request d =
     \<lparr>url = ''https://devwebhook.iacondiego.es/webhook/c04ec428-b03e-48ea-af9b-e0551d7a6e59'',
      http_method = ''POST'',
      headers = [(''Content-Type'', ''application/json'')],
      body = d\<rparr>"

definition handleSubmit :: "(jsstring \<Rightarrow> jsnumber) \<Rightarrow> State \<Rightarrow> State \<times> Request option" where
  "handleSubmit Number s =
     (let s1 = s\<lparr>isLoading := True, message := None, roiResult := None\<rparr> in
      if \<not> truthyVal (formData s (js ''consultas'')) \<or>
         \<not> truthyVal (formData s (js ''oportunidadesPerdidas'')) then
        ((s1\<lparr>message := Some validationMessage, isLoading := False\<rparr>)\<lparr>isLoading := False\<rparr>,
         None)
      else (s1, Some (request (dataToSend Number (formData s)))))"

definition parsedResult :: "(jsstring \<Rightarrow> json option) \<Rightarrow> jsstring \<Rightarrow> json" where
  "parsedResult parse result =
     (case parse result of
        None \<Rightarrow> JStr result
      | Some JNull \<Rightarrow> JStr result
      | Some (JObj props) \<Rightarrow>
          (case map_of props (js ''response'') of
             None \<Rightarrow> JStr result
           | Some v \<Rightarrow> if truthyJson v then v else JStr result)
      | Some _ \<Rightarrow> JStr result)"

definition handleSubmit_response ::
    "(jsstring \<Rightarrow> json option) \<Rightarrow> fetchResult \<Rightarrow> State \<Rightarrow> State" where
  "handleSubmit_response parse r s =
     (case r of
        Responded True (Some result) \<Rightarrow>
          (s\<lparr>roiResult := Some (parsedResult parse result),
             message := Some successMessage,
             formData := emptyForm\<rparr>)\<lparr>isLoading := False\<rparr>
      | _ \<Rightarrow> (s\<lparr>message := Some failureMessage\<rparr>)\<lparr>isLoading := False\<rparr>)"

section \<open>The page and its events\<close>

record Page =
  state :: State
  inFlight :: "Request list"

datatype event = Change ChangeEvent | Submit | Settle fetchResult | Close

definition initialPage :: Page where
  "initialPage = \<lparr>state = initialState, inFlight = []\<rparr>"

definition inputNames :: "jsstring list" where
  "inputNames =
     [js ''consultas'', js ''consultasConversion'', js ''oportunidadesPerdidas'',
      js ''tiempoSemanal'', js ''ticket'']"

definition fromInput :: "ChangeEvent \<Rightarrow> bool" where
  "fromInput e \<longleftrightarrow> fst e \<in> set inputNames \<and> snd (snd e) = js ''number''"

definition resultShown :: "State \<Rightarrow> bool" where
  "resultShown s \<longleftrightarrow> truthyOrNull (roiResult s) \<and> \<not> isLoading s"

fun step ::
    "(jsstring \<Rightarrow> jsnumber) \<Rightarrow> (jsstring \<Rightarrow> json option) \<Rightarrow> event \<Rightarrow> Page \<Rightarrow> Page" where
  "step Number parse (Change e) p =
     (if fromInput e then p\<lparr>state := handleInputChange Number e (state p)\<rparr> else p)"
| "step Number parse Submit p =
     (if isLoading (state p) then p
      else (case handleSubmit Number (state p) of
              (s, None) \<Rightarrow> p\<lparr>state := s\<rparr>
            | (s, Some q) \<Rightarrow> p\<lparr>state := s, inFlight := inFlight p @ [q]\<rparr>))"
| "step Number parse (Settle r) p =
     (case inFlight p of
        [] \<Rightarrow> p
      | q # qs \<Rightarrow> p\<lparr>state := handleSubmit_response parse r (state p), inFlight := qs\<rparr>)"
| "step Number parse Close p =
     (if resultShown (state p) then p\<lparr>state := (state p)\<lparr>roiResult := None\<rparr>\<rparr> else p)"

definition run ::
    "(jsstring \<Rightarrow> jsnumber) \<Rightarrow> (jsstring \<Rightarrow> json option) \<Rightarrow> event list \<Rightarrow> Page \<Rightarrow> Page" where
  "run Number parse evs p = foldl (\<lambda>q ev. step Number parse ev q) p evs"

inductive reachable ::
    "(jsstring \<Rightarrow> jsnumber) \<Rightarrow> (jsstring \<Rightarrow> json option) \<Rightarrow> Page \<Rightarrow> bool"
  for Number parse where
    initial: "reachable Number parse initialPage"
  | step: "reachable Number parse p \<Longrightarrow> reachable Number parse (step Number parse ev p)"

section \<open>The submission flow of the specification\<close>

datatype phase = Idle | Submitting | Success | Failure

definition phase :: "Page \<Rightarrow> phase" where
  "phase p =
     (if isLoading (state p) then Submitting
      else (case message (state p) of
              None \<Rightarrow> Idle
            | Some m \<Rightarrow> if msg_type m = success then Success else Failure))"

inductive flow :: "phase \<Rightarrow> phase \<Rightarrow> bool" where
    submit: "ph \<noteq> Submitting \<Longrightarrow> flow ph Submitting"
  | invalid: "ph \<noteq> Submitting \<Longrightarrow> flow ph Failure"
  | succeed: "flow Submitting Success"
  | fail: "flow Submitting Failure"
  | dismiss: "ph \<noteq> Submitting \<Longrightarrow> flow ph Idle"
  | stay: "flow ph ph"

section \<open>Invariants of the page\<close>

definition fieldTyped :: "jsval option \<Rightarrow> bool" where
  "fieldTyped v \<longleftrightarrow>
     (case v of None \<Rightarrow> False | Some (Str s) \<Rightarrow> s = js '''' | Some (Num n) \<Rightarrow> True)"

definition formTyped :: "FormData \<Rightarrow> bool" where
  "formTyped fd \<longleftrightarrow> dom fd = set inputNames \<and> list_all (\<lambda>k. fieldTyped (fd k)) inputNames"

definition optionTruthy :: "jsnumber option \<Rightarrow> bool" where
  "optionTruthy v \<longleftrightarrow> (case v of None \<Rightarrow> True | Some n \<Rightarrow> truthyNumber n)"

definition numbersTruthy :: "DataToSend \<Rightarrow> bool" where
  "numbersTruthy d \<longleftrightarrow>
     truthyNumber (consultas d) \<and> optionTruthy (consultasConversion d) \<and>
     truthyNumber (oportunidadesPerdidas d) \<and> optionTruthy (tiempoSemanal d) \<and>
     optionTruthy (ticket d)"

definition requestOk :: "Request \<Rightarrow> bool" where
  "requestOk q \<longleftrightarrow> q = request (body q) \<and> numbersTruthy (body q)"

definition pageInv :: "Page \<Rightarrow> bool" where
  "pageInv p \<longleftrightarrow>
     formTyped (formData (state p)) \<and>
     length (inFlight p) \<le> 1 \<and>
     (isLoading (state p) \<longleftrightarrow> inFlight p \<noteq> []) \<and>
     (isLoading (state p) \<longrightarrow> message (state p) = None \<and> roiResult (state p) = None) \<and>
     (roiResult (state p) \<noteq> None \<longrightarrow> message (state p) = Some successMessage) \<and>
     list_all requestOk (inFlight p)"

lemmas [form_defs] =
  emptyForm_def initialState_def
  handleInputChange_def validationMessage_def successMessage_def failureMessage_def
  dataToSend_def request_def handleSubmit_def parsedResult_def handleSubmit_response_def
  initialPage_def inputNames_def fromInput_def resultShown_def run_def phase_def

inductive_cases flow_SubmittingE: "flow Submitting ph"
inductive_cases flow_SuccessE: "flow ph Success"
inductive_cases flow_IdleE: "flow ph Idle"

section \<open>Truthy fields of a typed form\<close>

lemma truthyVal_typed:
  "fieldTyped v \<Longrightarrow> truthyVal v \<Longrightarrow> \<exists>n. v = Some (Num n) \<and> truthyNumber n"
  by (auto simp: fieldTyped_def split: option.splits jsval.splits)

lemma toNumber_typed:
  "fieldTyped v \<Longrightarrow> truthyVal v \<Longrightarrow> truthyNumber (toNumber Number v)"
  by (auto dest: truthyVal_typed)

section \<open>Typed form data\<close>

lemma inputNames_distinct: "distinct inputNames"
  by (simp add: inputNames_def)

lemma emptyForm_simps [simp]:
  "k \<in> set inputNames \<Longrightarrow> emptyForm k = Some (Str [])"
  "k \<notin> set inputNames \<Longrightarrow> emptyForm k = None"
  by (auto simp: emptyForm_def inputNames_def)

lemma dom_emptyForm [simp]: "dom emptyForm = set inputNames"
  by (auto simp: emptyForm_def inputNames_def)

lemma formTyped_emptyForm [simp]: "formTyped emptyForm"
  by (simp add: formTyped_def fieldTyped_def list_all_iff)

lemma formTyped_field: "formTyped fd \<Longrightarrow> k \<in> set inputNames \<Longrightarrow> fieldTyped (fd k)"
  by (simp add: formTyped_def list_all_iff)

lemma formTyped_update:
  assumes "formTyped fd" and "k \<in> set inputNames" and "fieldTyped (Some v)"
  shows "formTyped (fd(k \<mapsto> v))"
  using assms by (auto simp: formTyped_def list_all_iff)

section \<open>Editing keeps the types\<close>

lemma formData_handleInputChange:
  "formData (handleInputChange Number (name, value, type) s) =
     (formData s)(name \<mapsto> (if type = js ''number''
        then (if value = [] then Str [] else Num (Number value)) else Str value))"
  by (simp add: handleInputChange_def)

lemma handleInputChange_others [simp]:
  "isLoading (handleInputChange Number e s) = isLoading s"
  "message (handleInputChange Number e s) = message s"
  "roiResult (handleInputChange Number e s) = roiResult s"
  by (simp_all add: handleInputChange_def split: prod.splits)

lemma formTyped_handleInputChange:
  assumes "fromInput e" and "formTyped (formData s)"
  shows "formTyped (formData (handleInputChange Number e s))"
proof -
  obtain name "value" type where e: "e = (name, value, type)"
    by (cases e) auto
  with assms(1) have "name \<in> set inputNames" and "type = js ''number''"
    by (simp_all add: fromInput_def)
  with assms(2) show ?thesis
    unfolding e formData_handleInputChange
    by (intro formTyped_update) (simp_all add: fieldTyped_def)
qed

section \<open>The two outcomes of a submission\<close>

lemma handleSubmit_invalid:
  assumes "\<not> truthyVal (formData s (js ''consultas'')) \<or>
           \<not> truthyVal (formData s (js ''oportunidadesPerdidas''))"
  shows "handleSubmit Number s =
           (s\<lparr>isLoading := False, message := Some validationMessage, roiResult := None\<rparr>, None)"
  using assms by (auto simp: handleSubmit_def)

lemma handleSubmit_valid:
  assumes "truthyVal (formData s (js ''consultas''))"
      and "truthyVal (formData s (js ''oportunidadesPerdidas''))"
  shows "handleSubmit Number s =
           (s\<lparr>isLoading := True, message := None, roiResult := None\<rparr>,
            Some (request (dataToSend Number (formData s))))"
  using assms by (simp add: handleSubmit_def)

lemma handleSubmit_cases:
  obtains (invalid) "handleSubmit Number s =
             (s\<lparr>isLoading := False, message := Some validationMessage, roiResult := None\<rparr>, None)"
           "\<not> truthyVal (formData s (js ''consultas'')) \<or>
            \<not> truthyVal (formData s (js ''oportunidadesPerdidas''))"
        | (valid) "handleSubmit Number s =
             (s\<lparr>isLoading := True, message := None, roiResult := None\<rparr>,
              Some (request (dataToSend Number (formData s))))"
           "truthyVal (formData s (js ''consultas''))"
           "truthyVal (formData s (js ''oportunidadesPerdidas''))"
  using handleSubmit_invalid [of s Number] handleSubmit_valid [of s Number] by blast

lemma optionTruthy_simps [simp]:
  "optionTruthy None" "optionTruthy (Some n) \<longleftrightarrow> truthyNumber n"
  by (simp_all add: optionTruthy_def)

lemma optional_truthy:
  "fieldTyped v \<Longrightarrow> optionTruthy (if truthyVal v then Some (toNumber Number v) else None)"
  by (simp add: toNumber_typed)

lemma inputNames_mem:
  "js ''consultas'' \<in> set inputNames" "js ''consultasConversion'' \<in> set inputNames"
  "js ''oportunidadesPerdidas'' \<in> set inputNames" "js ''tiempoSemanal'' \<in> set inputNames"
  "js ''ticket'' \<in> set inputNames"
  by (simp_all add: inputNames_def)

lemma numbersTruthy_dataToSend:
  assumes "formTyped fd"
      and "truthyVal (fd (js ''consultas''))" and "truthyVal (fd (js ''oportunidadesPerdidas''))"
  shows "numbersTruthy (dataToSend Number fd)"
  unfolding numbersTruthy_def dataToSend_def
  using assms
  by (simp add: toNumber_typed optional_truthy formTyped_field inputNames_mem
      del: js_Cons js_Nil)

lemma requestOk_request [simp]: "requestOk (request d) \<longleftrightarrow> numbersTruthy d"
  by (simp add: requestOk_def request_def)

section \<open>Settling a request\<close>

lemma handleSubmit_response_ok:
  "handleSubmit_response parse (Responded True (Some result)) s =
     s\<lparr>formData := emptyForm, isLoading := False, message := Some successMessage,
       roiResult := Some (parsedResult parse result)\<rparr>"
  by (simp add: handleSubmit_response_def)

lemma handleSubmit_response_failed:
  assumes "\<And>result. r \<noteq> Responded True (Some result)"
  shows "handleSubmit_response parse r s =
           s\<lparr>isLoading := False, message := Some failureMessage\<rparr>"
  using assms by (auto simp: handleSubmit_response_def split: fetchResult.splits bool.splits option.splits)

lemma handleSubmit_response_cases:
  obtains (ok) result where "r = Responded True (Some result)"
        | (failed) "handleSubmit_response parse r s =
             s\<lparr>isLoading := False, message := Some failureMessage\<rparr>"
                 "\<And>result. r \<noteq> Responded True (Some result)"
  using handleSubmit_response_failed [of r parse s] by blast

lemma isLoading_handleSubmit_response [simp]:
  "\<not> isLoading (handleSubmit_response parse r s)"
  by (simp add: handleSubmit_response_def split: fetchResult.splits bool.splits option.splits)

lemma parsedResult_truthy_or_raw:
  "parsedResult parse result = JStr result \<or> truthyJson (parsedResult parse result)"
  by (simp add: parsedResult_def split: option.splits json.splits)

section \<open>The invariant of the page\<close>

lemma pageInv_initial: "pageInv initialPage"
  by (simp add: pageInv_def initialPage_def initialState_def)

lemma pageInv_Change:
  assumes "pageInv p"
  shows "pageInv (step Number parse (Change e) p)"
  using assms by (simp add: pageInv_def formTyped_handleInputChange)

lemma pageInv_Submit:
  assumes "pageInv p"
  shows "pageInv (step Number parse Submit p)"
proof (cases "isLoading (state p)")
  case True
  with assms show ?thesis by simp
next
  case False
  show ?thesis
  proof (cases rule: handleSubmit_cases [where Number = Number and s = "state p"])
    case invalid
    with assms False show ?thesis
      by (simp add: pageInv_def validationMessage_def successMessage_def)
  next
    case valid
    with assms False show ?thesis
      by (simp add: pageInv_def numbersTruthy_dataToSend)
  qed
qed

lemma pageInv_Settle:
  assumes "pageInv p"
  shows "pageInv (step Number parse (Settle r) p)"
proof (cases "inFlight p")
  case Nil
  with assms show ?thesis by simp
next
  case (Cons q qs)
  with assms have qs: "qs = []" and idle: "message (state p) = None" "roiResult (state p) = None"
    by (simp_all add: pageInv_def)
  show ?thesis
  proof (cases rule: handleSubmit_response_cases [where r = r and parse = parse and s = "state p"])
    case (ok result)
    with assms Cons qs show ?thesis
      by (simp add: pageInv_def handleSubmit_response_ok)
  next
    case failed
    with assms Cons qs idle show ?thesis
      by (simp add: pageInv_def)
  qed
qed

lemma pageInv_Close:
  assumes "pageInv p"
  shows "pageInv (step Number parse Close p)"
  using assms by (simp add: pageInv_def)

lemma pageInv_step: "pageInv p \<Longrightarrow> pageInv (step Number parse ev p)"
  by (cases ev) (simp_all only: pageInv_Change pageInv_Submit pageInv_Settle pageInv_Close)

lemma reachable_pageInv: "reachable Number parse p \<Longrightarrow> pageInv p"
  by (induction rule: reachable.induct) (simp_all only: pageInv_initial pageInv_step)

section \<open>Runs\<close>

lemma run_simps [simp]:
  "run Number parse [] p = p"
  "run Number parse (ev # evs) p = run Number parse evs (step Number parse ev p)"
  "run Number parse (evs @ evs') p = run Number parse evs' (run Number parse evs p)"
  by (simp_all add: run_def)

lemma reachable_run:
  "reachable Number parse p \<Longrightarrow> reachable Number parse (run Number parse evs p)"
  by (induction evs arbitrary: p) (simp_all add: reachable.step)

lemma reachable_iff_run:
  "reachable Number parse p \<longleftrightarrow> (\<exists>evs. p = run Number parse evs initialPage)"
proof
  assume "reachable Number parse p"
  then show "\<exists>evs. p = run Number parse evs initialPage"
  proof (induction rule: reachable.induct)
    case initial
    have "initialPage = run Number parse [] initialPage" by simp
    then show ?case ..
  next
    case (step p ev)
    from step.IH obtain evs where "p = run Number parse evs initialPage" ..
    then have "step Number parse ev p = run Number parse (evs @ [ev]) initialPage"
      by simp
    then show ?case ..
  qed
next
  assume "\<exists>evs. p = run Number parse evs initialPage"
  then show "reachable Number parse p"
    by (auto intro: reachable_run reachable.initial)
qed

section \<open>Steps follow the submission flow\<close>

lemma phase_simps:
  "isLoading (state p) \<Longrightarrow> phase p = Submitting"
  "\<not> isLoading (state p) \<Longrightarrow> message (state p) = None \<Longrightarrow> phase p = Idle"
  "\<not> isLoading (state p) \<Longrightarrow> message (state p) = Some m \<Longrightarrow> msg_type m = success \<Longrightarrow>
     phase p = Success"
  "\<not> isLoading (state p) \<Longrightarrow> message (state p) = Some m \<Longrightarrow> msg_type m = error \<Longrightarrow>
     phase p = Failure"
  by (simp_all add: phase_def)

lemma phase_cong:
  "isLoading (state q) = isLoading (state p) \<Longrightarrow> message (state q) = message (state p) \<Longrightarrow>
     phase q = phase p"
  by (simp add: phase_def)

lemma phase_Submitting_iff: "phase p = Submitting \<longleftrightarrow> isLoading (state p)"
  by (simp add: phase_def split: option.splits)

lemma msg_type_simps [simp]:
  "msg_type validationMessage = error" "msg_type failureMessage = error"
  "msg_type successMessage = success"
  by (simp_all add: validationMessage_def failureMessage_def successMessage_def)

lemma phase_Submit:
  assumes "\<not> isLoading (state p)"
  shows "phase (step Number parse Submit p) = Submitting \<or>
         phase (step Number parse Submit p) = Failure"
  using assms
  by (cases rule: handleSubmit_cases [where Number = Number and s = "state p"]) (simp_all add: phase_def)

lemma phase_Settle:
  assumes "inFlight p \<noteq> []"
  shows "phase (step Number parse (Settle r) p) = Success \<or>
         phase (step Number parse (Settle r) p) = Failure"
  using assms
  by (cases rule: handleSubmit_response_cases [where r = r and parse = parse and s = "state p"])
    (auto simp: phase_def neq_Nil_conv handleSubmit_response_ok)

lemma flow_step:
  assumes "pageInv p"
  shows "flow (phase p) (phase (step Number parse ev p))"
proof (cases ev)
  case (Change e)
  have "phase (step Number parse (Change e) p) = phase p"
    by (rule phase_cong) simp_all
  with Change show ?thesis by (simp add: flow.stay)
next
  case Submit
  show ?thesis
  proof (cases "isLoading (state p)")
    case True
    with Submit show ?thesis by (simp add: flow.stay)
  next
    case False
    then have "phase p \<noteq> Submitting" by (simp add: phase_Submitting_iff)
    with phase_Submit [OF False, of Number parse] Submit show ?thesis
      by (auto intro: flow.submit flow.invalid)
  qed
next
  case (Settle r)
  show ?thesis
  proof (cases "inFlight p = []")
    case True
    with Settle show ?thesis by (simp add: flow.stay)
  next
    case False
    with assms have "phase p = Submitting"
      by (simp add: pageInv_def phase_Submitting_iff)
    with phase_Settle [OF False, of Number parse r] Settle show ?thesis
      by (auto intro: flow.succeed flow.fail)
  qed
next
  case Close
  have "phase (step Number parse Close p) = phase p"
    by (rule phase_cong) simp_all
  with Close show ?thesis by (simp add: flow.stay)
qed

lemma not_Idle_step:
  assumes "phase p \<noteq> Idle"
  shows "phase (step Number parse ev p) \<noteq> Idle"
proof (cases ev)
  case (Change e)
  have "phase (step Number parse (Change e) p) = phase p"
    by (rule phase_cong) simp_all
  with Change assms show ?thesis by simp
next
  case Submit
  with assms phase_Submit [of p Number parse] show ?thesis
    by (cases "isLoading (state p)") auto
next
  case (Settle r)
  with assms phase_Settle [of p Number parse r] show ?thesis
    by (cases "inFlight p = []") auto
next
  case Close
  have "phase (step Number parse Close p) = phase p"
    by (rule phase_cong) simp_all
  with Close assms show ?thesis by simp
qed

section \<open>Properties of the form\<close>

lemma reachable_run_initial:
  "reachable Number parse (run Number parse evs initialPage)"
  by (rule reachable_run) (rule reachable.initial)

text \<open>
  C6 (type). On every page that events lead to, the form data has exactly the five
  fields of \<open>FormData\<close>, and each of them holds the empty string or a number.
\<close>

theorem form_stays_typed:
  assumes "reachable Number parse p"
  shows "formTyped (formData (state p))"
  using reachable_pageInv [OF assms] by (simp add: pageInv_def)

theorem form_stays_typed_witness:
  "formTyped (formData (state (run (\<lambda>s. 0x4014000000000000) (\<lambda>s. None)
     [Change (js ''consultas'', js ''5'', js ''number''),
      Change (js ''oportunidadesPerdidas'', js ''12'', js ''number''), Submit] initialPage)))"
  by (rule form_stays_typed) (rule reachable_run_initial)

text \<open>
  C5 (safety). At most one request is in flight on every reachable page, and a request
  is in flight exactly while the page is loading.
\<close>

theorem single_flight:
  assumes "reachable Number parse p"
  shows "length (inFlight p) \<le> 1 \<and> (inFlight p \<noteq> [] \<longleftrightarrow> isLoading (state p))"
  using reachable_pageInv [OF assms] by (simp add: pageInv_def)

theorem single_flight_witness:
  "length (inFlight (run (\<lambda>s. 0x4014000000000000) (\<lambda>s. None)
     [Change (js ''consultas'', js ''5'', js ''number''),
      Change (js ''oportunidadesPerdidas'', js ''12'', js ''number''), Submit, Submit]
     initialPage)) = 1"
proof -
  let ?p = "run (\<lambda>s. 0x4014000000000000) (\<lambda>s. None)
     [Change (js ''consultas'', js ''5'', js ''number''),
      Change (js ''oportunidadesPerdidas'', js ''12'', js ''number''), Submit, Submit]
     initialPage"
  from single_flight [OF reachable_run_initial] have "length (inFlight ?p) \<le> 1" ..
  moreover have "inFlight ?p \<noteq> []"
    by (simp add: form_defs)
  ultimately show ?thesis
    by (cases "inFlight ?p") simp_all
qed

text \<open>
  C7 (safety). Every request in flight on a reachable page is a \<open>POST\<close> of JSON to the
  fixed address, and every number in its body is neither zero nor \<open>NaN\<close>: the two
  mandatory numbers passed the validation, and an optional field whose value is
  not truthy is sent as \<open>null\<close>.
\<close>

theorem requests_truthy:
  assumes "reachable Number parse p" and "q \<in> set (inFlight p)"
  shows "q = request (body q) \<and> numbersTruthy (body q)"
  using reachable_pageInv [OF assms(1)] assms(2)
  by (auto simp: pageInv_def list_all_iff requestOk_def)

theorem requests_truthy_witness:
  "numbersTruthy
     \<lparr>consultas = 0x4014000000000000, consultasConversion = None,
      oportunidadesPerdidas = 0x4014000000000000, tiempoSemanal = None, ticket = None\<rparr>"
proof -
  let ?p = "run (\<lambda>s. 0x4014000000000000) (\<lambda>s. None)
     [Change (js ''consultas'', js ''5'', js ''number''),
      Change (js ''oportunidadesPerdidas'', js ''5'', js ''number''), Submit] initialPage"
  let ?d = "\<lparr>consultas = 0x4014000000000000, consultasConversion = None,
      oportunidadesPerdidas = 0x4014000000000000, tiempoSemanal = None, ticket = None\<rparr>"
  have "inFlight ?p = [request ?d]"
    by (simp add: form_defs)
  then have "request ?d \<in> set (inFlight ?p)"
    by simp
  from requests_truthy [OF reachable_run_initial this] show ?thesis
    by (simp add: request_def)
qed

text \<open>
  C25 (invariant). A stored result goes with the success message: on every reachable
  page where \<open>roiResult\<close> is set, the message is the success message and the page is
  not loading.
\<close>

theorem result_implies_success:
  assumes "reachable Number parse p" and "roiResult (state p) \<noteq> None"
  shows "message (state p) = Some successMessage \<and> \<not> isLoading (state p)"
  using reachable_pageInv [OF assms(1)] assms(2) by (auto simp: pageInv_def)

theorem result_implies_success_witness:
  "message (state (run (\<lambda>s. 0x4014000000000000) (\<lambda>s. None)
     [Change (js ''consultas'', js ''5'', js ''number''),
      Change (js ''oportunidadesPerdidas'', js ''5'', js ''number''), Submit,
      Settle (Responded True (Some (js ''ok'')))] initialPage)) = Some successMessage"
proof -
  let ?p = "run (\<lambda>s. 0x4014000000000000) (\<lambda>s. None)
     [Change (js ''consultas'', js ''5'', js ''number''),
      Change (js ''oportunidadesPerdidas'', js ''5'', js ''number''), Submit,
      Settle (Responded True (Some (js ''ok'')))] initialPage"
  have "roiResult (state ?p) \<noteq> None"
    by (simp add: form_defs)
  from result_implies_success [OF reachable_run_initial this] show ?thesis ..
qed

text \<open>
  C3 (refinement). Every step of a reachable page is a transition of the submission
  flow of the specification, or leaves the phase as it is: submitting starts from a
  phase that is not \<open>Submitting\<close>, a rejected submission goes to \<open>Failure\<close> without
  passing \<open>Submitting\<close>, and \<open>Submitting\<close> ends in \<open>Success\<close> or \<open>Failure\<close>.
\<close>

theorem submission_flow:
  assumes "reachable Number parse p"
  shows "flow (phase p) (phase (step Number parse ev p))"
  using assms by (intro flow_step reachable_pageInv)

theorem submission_flow_witness:
  "flow (phase initialPage) (phase (step (\<lambda>s. NaN) (\<lambda>s. None) Submit initialPage))"
  by (rule submission_flow) (rule reachable.initial)

text \<open>
  The success message appears only when a request settles: if a step of
  a reachable page ends in phase \<open>Success\<close>, the page was \<open>Submitting\<close> or already in
  \<open>Success\<close>.
\<close>

theorem success_only_after_submitting:
  assumes "reachable Number parse p" and "phase (step Number parse ev p) = Success"
  shows "phase p = Submitting \<or> phase p = Success"
proof -
  from assms(1) have "flow (phase p) (phase (step Number parse ev p))"
    by (intro flow_step reachable_pageInv)
  with assms(2) have "flow (phase p) Success" by simp
  then show ?thesis by (rule flow_SuccessE) simp_all
qed

theorem success_only_after_submitting_witness:
  "phase (run (\<lambda>s. 0x4014000000000000) (\<lambda>s. None)
     [Change (js ''consultas'', js ''5'', js ''number''),
      Change (js ''oportunidadesPerdidas'', js ''5'', js ''number''), Submit] initialPage)
   = Submitting \<or>
   phase (run (\<lambda>s. 0x4014000000000000) (\<lambda>s. None)
     [Change (js ''consultas'', js ''5'', js ''number''),
      Change (js ''oportunidadesPerdidas'', js ''5'', js ''number''), Submit] initialPage)
   = Success"
proof -
  let ?p = "run (\<lambda>s. 0x4014000000000000) (\<lambda>s. None)
     [Change (js ''consultas'', js ''5'', js ''number''),
      Change (js ''oportunidadesPerdidas'', js ''5'', js ''number''), Submit] initialPage"
  have "phase (step (\<lambda>s. 0x4014000000000000) (\<lambda>s. None)
      (Settle (Responded True (Some (js ''ok'')))) ?p) = Success"
    by (simp add: form_defs)
  from success_only_after_submitting [OF reachable_run_initial this] show ?thesis .
qed

text \<open>
  C10 (error). A submission in which a mandatory field is not truthy sends nothing:
  the field values stay as they are, the message asks for the mandatory fields, an
  earlier result is dropped, and the page is not loading afterwards.
\<close>

theorem submit_missing_field:
  assumes "\<not> isLoading (state p)"
      and "\<not> truthyVal (formData (state p) (js ''consultas'')) \<or>
           \<not> truthyVal (formData (state p) (js ''oportunidadesPerdidas''))"
  shows "step Number parse Submit p =
           p\<lparr>state := (state p)\<lparr>message := Some validationMessage, roiResult := None\<rparr>\<rparr>"
  using assms by (simp add: handleSubmit_invalid)

theorem submit_missing_field_witness:
  "step (\<lambda>s. NaN) (\<lambda>s. None) Submit initialPage =
     initialPage\<lparr>state := (state initialPage)
       \<lparr>message := Some validationMessage, roiResult := None\<rparr>\<rparr>"
  by (rule submit_missing_field) (simp_all add: initialPage_def initialState_def emptyForm_def)

text \<open>
  C11 (functional). A submission with only the two mandatory fields filled sends one
  request whose body holds the two numbers and \<open>null\<close> for the three optional fields,
  and the page starts loading with no message and no result.
\<close>

theorem submit_mandatory_only:
  assumes "formData s =
             emptyForm(js ''consultas'' \<mapsto> Num a, js ''oportunidadesPerdidas'' \<mapsto> Num b)"
      and "truthyNumber a" and "truthyNumber b"
  shows "handleSubmit Number s =
           (s\<lparr>isLoading := True, message := None, roiResult := None\<rparr>,
            Some (request \<lparr>consultas = a, consultasConversion = None,
              oportunidadesPerdidas = b, tiempoSemanal = None, ticket = None\<rparr>))"
  using assms by (simp add: handleSubmit_def dataToSend_def emptyForm_def)

theorem submit_mandatory_only_witness:
  "handleSubmit (\<lambda>s. NaN)
     (initialState\<lparr>formData := emptyForm(js ''consultas'' \<mapsto> Num 0x4014000000000000,
        js ''oportunidadesPerdidas'' \<mapsto> Num 0x4028000000000000)\<rparr>) =
     (\<lparr>formData = emptyForm(js ''consultas'' \<mapsto> Num 0x4014000000000000,
         js ''oportunidadesPerdidas'' \<mapsto> Num 0x4028000000000000),
       isLoading = True, message = None, roiResult = None\<rparr>,
      Some (request \<lparr>consultas = 0x4014000000000000, consultasConversion = None,
        oportunidadesPerdidas = 0x4028000000000000, tiempoSemanal = None, ticket = None\<rparr>))"
proof -
  have a: "truthyNumber 0x4014000000000000" and b: "truthyNumber 0x4028000000000000"
    by (simp_all add: form_defs)
  have "formData (initialState\<lparr>formData := emptyForm(js ''consultas'' \<mapsto> Num 0x4014000000000000,
        js ''oportunidadesPerdidas'' \<mapsto> Num 0x4028000000000000)\<rparr>) =
      emptyForm(js ''consultas'' \<mapsto> Num 0x4014000000000000,
        js ''oportunidadesPerdidas'' \<mapsto> Num 0x4028000000000000)"
    by simp
  from submit_mandatory_only [OF this a b] show ?thesis
    by (simp add: initialState_def)
qed

text \<open>
  C9 (error). When the request of a reachable page fails (the transport rejects, the
  status is not a success, or the body cannot be read), the field values stay as they
  are, the failure message is set, loading ends and nothing is in flight.
\<close>

theorem settle_failure:
  assumes "reachable Number parse p" and "inFlight p \<noteq> []"
      and "\<And>result. r \<noteq> Responded True (Some result)"
  shows "step Number parse (Settle r) p =
           \<lparr>state = (state p)\<lparr>isLoading := False, message := Some failureMessage\<rparr>,
            inFlight = []\<rparr>"
proof -
  from reachable_pageInv [OF assms(1)] assms(2) obtain q where "inFlight p = [q]"
    by (cases "inFlight p") (simp_all add: pageInv_def)
  with assms(3) show ?thesis
    by (simp add: handleSubmit_response_failed)
qed

theorem settle_failure_witness:
  "formData (state (run (\<lambda>s. 0x4014000000000000) (\<lambda>s. None)
     [Change (js ''consultas'', js ''5'', js ''number''),
      Change (js ''oportunidadesPerdidas'', js ''5'', js ''number''), Submit,
      Settle (Responded False None)] initialPage)) =
   emptyForm(js ''consultas'' \<mapsto> Num 0x4014000000000000,
     js ''oportunidadesPerdidas'' \<mapsto> Num 0x4014000000000000)"
proof -
  let ?p = "run (\<lambda>s. 0x4014000000000000) (\<lambda>s. None)
     [Change (js ''consultas'', js ''5'', js ''number''),
      Change (js ''oportunidadesPerdidas'', js ''5'', js ''number''), Submit] initialPage"
  have "inFlight ?p \<noteq> []"
    by (simp add: form_defs)
  from settle_failure [OF reachable_run_initial this, of "Responded False None"]
  have "formData (state (step (\<lambda>s. 0x4014000000000000) (\<lambda>s. None)
      (Settle (Responded False None)) ?p)) = formData (state ?p)"
    by simp
  then show ?thesis
    by (simp add: form_defs)
qed

text \<open>
  C8 (functional). When the request of a reachable page succeeds, the result of the
  response is stored, the success message is set, all five fields are cleared,
  loading ends and nothing is in flight.
\<close>

theorem settle_success:
  assumes "reachable Number parse p" and "inFlight p \<noteq> []"
  shows "step Number parse (Settle (Responded True (Some result))) p =
           \<lparr>state = \<lparr>formData = emptyForm, isLoading = False,
              message = Some successMessage,
              roiResult = Some (parsedResult parse result)\<rparr>,
            inFlight = []\<rparr>"
proof -
  from reachable_pageInv [OF assms(1)] assms(2) obtain q where "inFlight p = [q]"
    by (cases "inFlight p") (simp_all add: pageInv_def)
  then show ?thesis
    by (simp add: handleSubmit_response_ok)
qed

theorem settle_success_witness:
  "run (\<lambda>s. 0x4014000000000000) (\<lambda>s. None)
     [Change (js ''consultas'', js ''5'', js ''number''),
      Change (js ''oportunidadesPerdidas'', js ''5'', js ''number''), Submit,
      Settle (Responded True (Some (js ''ok'')))] initialPage =
   \<lparr>state = \<lparr>formData = emptyForm, isLoading = False, message = Some successMessage,
       roiResult = Some (JStr (js ''ok''))\<rparr>,
    inFlight = []\<rparr>"
proof -
  let ?p = "run (\<lambda>s. 0x4014000000000000) (\<lambda>s. None)
     [Change (js ''consultas'', js ''5'', js ''number''),
      Change (js ''oportunidadesPerdidas'', js ''5'', js ''number''), Submit] initialPage"
  have "inFlight ?p \<noteq> []"
    by (simp add: form_defs)
  from settle_success [OF reachable_run_initial this, of "js ''ok''"] show ?thesis
    by (simp add: parsedResult_def)
qed

text \<open>
  The result of a response is the raw body, unless the body parses
  as a JSON object whose \<open>response\<close> property is truthy; then it is that property. A
  body that does not parse, that parses as \<open>null\<close>, as a number, a string or an array,
  or whose \<open>response\<close> is absent or falsy, is used as it is.
\<close>

theorem parsedResult_cases:
  "parsedResult parse result =
     (case parse result of
        Some (JObj props) \<Rightarrow>
          (case map_of props (js ''response'') of
             Some v \<Rightarrow> if truthyJson v then v else JStr result
           | None \<Rightarrow> JStr result)
      | _ \<Rightarrow> JStr result)"
  by (simp add: parsedResult_def split: option.splits json.splits)



text \<open>
  C27 (safety). No step returns a page to the phase \<open>Idle\<close>: a message, once shown, is
  replaced only by another message or by loading, and closing the result leaves the
  success message in place.
\<close>

theorem never_idle_again:
  assumes "phase p \<noteq> Idle"
  shows "phase (run Number parse evs p) \<noteq> Idle"
  using assms by (induction evs arbitrary: p) (simp_all add: not_Idle_step)

theorem never_idle_again_witness:
  "phase (run (\<lambda>s. NaN) (\<lambda>s. None) [Close, Submit, Close]
     (step (\<lambda>s. NaN) (\<lambda>s. None) Submit initialPage)) \<noteq> Idle"
proof -
  have "phase (step (\<lambda>s. NaN) (\<lambda>s. None) Submit initialPage) \<noteq> Idle"
    by (simp add: form_defs)
  then show ?thesis
    by (rule never_idle_again)
qed

text \<open>
  The stored result need not be a string: when the body parses as an
  object whose \<open>response\<close> property is a truthy number, that number is stored in
  \<open>roiResult\<close>, whose declared type is \<open>string | null\<close>.
\<close>

theorem result_not_a_string:
  assumes "parse result = Some (JObj [(js ''response'', JNum n)])" and "truthyNumber n"
  shows "roiResult (handleSubmit_response parse (Responded True (Some result)) s) =
           Some (JNum n)"
  using assms by (simp add: handleSubmit_response_ok parsedResult_def)

theorem result_not_a_string_witness:
  "roiResult (handleSubmit_response
     (\<lambda>s. Some (JObj [(js ''response'', JNum 0x4014000000000000)]))
     (Responded True (Some (js ''body''))) initialState) = Some (JNum 0x4014000000000000)"
proof -
  have "truthyNumber 0x4014000000000000"
    by (simp add: form_defs)
  with result_not_a_string [of "\<lambda>s. Some (JObj [(js ''response'', JNum 0x4014000000000000)])"]
  show ?thesis by simp
qed

text \<open>
  C38 (error). A successful response with an empty body, which does not parse, counts
  as a success: the success message is set and the form is cleared, but the stored
  result is the empty string, so the result is not shown.
\<close>

theorem empty_body_success:
  assumes "parse (js '''') = None"
  shows "handleSubmit_response parse (Responded True (Some (js ''''))) s =
           \<lparr>formData = emptyForm, isLoading = False, message = Some successMessage,
            roiResult = Some (JStr (js ''''))\<rparr> \<and>
         \<not> resultShown (handleSubmit_response parse (Responded True (Some (js ''''))) s)"
  using assms
  by (simp add: handleSubmit_response_ok parsedResult_def resultShown_def truthyOrNull_def)

theorem empty_body_success_witness:
  "\<not> resultShown (handleSubmit_response (\<lambda>s. None) (Responded True (Some (js '''')))
     initialState)"
proof -
  have "(\<lambda>s. None :: json option) (js '''') = None"
    by simp
  from empty_body_success [of "\<lambda>s. None", OF this] show ?thesis
    by (rule conjunct2)
qed

text \<open>
  After an edit, the edited field holds the value of the event (the
  empty string, or the number that the text denotes) and every other field, the
  loading flag, the message and the result are as before.
\<close>

theorem handleInputChange_lookup:
  "formData (handleInputChange Number (name, v, js ''number'') s) k =
     (if k = name then Some (if v = js '''' then Str (js '''') else Num (Number v))
      else formData s k) \<and>
   isLoading (handleInputChange Number (name, v, js ''number'') s) = isLoading s \<and>
   message (handleInputChange Number (name, v, js ''number'') s) = message s \<and>
   roiResult (handleInputChange Number (name, v, js ''number'') s) = roiResult s"
  by (simp add: handleInputChange_def)



end
