(* ===== verification/View.thy ===== *)
theory View
  imports Document_Formatter Form_State
begin

text \<open>
  The element tree that the component returns (\<open>src/components/CalculadoraROI.tsx\<close>,
  lines 210 to 527), as a function of the state.

  \<^item> The definitions \<open>loadingOverlay\<close>, \<open>resultModal\<close>, \<open>pageTitle\<close>, the five fields,
    \<open>messageBox\<close>, \<open>submitButton\<close>, \<open>calculatorForm\<close>, \<open>formCard\<close> and \<open>page\<close> are the
    JSX of the source, element by element, with every attribute, class name and
    text; a comment of the source has no counterpart. A conditional child
    (\<open>cond && element\<close>) is a list that is empty when the condition is falsy.
  \<^item> The date that the result dialog shows is a parameter (\<open>today\<close>): the source reads the
    clock while it renders.
  \<^item> \<open>reportOf\<close> reads the state cell \<open>roiResult\<close> the way the render uses it: a falsy
    value shows nothing, a truthy string is the report, and any other truthy value
    makes the calls of \<open>replace\<close> and \<open>split\<close> fail with a \<open>TypeError\<close>. \<open>render\<close> is the
    whole render, which fails in that case.
  \<^item> \<open>handlers\<close> and \<open>propsOf\<close> collect, in document order, the handlers that a tree
    refers to and the attributes of its elements with a given tag; \<open>controlled\<close>,
    \<open>nameOf\<close> and \<open>isRequired\<close> read the attributes of an input.
  \<^item> \<open>textual\<close> says that a stored result can be rendered, and \<open>textResponses\<close> that
    the parser only yields objects whose truthy \<open>response\<close> is a string.
\<close>

section \<open>The parts of the page\<close>

definition loadingOverlay :: "jsx" where
  "loadingOverlay =
     Element ''div'' None []
       ''fixed inset-0 bg-black/50 backdrop-blur-sm flex items-center justify-center z-50'' []
       [Element ''div'' None []
          ''bg-white/90 backdrop-blur-xl rounded-3xl p-8 text-center shadow-2xl border border-cyan-200/30'' []
          [Element ''div'' None []
             ''mb-6'' []
             [Element ''div'' None []
                ''w-16 h-16 mx-auto border-4 border-cyan-200 border-t-cyan-600 rounded-full animate-spin'' []
                []],
           Element ''h3'' None []
             ''text-2xl font-bold text-slate-800 mb-2'' []
             [TextNode (js ''Calculando tu ROI'')],
           Element ''p'' None []
             ''text-slate-600'' []
             [TextNode (js ''Analizando tus datos...'')]]]"

definition resultModal :: "jsstring \<Rightarrow> jsstring \<Rightarrow> jsx" where
  "resultModal today report =
     Element ''div'' None []
       ''fixed inset-0 bg-black/50 backdrop-blur-sm flex items-center justify-center z-50 p-4'' []
       [Element ''div'' None []
          ''bg-white/95 backdrop-blur-xl rounded-3xl p-6 sm:p-8 shadow-2xl border border-cyan-200/30 max-w-4xl w-full max-h-[85vh] overflow-hidden flex flex-col'' []
          [Element ''div'' None []
             ''text-center mb-6 flex-shrink-0'' []
             [Element ''div'' None []
                ''w-16 h-16 mx-auto bg-gradient-to-r from-cyan-500 to-blue-500 rounded-full flex items-center justify-center mb-4'' []
                [Element ''svg'' None [(''fill'', Lit ''none''),
                    (''stroke'', Lit ''currentColor''),
                    (''viewBox'', Lit ''0 0 24 24'')]
                   ''w-8 h-8 text-white'' []
                   [Element ''path'' None [(''strokeLinecap'', Lit ''round''),
                       (''strokeLinejoin'', Lit ''round''),
                       (''strokeWidth'', Numeric 0x4000000000000000),
                       (''d'', Lit ''M9 12h6m-6 4h6m2 5H7a2 2 0 01-2-2V5a2 2 0 012-2h5.586a1 1 0 01.707.293l5.414 5.414a1 1 0 01.293.707V19a2 2 0 01-2 2z'')]
                      '''' []
                      []]],
              Element ''h3'' None []
                ''text-2xl sm:text-3xl font-bold bg-gradient-to-r from-cyan-600 to-blue-600 bg-clip-text text-transparent mb-2'' []
                [TextNode (js ''Tu An'' @ [0xE1] @ js ''lisis ROI'')],
              Element ''p'' None []
                ''text-slate-600 text-sm'' []
                ([TextNode (js ''Setterless 360'' @ [0xB0] @ js '' - '')]
                 @ [TextNode today])],
           Element ''div'' None []
             ''bg-white rounded-2xl p-6 shadow-inner border border-slate-100 flex-1 overflow-y-auto mb-6'' []
             [Element ''div'' None []
                ''prose prose-slate max-w-none'' []
                (formatRoiResult report)],
           Element ''div'' None []
             ''flex justify-center flex-shrink-0'' []
             [Element ''button'' None [(''onClick'', Handler ''setRoiResult(null)'')]
                ''bg-gradient-to-r from-slate-500 to-slate-600 text-white font-semibold py-3 px-6 rounded-xl hover:from-slate-400 hover:to-slate-500 transition-all duration-300 transform hover:scale-105'' []
                [TextNode (js ''Cerrar'')]]]]"

definition pageTitle :: "jsx" where
  "pageTitle =
     Element ''div'' None []
       ''text-center mb-8 sm:mb-12'' []
       [Element ''h1'' None []
          ''text-3xl sm:text-4xl lg:text-5xl font-bold bg-gradient-to-r from-cyan-600 via-blue-600 to-teal-600 bg-clip-text text-transparent mb-4 tracking-tight'' []
          [TextNode (js ''Calculadora ROI'')],
        Element ''div'' None []
          ''text-xl sm:text-2xl font-semibold text-slate-700 mb-4'' []
          [TextNode (js ''Setterless 360'' @ [0xB0])],
        Element ''div'' None []
          ''w-16 sm:w-24 h-1 bg-gradient-to-r from-cyan-500 to-blue-500 mx-auto rounded-full mb-6'' []
          [],
        Element ''div'' None []
          ''max-w-md mx-auto mb-8'' []
          [Element ''p'' None []
             ''text-slate-600 text-sm sm:text-base leading-relaxed text-center'' []
             [TextNode (js ''Las cifras que brindes nos permitir'' @ [0xE1] @ js ''n construir un ''),
              Element ''span'' None []
                ''font-semibold text-cyan-600'' []
                [TextNode (js ''Roadmap de Implementaci'' @ [0xF3] @ js ''n'')],
              TextNode (js ''. Con el objetivo de recuperar consultas y liberar tiempo. Y as'' @ [0xED] @ js '' en los pr'' @ [0xF3] @ js ''ximos ''),
              Element ''span'' None []
                ''font-semibold text-cyan-600'' []
                [TextNode (js ''90 d'' @ [0xED] @ js ''as'')],
              TextNode (js '' mejorar dr'' @ [0xE1] @ js ''sticamente los resultados de la metodolog'' @ [0xED] @ js ''a de trabajo actual.'')]]]"

definition consultasField :: "State \<Rightarrow> jsx" where
  "consultasField s =
     Element ''div'' None []
       ''group'' []
       [Element ''label'' None [(''htmlFor'', Lit ''consultas'')]
          ''block text-sm font-semibold text-black mb-3 group-focus-within:text-cyan-600 transition-colors duration-200'' []
          [TextNode (js ''N'' @ [0xFA] @ js ''mero de consultas mensuales? *'')],
        Element ''div'' None []
          ''relative'' []
          [Element ''input'' None [(''type'', Lit ''number''),
              (''id'', Lit ''consultas''),
              (''name'', Lit ''consultas''),
              (''value'', Value (formData s (js ''consultas''))),
              (''onChange'', Handler ''handleInputChange''),
              (''required'', Flag True),
              (''min'', Lit ''0''),
              (''placeholder'', Lit ''Ej: 100'')]
             ''w-full px-3 py-3 sm:px-4 sm:py-4 bg-white/60 backdrop-blur-sm border border-cyan-200/40 rounded-xl text-slate-700 placeholder-slate-400 focus:outline-none focus:ring-2 focus:ring-cyan-500/50 focus:border-cyan-500/50 hover:bg-white/70 transition-all duration-300 group-focus-within:shadow-lg group-focus-within:shadow-cyan-500/20 text-sm sm:text-base'' []
             [],
           Element ''div'' None []
             ''absolute inset-0 rounded-xl bg-gradient-to-r from-cyan-500/0 via-blue-500/0 to-teal-500/0 group-focus-within:from-cyan-500/10 group-focus-within:via-blue-500/5 group-focus-within:to-teal-500/10 transition-all duration-300 pointer-events-none'' []
             []]]"

definition consultasConversionField :: "State \<Rightarrow> jsx" where
  "consultasConversionField s =
     Element ''div'' None []
       ''group'' []
       [Element ''label'' None [(''htmlFor'', Lit ''consultasConversion'')]
          ''block text-sm font-semibold text-black mb-3 group-focus-within:text-cyan-600 transition-colors duration-200'' []
          [TextNode (js ''Cu'' @ [0xE1] @ js ''ntas de estas consultas se convierten en visitas reales?'')],
        Element ''div'' None []
          ''relative'' []
          [Element ''input'' None [(''type'', Lit ''number''),
              (''id'', Lit ''consultasConversion''),
              (''name'', Lit ''consultasConversion''),
              (''value'', Value (formData s (js ''consultasConversion''))),
              (''onChange'', Handler ''handleInputChange''),
              (''min'', Lit ''0''),
              (''placeholder'', Lit ''Ej: 10'')]
             ''w-full px-3 py-3 sm:px-4 sm:py-4 bg-white/60 backdrop-blur-sm border border-cyan-200/40 rounded-xl text-slate-700 placeholder-slate-400 focus:outline-none focus:ring-2 focus:ring-cyan-500/50 focus:border-cyan-500/50 hover:bg-white/70 transition-all duration-300 group-focus-within:shadow-lg group-focus-within:shadow-cyan-500/20 text-sm sm:text-base'' []
             [],
           Element ''div'' None []
             ''absolute inset-0 rounded-xl bg-gradient-to-r from-cyan-500/0 via-blue-500/0 to-teal-500/0 group-focus-within:from-cyan-500/10 group-focus-within:via-blue-500/5 group-focus-within:to-teal-500/10 transition-all duration-300 pointer-events-none'' []
             []]]"

definition oportunidadesPerdidasField :: "State \<Rightarrow> jsx" where
  "oportunidadesPerdidasField s =
     Element ''div'' None []
       ''group'' []
       [Element ''label'' None [(''htmlFor'', Lit ''oportunidadesPerdidas'')]
          ''block text-sm font-semibold text-black mb-3 group-focus-within:text-cyan-600 transition-colors duration-200'' []
          [TextNode ([0xBF] @ js ''Cu'' @ [0xE1] @ js ''ntas oportunidades crees que se pierden por no responder a tiempo o por falta de seguimiento? *'')],
        Element ''div'' None []
          ''relative'' []
          [Element ''input'' None [(''type'', Lit ''number''),
              (''id'', Lit ''oportunidadesPerdidas''),
              (''name'', Lit ''oportunidadesPerdidas''),
              (''value'', Value (formData s (js ''oportunidadesPerdidas''))),
              (''onChange'', Handler ''handleInputChange''),
              (''required'', Flag True),
              (''min'', Lit ''0''),
              (''placeholder'', Lit ''Ej: 6'')]
             ''w-full px-3 py-3 sm:px-4 sm:py-4 bg-white/60 backdrop-blur-sm border border-cyan-200/40 rounded-xl text-slate-700 placeholder-slate-400 focus:outline-none focus:ring-2 focus:ring-cyan-500/50 focus:border-cyan-500/50 hover:bg-white/70 transition-all duration-300 group-focus-within:shadow-lg group-focus-within:shadow-cyan-500/20 text-sm sm:text-base'' []
             [],
           Element ''div'' None []
             ''absolute inset-0 rounded-xl bg-gradient-to-r from-cyan-500/0 via-blue-500/0 to-teal-500/0 group-focus-within:from-cyan-500/10 group-focus-within:via-blue-500/5 group-focus-within:to-teal-500/10 transition-all duration-300 pointer-events-none'' []
             []]]"

definition tiempoSemanalField :: "State \<Rightarrow> jsx" where
  "tiempoSemanalField s =
     Element ''div'' None []
       ''group'' []
       [Element ''label'' None [(''htmlFor'', Lit ''tiempoSemanal'')]
          ''block text-sm font-semibold text-black mb-3 group-focus-within:text-cyan-600 transition-colors duration-200'' []
          [TextNode ([0xBF] @ js ''Cu'' @ [0xE1] @ js ''nto tiempo dedicas t'' @ [0xFA] @ js '' o tu equipo a responder consultas cada semana? (en horas)'')],
        Element ''div'' None []
          ''relative'' []
          [Element ''input'' None [(''type'', Lit ''number''),
              (''id'', Lit ''tiempoSemanal''),
              (''name'', Lit ''tiempoSemanal''),
              (''value'', Value (formData s (js ''tiempoSemanal''))),
              (''onChange'', Handler ''handleInputChange''),
              (''min'', Lit ''0''),
              (''step'', Lit ''0.5''),
              (''placeholder'', Lit ''Ej: 10'')]
             ''w-full px-3 py-3 sm:px-4 sm:py-4 bg-white/60 backdrop-blur-sm border border-cyan-200/40 rounded-xl text-slate-700 placeholder-slate-400 focus:outline-none focus:ring-2 focus:ring-cyan-500/50 focus:border-cyan-500/50 hover:bg-white/70 transition-all duration-300 group-focus-within:shadow-lg group-focus-within:shadow-cyan-500/20 text-sm sm:text-base'' []
             [],
           Element ''div'' None []
             ''absolute inset-0 rounded-xl bg-gradient-to-r from-cyan-500/0 via-blue-500/0 to-teal-500/0 group-focus-within:from-cyan-500/10 group-focus-within:via-blue-500/5 group-focus-within:to-teal-500/10 transition-all duration-300 pointer-events-none'' []
             []]]"

definition ticketField :: "State \<Rightarrow> jsx" where
  "ticketField s =
     Element ''div'' None []
       ''group'' []
       [Element ''label'' None [(''htmlFor'', Lit ''ticket'')]
          ''block text-sm font-semibold text-black mb-3 group-focus-within:text-cyan-600 transition-colors duration-200'' []
          [TextNode (js ''Ticket promedio por cliente (USD)'')],
        Element ''div'' None []
          ''relative'' []
          [Element ''input'' None [(''type'', Lit ''number''),
              (''id'', Lit ''ticket''),
              (''name'', Lit ''ticket''),
              (''value'', Value (formData s (js ''ticket''))),
              (''onChange'', Handler ''handleInputChange''),
              (''min'', Lit ''0''),
              (''step'', Lit ''0.01''),
              (''placeholder'', Lit ''Ej: 5000'')]
             ''w-full px-3 py-3 sm:px-4 sm:py-4 bg-white/60 backdrop-blur-sm border border-cyan-200/40 rounded-xl text-slate-700 placeholder-slate-400 focus:outline-none focus:ring-2 focus:ring-cyan-500/50 focus:border-cyan-500/50 hover:bg-white/70 transition-all duration-300 group-focus-within:shadow-lg group-focus-within:shadow-cyan-500/20 text-sm sm:text-base'' []
             [],
           Element ''div'' None []
             ''absolute inset-0 rounded-xl bg-gradient-to-r from-cyan-500/0 via-blue-500/0 to-teal-500/0 group-focus-within:from-cyan-500/10 group-focus-within:via-blue-500/5 group-focus-within:to-teal-500/10 transition-all duration-300 pointer-events-none'' []
             []]]"

definition messageBox :: "Message \<Rightarrow> jsx" where
  "messageBox m =
     Element ''div'' None []
       (''p-4 rounded-xl text-center font-semibold backdrop-blur-sm border transition-all duration-300 '' @ (if msg_type m = success then ''bg-green-50/80 text-green-700 border-green-300/50 shadow-lg shadow-green-400/20'' else ''bg-red-50/80 text-red-700 border-red-300/50 shadow-lg shadow-red-400/20'')) []
       [TextNode (msg_text m)]"

definition submitButton :: "State \<Rightarrow> jsx" where
  "submitButton s =
     Element ''button'' None [(''type'', Lit ''submit''),
        (''disabled'', Flag (isLoading s))]
       ''w-full relative overflow-hidden bg-gradient-to-r from-cyan-500 via-blue-500 to-teal-500 text-white font-bold py-3 px-4 sm:py-4 sm:px-6 rounded-xl hover:from-cyan-400 hover:via-blue-400 hover:to-teal-400 focus:outline-none focus:ring-2 focus:ring-cyan-400/50 transition-all duration-300 disabled:opacity-50 disabled:cursor-not-allowed transform hover:scale-[1.02] active:scale-[0.98] shadow-xl shadow-cyan-500/25 group text-sm sm:text-base'' []
       [Element ''div'' None []
          ''absolute inset-0 bg-gradient-to-r from-white/0 via-white/20 to-white/0 transform -skew-x-12 -translate-x-full group-hover:translate-x-full transition-transform duration-700'' []
          [],
        Element ''div'' None []
          ''relative z-10'' []
          (if isLoading s then [Element ''div'' None []
                ''flex items-center justify-center'' []
                [Element ''div'' None []
                   ''animate-spin rounded-full h-6 w-6 border-b-2 border-white mr-3'' []
                   [],
                 TextNode (js ''Calculando tu ROI...'')]] else [TextNode (js ''Calcular ROI'')])]"

definition calculatorForm :: "State \<Rightarrow> jsx" where
  "calculatorForm s =
     Element ''form'' None [(''onSubmit'', Handler ''handleSubmit'')]
       ''space-y-5 sm:space-y-6 relative z-10'' []
       ([consultasField s,
        consultasConversionField s,
        oportunidadesPerdidasField s,
        tiempoSemanalField s,
        ticketField s]
        @ (case message s of None \<Rightarrow> [] | Some m \<Rightarrow> [messageBox m])
        @ [submitButton s])"

definition formCard :: "State \<Rightarrow> jsx" where
  "formCard s =
     Element ''div'' None []
       ''backdrop-blur-xl bg-white/80 rounded-2xl sm:rounded-3xl border border-cyan-200/30 p-6 sm:p-8 shadow-2xl shadow-cyan-500/10 relative overflow-hidden'' []
       [Element ''div'' None []
          ''absolute inset-0 bg-gradient-to-br from-cyan-50/50 to-blue-50/30 rounded-3xl'' []
          [],
        calculatorForm s]"

definition page :: "jsstring \<Rightarrow> State \<Rightarrow> jsstring option \<Rightarrow> jsx" where
  "page today s report =
     Element ''div'' None []
       ''min-h-screen bg-gradient-to-br from-slate-50 via-cyan-50 to-blue-50 flex items-center justify-center p-4 relative overflow-hidden'' []
       [Element ''div'' None []
          ''absolute inset-0 overflow-hidden'' []
          [Element ''div'' None []
             ''absolute -top-40 -right-40 w-80 h-80 bg-cyan-400 rounded-full mix-blend-multiply filter blur-xl opacity-15 animate-pulse'' []
             [],
           Element ''div'' None []
             ''absolute -bottom-40 -left-40 w-80 h-80 bg-blue-400 rounded-full mix-blend-multiply filter blur-xl opacity-15 animate-pulse animation-delay-2000'' []
             [],
           Element ''div'' None []
             ''absolute top-1/2 left-1/2 transform -translate-x-1/2 -translate-y-1/2 w-96 h-96 bg-teal-400 rounded-full mix-blend-multiply filter blur-xl opacity-10 animate-pulse animation-delay-4000'' []
             []],
        Element ''div'' None []
          (''absolute inset-0 bg-[url('' @ [CHR 0x27] @ ''data:image/svg+xml,%3Csvg%20width=%2260%22%20height=%2260%22%20viewBox=%220%200%2060%2060%22%20xmlns=%22http://www.w3.org/2000/svg%22%3E%3Cg%20fill=%22none%22%20fill-rule=%22evenodd%22%3E%3Cg%20fill=%22%2306B6D4%22%20fill-opacity=%220.08%22%3E%3Ccircle%20cx=%2230%22%20cy=%2230%22%20r=%221%22/%3E%3C/g%3E%3C/g%3E%3C/svg%3E'' @ [CHR 0x27] @ '')] opacity-30'') []
          [],
        Element ''div'' None []
          ''w-full max-w-lg relative z-10'' []
          ((if isLoading s then [loadingOverlay] else [])
           @ (case report of None \<Rightarrow> [] | Some text \<Rightarrow> if \<not> isLoading s then [resultModal today text] else [])
           @ (case report of None \<Rightarrow> [] | Some text \<Rightarrow> [pdfDocument today text])
           @ [pageTitle,
           formCard s,
           Element ''p'' None []
             ''text-center text-slate-600 text-xs sm:text-sm mt-6 sm:mt-8 font-medium'' []
             [TextNode (js ''* Campos obligatorios'')]])]"


section \<open>The render\<close>

definition reportOf :: "json option \<Rightarrow> jsError + jsstring option" where
  "reportOf r =
     (case r of
        None \<Rightarrow> Inr None
      | Some v \<Rightarrow>
          if \<not> truthyJson v then Inr None
          else (case v of JStr t \<Rightarrow> Inr (Some t) | _ \<Rightarrow> Inl TypeError))"

definition render :: "jsstring \<Rightarrow> State \<Rightarrow> jsError + jsx" where
  "render today s =
     (case reportOf (roiResult s) of
        Inl e \<Rightarrow> Inl e
      | Inr report \<Rightarrow> Inr (page today s report))"

section \<open>Reading a tree\<close>

fun handlers :: "jsx \<Rightarrow> string list" where
  "handlers (TextNode t) = []"
| "handlers (Element t k ps c st cs) =
     concat (map (\<lambda>p. case snd p of Handler h \<Rightarrow> [h] | _ \<Rightarrow> []) ps) @ concat (map handlers cs)"

fun propsOf :: "string \<Rightarrow> jsx \<Rightarrow> (string \<times> attr) list list" where
  "propsOf tg (TextNode t) = []"
| "propsOf tg (Element t k ps c st cs) =
     (if t = tg then [ps] else []) @ concat (map (propsOf tg) cs)"

section \<open>What the controls of the page say\<close>

definition nameOf :: "(string \<times> attr) list \<Rightarrow> string" where
  "nameOf ps = (case map_of ps ''name'' of Some (Lit n) \<Rightarrow> n | _ \<Rightarrow> [])"

definition isRequired :: "(string \<times> attr) list \<Rightarrow> bool" where
  "isRequired ps \<longleftrightarrow> map_of ps ''required'' = Some (Flag True)"

definition controlled :: "State \<Rightarrow> (string \<times> attr) list \<Rightarrow> bool" where
  "controlled s ps \<longleftrightarrow>
     map_of ps ''type'' = Some (Lit ''number'') \<and>
     map_of ps ''value'' = Some (Value (formData s (js (nameOf ps)))) \<and>
     map_of ps ''onChange'' = Some (Handler ''handleInputChange'')"

definition textual :: "json option \<Rightarrow> bool" where
  "textual r \<longleftrightarrow>
     (case r of None \<Rightarrow> True | Some (JStr t) \<Rightarrow> True | Some v \<Rightarrow> \<not> truthyJson v)"

definition textResponses :: "(jsstring \<Rightarrow> json option) \<Rightarrow> bool" where
  "textResponses parse \<longleftrightarrow>
     (\<forall>body props v. parse body = Some (JObj props) \<longrightarrow>
        map_of props (js ''response'') = Some v \<longrightarrow> truthyJson v \<longrightarrow> (\<exists>t. v = JStr t))"

lemmas view_defs =
  loadingOverlay_def resultModal_def pageTitle_def consultasField_def
  consultasConversionField_def oportunidadesPerdidasField_def tiempoSemanalField_def
  ticketField_def messageBox_def submitButton_def calculatorForm_def formCard_def page_def

section \<open>The handlers of the page\<close>

lemma handlers_paragraphElement [simp]: "handlers (paragraphElement i t) = []"
  by (simp add: paragraphElement_def)

lemma handlers_formatRoiResult [simp]: "concat (map handlers (formatRoiResult report)) = []"
  by (simp add: formatRoiResult_map)

lemma handlers_pdfLine [simp]: "handlers (pdfLine i l) = []"
  by (simp add: pdfLine_def Let_def)

lemma handlers_pdfDocument [simp]: "handlers (pdfDocument today text) = []"
  by (simp add: pdfDocument_def pdfHeader_def pdfFooter_def pdfLines_def)

lemma handlers_parts [simp]:
  "handlers loadingOverlay = []"
  "handlers (resultModal today text) = [''setRoiResult(null)'']"
  "handlers pageTitle = []"
  "handlers (messageBox m) = []"
  "handlers (submitButton s) = []"
  by (simp_all add: loadingOverlay_def resultModal_def pageTitle_def messageBox_def
      submitButton_def)

lemma handlers_fields [simp]:
  "handlers (consultasField s) = [''handleInputChange'']"
  "handlers (consultasConversionField s) = [''handleInputChange'']"
  "handlers (oportunidadesPerdidasField s) = [''handleInputChange'']"
  "handlers (tiempoSemanalField s) = [''handleInputChange'']"
  "handlers (ticketField s) = [''handleInputChange'']"
  by (simp_all add: consultasField_def consultasConversionField_def
      oportunidadesPerdidasField_def tiempoSemanalField_def ticketField_def)

lemma handlers_formCard [simp]:
  "handlers (formCard s) = ''handleSubmit'' # replicate 5 ''handleInputChange''"
  by (cases "message s") (simp_all add: formCard_def calculatorForm_def eval_nat_numeral)

lemma handlers_page:
  "handlers (page today s report) =
     (case report of None \<Rightarrow> [] | Some text \<Rightarrow>
        if isLoading s then [] else [''setRoiResult(null)'']) @
     ''handleSubmit'' # replicate 5 ''handleInputChange''"
  by (cases report) (simp_all add: page_def)

section \<open>The controls of the page\<close>

lemma propsOf_paragraphElement [simp]:
  assumes "tg \<notin> {''h2'', ''h3'', ''div'', ''p''}"
  shows "propsOf tg (paragraphElement i t) = []"
proof -
  from assms have "''h2'' \<noteq> tg" "''h3'' \<noteq> tg" "''div'' \<noteq> tg" "''p'' \<noteq> tg"
    by auto
  then show ?thesis
    by (simp add: paragraphElement_def)
qed

lemma propsOf_formatRoiResult [simp]:
  "tg \<notin> {''h2'', ''h3'', ''div'', ''p''} \<Longrightarrow>
   concat (map (propsOf tg) (formatRoiResult report)) = []"
  by (simp add: formatRoiResult_map)

lemma propsOf_pdfLine [simp]:
  assumes "tg \<notin> {''h2'', ''h3'', ''div'', ''p'', ''span''}"
  shows "propsOf tg (pdfLine i l) = []"
proof -
  from assms have "''h2'' \<noteq> tg" "''h3'' \<noteq> tg" "''div'' \<noteq> tg" "''p'' \<noteq> tg"
      "''span'' \<noteq> tg"
    by auto
  then show ?thesis
    by (simp add: pdfLine_def Let_def)
qed

lemma propsOf_pdfDocument [simp]:
  assumes "tg \<notin> {''h1'', ''h2'', ''h3'', ''div'', ''p'', ''span''}"
  shows "propsOf tg (pdfDocument today text) = []"
proof -
  from assms have "''h1'' \<noteq> tg" "''h2'' \<noteq> tg" "''div'' \<noteq> tg" "''p'' \<noteq> tg"
    by auto
  with assms show ?thesis
    by (simp add: pdfDocument_def pdfHeader_def pdfFooter_def pdfLines_def)
qed

lemma inputs_parts [simp]:
  "propsOf ''input'' loadingOverlay = []"
  "propsOf ''input'' (resultModal today text) = []"
  "propsOf ''input'' pageTitle = []"
  "propsOf ''input'' (messageBox m) = []"
  "propsOf ''input'' (submitButton s) = []"
  by (simp_all add: loadingOverlay_def resultModal_def pageTitle_def messageBox_def
      submitButton_def)

lemma buttons_parts [simp]:
  "propsOf ''button'' loadingOverlay = []"
  "propsOf ''button'' (resultModal today text) = [[(''onClick'', Handler ''setRoiResult(null)'')]]"
  "propsOf ''button'' pageTitle = []"
  "propsOf ''button'' (messageBox m) = []"
  "propsOf ''button'' (submitButton s) =
     [[(''type'', Lit ''submit''), (''disabled'', Flag (isLoading s))]]"
  "propsOf ''button'' (consultasField s) = []"
  "propsOf ''button'' (consultasConversionField s) = []"
  "propsOf ''button'' (oportunidadesPerdidasField s) = []"
  "propsOf ''button'' (tiempoSemanalField s) = []"
  "propsOf ''button'' (ticketField s) = []"
  by (simp_all add: loadingOverlay_def resultModal_def pageTitle_def messageBox_def
      submitButton_def consultasField_def consultasConversionField_def
      oportunidadesPerdidasField_def tiempoSemanalField_def ticketField_def)

lemma inputs_fields:
  "map nameOf (propsOf ''input'' (consultasField s)) = [''consultas'']"
  "map nameOf (propsOf ''input'' (consultasConversionField s)) = [''consultasConversion'']"
  "map nameOf (propsOf ''input'' (oportunidadesPerdidasField s)) = [''oportunidadesPerdidas'']"
  "map nameOf (propsOf ''input'' (tiempoSemanalField s)) = [''tiempoSemanal'']"
  "map nameOf (propsOf ''input'' (ticketField s)) = [''ticket'']"
  by (simp_all add: consultasField_def consultasConversionField_def
      oportunidadesPerdidasField_def tiempoSemanalField_def ticketField_def nameOf_def)

lemma controlled_fields:
  "list_all (controlled s) (propsOf ''input'' (consultasField s))"
  "list_all (controlled s) (propsOf ''input'' (consultasConversionField s))"
  "list_all (controlled s) (propsOf ''input'' (oportunidadesPerdidasField s))"
  "list_all (controlled s) (propsOf ''input'' (tiempoSemanalField s))"
  "list_all (controlled s) (propsOf ''input'' (ticketField s))"
  by (simp_all add: consultasField_def consultasConversionField_def
      oportunidadesPerdidasField_def tiempoSemanalField_def ticketField_def nameOf_def
      controlled_def)

lemma required_fields:
  "list_all isRequired (propsOf ''input'' (consultasField s))"
  "list_all (\<lambda>ps. \<not> isRequired ps) (propsOf ''input'' (consultasConversionField s))"
  "list_all isRequired (propsOf ''input'' (oportunidadesPerdidasField s))"
  "list_all (\<lambda>ps. \<not> isRequired ps) (propsOf ''input'' (tiempoSemanalField s))"
  "list_all (\<lambda>ps. \<not> isRequired ps) (propsOf ''input'' (ticketField s))"
  by (simp_all add: consultasField_def consultasConversionField_def
      oportunidadesPerdidasField_def tiempoSemanalField_def ticketField_def isRequired_def)

lemma inputs_formCard:
  "propsOf ''input'' (formCard s) =
     propsOf ''input'' (consultasField s) @ propsOf ''input'' (consultasConversionField s) @
     propsOf ''input'' (oportunidadesPerdidasField s) @ propsOf ''input'' (tiempoSemanalField s) @
     propsOf ''input'' (ticketField s)"
  by (cases "message s") (simp_all add: formCard_def calculatorForm_def)

lemma inputs_page: "propsOf ''input'' (page today s report) = propsOf ''input'' (formCard s)"
  by (cases report) (simp_all add: page_def)

lemma buttons_formCard:
  "propsOf ''button'' (formCard s) = [[(''type'', Lit ''submit''), (''disabled'', Flag (isLoading s))]]"
  by (cases "message s") (simp_all add: formCard_def calculatorForm_def)

section \<open>Rendering a stored result\<close>

lemma jsError_unique [simp]: "(e :: jsError) = TypeError"
  by (cases e) simp

lemma reportOf_None [simp]: "reportOf None = Inr None"
  by (simp add: reportOf_def)

lemma reportOf_JStr [simp]: "reportOf (Some (JStr t)) = Inr (if t = [] then None else Some t)"
  by (simp add: reportOf_def truthy_def)

lemma reportOf_textual: "reportOf r \<noteq> Inl TypeError \<longleftrightarrow> textual r"
  by (auto simp: reportOf_def textual_def split: option.splits json.splits)

lemma reportOf_Inr:
  assumes "reportOf r = Inr report"
  shows "report \<noteq> None \<longleftrightarrow> truthyOrNull r"
  using assms
  by (auto simp: reportOf_def truthyOrNull_def split: option.splits json.splits if_splits)

lemma render_Inr:
  assumes "render today s = Inr tree"
  obtains report where "reportOf (roiResult s) = Inr report" and "tree = page today s report"
  using assms by (auto simp: render_def split: sum.splits)

lemma render_textual: "textual (roiResult s) \<Longrightarrow> \<exists>tree. render today s = Inr tree"
  by (cases "reportOf (roiResult s)") (auto simp: render_def simp flip: reportOf_textual)

lemma textual_parsedResult:
  assumes "textResponses parse"
  shows "textual (Some (parsedResult parse result))"
proof (cases "parsedResult parse result = JStr result")
  case True
  then show ?thesis by (simp add: textual_def)
next
  case False
  then obtain props v where "parse result = Some (JObj props)"
      and "map_of props (js ''response'') = Some v" and "truthyJson v"
      and "parsedResult parse result = v"
    by (auto simp: parsedResult_def split: option.splits json.splits if_splits)
  note v = this
  from assms v(1-3) obtain t where "v = JStr t"
    unfolding textResponses_def by blast
  with v(4) show ?thesis
    by (simp add: textual_def)
qed

lemma textual_step:
  assumes "textResponses parse" and "textual (roiResult (state p))"
  shows "textual (roiResult (state (step Number parse ev p)))"
proof (cases ev)
  case (Change e)
  with assms(2) show ?thesis by simp
next
  case Submit
  with assms(2) show ?thesis
    by (cases rule: handleSubmit_cases [where Number = Number and s = "state p"])
      (simp_all add: textual_def)
next
  case (Settle r)
  show ?thesis
  proof (cases rule: handleSubmit_response_cases [where r = r and parse = parse and s = "state p"])
    case (ok result)
    with Settle assms show ?thesis
      by (cases "inFlight p") (simp_all add: handleSubmit_response_ok textual_parsedResult)
  next
    case failed
    with Settle assms(2) show ?thesis
      by (cases "inFlight p") simp_all
  qed
next
  case Close
  with assms(2) show ?thesis by (simp add: textual_def)
qed

lemma reachable_textual:
  assumes "reachable Number parse p" and "textResponses parse"
  shows "textual (roiResult (state p))"
  using assms
  by (induction rule: reachable.induct)
    (simp_all add: textual_step, simp add: initialPage_def initialState_def textual_def)

section \<open>Properties of the page\<close>

text \<open>
  C12 (safety). If the parser only yields objects whose truthy \<open>response\<close> property is a
  string, the render of every reachable page succeeds: the stored result is never a
  value on which \<open>replace\<close> or \<open>split\<close> is missing.
\<close>

theorem render_never_fails:
  assumes "reachable Number parse p" and "textResponses parse"
  shows "\<exists>tree. render today (state p) = Inr tree"
  using assms by (intro render_textual reachable_textual)

theorem render_never_fails_witness:
  "\<exists>tree. render (js ''9/3/2025'')
     (state (run (\<lambda>s. 0x4014000000000000) (\<lambda>s. None)
        [Change (js ''consultas'', js ''5'', js ''number''),
         Change (js ''oportunidadesPerdidas'', js ''5'', js ''number''), Submit,
         Settle (Responded True (Some (js ''ok'')))] initialPage)) = Inr tree"
proof -
  have "textResponses (\<lambda>s. None)"
    by (simp add: textResponses_def)
  with reachable_run_initial show ?thesis
    by (rule render_never_fails)
qed

text \<open>
  C21 (error). A response whose \<open>response\<close> property is a truthy number breaks the page:
  the number is stored as the result, and the next render fails with a \<open>TypeError\<close>,
  because it calls \<open>split\<close> and \<open>replace\<close> on the stored value.
\<close>

theorem render_type_error:
  assumes "parse raw = Some (JObj [(js ''response'', JNum n)])" and "truthyNumber n"
  shows "render today (handleSubmit_response parse (Responded True (Some raw)) s) =
           Inl TypeError"
  using assms by (simp add: handleSubmit_response_ok parsedResult_def render_def reportOf_def)

theorem render_type_error_witness:
  "render (js ''9/3/2025'') (handleSubmit_response
     (\<lambda>s. Some (JObj [(js ''response'', JNum 0x4045000000000000)]))
     (Responded True (Some (js ''body''))) initialState) = Inl TypeError"
proof -
  have "truthyNumber 0x4045000000000000"
    by (simp add: form_defs)
  with render_type_error [of "\<lambda>s. Some (JObj [(js ''response'', JNum 0x4045000000000000)])"]
  show ?thesis by simp
qed

text \<open>
  C22 (functional). The page refers to three handlers and no other: \<open>handleSubmit\<close> on the
  form, \<open>handleInputChange\<close> on each of the five inputs, and the function that clears
  the result on the close button, which is present exactly when the result is shown.
  No element refers to \<open>generatePDF\<close>.
\<close>

theorem offered_events:
  assumes "render today s = Inr tree"
  shows "handlers tree =
           (if resultShown s then [''setRoiResult(null)''] else []) @
           ''handleSubmit'' # replicate 5 ''handleInputChange''"
proof -
  from assms obtain report where report: "reportOf (roiResult s) = Inr report"
      and tree: "tree = page today s report"
    by (rule render_Inr)
  from report have "report \<noteq> None \<longleftrightarrow> truthyOrNull (roiResult s)"
    by (rule reportOf_Inr)
  then show ?thesis
    unfolding tree handlers_page by (cases report) (simp_all add: resultShown_def)
qed

theorem offered_events_witness:
  "handlers (page (js ''9/3/2025'') initialState None) =
     ''handleSubmit'' # replicate 5 ''handleInputChange''"
proof -
  have "render (js ''9/3/2025'') initialState = Inr (page (js ''9/3/2025'') initialState None)"
    by (simp add: render_def initialState_def)
  from offered_events [OF this] show ?thesis
    by (simp add: resultShown_def initialState_def truthyOrNull_def)
qed

text \<open>
  C23 (functional). The inputs of the page are the five fields of the form data, in the
  order of \<open>inputNames\<close>: each is a number input that shows the field of its name and
  reports changes to \<open>handleInputChange\<close>, and the inputs marked \<open>required\<close> are
  \<open>consultas\<close> and \<open>oportunidadesPerdidas\<close>, the two fields that \<open>handleSubmit\<close> tests.
\<close>

theorem inputs_controlled:
  "map (js \<circ> nameOf) (propsOf ''input'' (page today s report)) = inputNames \<and>
   list_all (controlled s) (propsOf ''input'' (page today s report)) \<and>
   map nameOf (filter isRequired (propsOf ''input'' (page today s report))) =
     [''consultas'', ''oportunidadesPerdidas'']"
proof (intro conjI)
  show "map (js \<circ> nameOf) (propsOf ''input'' (page today s report)) = inputNames"
    by (simp add: inputs_page inputs_formCard inputs_fields inputNames_def flip: map_map)
  show "list_all (controlled s) (propsOf ''input'' (page today s report))"
    by (simp add: inputs_page inputs_formCard controlled_fields)
  have "filter isRequired (propsOf ''input'' (page today s report)) =
      propsOf ''input'' (consultasField s) @ propsOf ''input'' (oportunidadesPerdidasField s)"
    using required_fields [of s]
    by (simp add: inputs_page inputs_formCard list_all_iff filter_id_conv filter_empty_conv)
  then show "map nameOf (filter isRequired (propsOf ''input'' (page today s report))) =
      [''consultas'', ''oportunidadesPerdidas'']"
    by (simp add: inputs_fields)
qed

text \<open>
  C24 (safety). The form has one button, the submit button, and it is disabled exactly
  while the page is loading; the only other button of the page is the close button
  of the result dialog.
\<close>

theorem submit_disabled_while_loading:
  "propsOf ''button'' (page today s report) =
     (case report of None \<Rightarrow> [] | Some text \<Rightarrow>
        if isLoading s then [] else [[(''onClick'', Handler ''setRoiResult(null)'')]]) @
     [[(''type'', Lit ''submit''), (''disabled'', Flag (isLoading s))]]"
  by (cases report) (simp_all add: page_def buttons_formCard)

end
