(* ===== verification/PDF_Export.thy ===== *)
theory PDF_Export
  imports JS_String JS_Value
begin

text \<open>
  The export of the report as a PDF file, \<open>generatePDF\<close> of
  \<open>src/components/CalculadoraROI.tsx\<close> (lines 33 to 76).

  \<^item> The element that is exported is known to the function through \<open>pdfContentRef\<close>;
    the model keeps its inline style, a map from property names to values
    (\<open>ElementStyle\<close>), or \<open>None\<close> while the element is not mounted. \<open>showElement\<close> and
    \<open>hideElement\<close> are the two groups of assignments to that style.
  \<^item> \<open>pdfOptions\<close> is the options object; the time of the call is a parameter, given
    as the text that \<open>toISOString\<close> returns, and \<open>isoDate\<close> is its part before \<open>T\<close>.
  \<^item> \<open>generatePDF\<close> is the function up to the call of the library: it returns the
    new state of the export (\<open>Export\<close>: the style of the element, the jobs handed to
    the library, the alerts shown). Whether the library throws is a parameter.
    \<open>saved\<close> is the callback that runs when the library has saved the file.
\<close>

section \<open>The element and the options\<close>

type_synonym ElementStyle = "string \<rightharpoonup> string"

definition showElement :: "ElementStyle \<Rightarrow> ElementStyle" where
  "showElement st =
     st(''position'' \<mapsto> ''fixed'', ''top'' \<mapsto> ''0'', ''left'' \<mapsto> ''0'',
        ''zIndex'' \<mapsto> ''9999'', ''backgroundColor'' \<mapsto> ''white'')"

definition hideElement :: "ElementStyle \<Rightarrow> ElementStyle" where
  "hideElement st =
     st(''position'' \<mapsto> ''fixed'', ''top'' \<mapsto> ''-9999px'', ''left'' \<mapsto> ''0'',
        ''zIndex'' \<mapsto> ''-1'')"

record ImageOptions =
  image_type :: string
  image_quality :: jsnumber

record CanvasOptions =
  canvas_scale :: jsnumber
  canvas_useCORS :: bool
  canvas_letterRendering :: bool
  canvas_allowTaint :: bool
  canvas_backgroundColor :: string

record JsPDFOptions =
  pdf_unit :: string
  pdf_format :: string
  pdf_orientation :: string

record Options =
  margin :: jsnumber
  filename :: jsstring
  image :: ImageOptions
  html2canvas :: CanvasOptions
  jsPDF :: JsPDFOptions

definition isoDate :: "jsstring \<Rightarrow> jsstring" where
  "isoDate now = hd (split (of_char CHR ''T'') now)"

definition pdfOptions :: "jsstring \<Rightarrow> Options" where
  "pdfOptions now =
     \<lparr>margin = 0x3FE0000000000000,
      filename = js ''Analisis_ROI_Setterless_'' @ isoDate now @ js ''.pdf'',
      image = \<lparr>image_type = ''jpeg'', image_quality = 0x3FEF5C28F5C28F5C\<rparr>,
      html2canvas =
        \<lparr>canvas_scale = 0x4000000000000000, canvas_useCORS = True,
         canvas_letterRendering = True, canvas_allowTaint = True,
         canvas_backgroundColor = ''#ffffff''\<rparr>,
      jsPDF = \<lparr>pdf_unit = ''in'', pdf_format = ''a4'', pdf_orientation = ''portrait''\<rparr>\<rparr>"

definition alertMessage :: jsstring where
  "alertMessage = js ''Error al generar el PDF. Por favor, intenta de nuevo.''"

section \<open>The export\<close>

record Export =
  element :: "ElementStyle option"
  saving :: "Options list"
  alerts :: "jsstring list"

definition generatePDF :: "json option \<Rightarrow> jsstring \<Rightarrow> bool \<Rightarrow> Export \<Rightarrow> Export" where
  "generatePDF roiResult now throws x =
     (case element x of
        None \<Rightarrow> x
      | Some st \<Rightarrow>
          if \<not> truthyOrNull roiResult then x
          else if throws then
            x\<lparr>element := Some (showElement st), alerts := alerts x @ [alertMessage]\<rparr>
          else
            x\<lparr>element := Some (showElement st), saving := saving x @ [pdfOptions now]\<rparr>)"

definition saved :: "Export \<Rightarrow> Export" where
  "saved x =
     (case saving x of
        [] \<Rightarrow> x
      | job # jobs \<Rightarrow> x\<lparr>element := map_option hideElement (element x), saving := jobs\<rparr>)"

definition covering :: "ElementStyle \<Rightarrow> bool" where
  "covering st \<longleftrightarrow>
     st ''position'' = Some ''fixed'' \<and> st ''top'' = Some ''0'' \<and> st ''left'' = Some ''0'' \<and>
     st ''zIndex'' = Some ''9999''"

lemmas [form_defs] =
  showElement_def hideElement_def isoDate_def pdfOptions_def alertMessage_def
  generatePDF_def saved_def covering_def

section \<open>The style of the element\<close>

lemma covering_showElement [simp]: "covering (showElement st)"
  by (simp add: covering_def showElement_def)

lemma not_covering_hideElement [simp]: "\<not> covering (hideElement st)"
  by (simp add: covering_def hideElement_def)

lemma hideElement_showElement:
  "hideElement (showElement st) = (hideElement st)(''backgroundColor'' \<mapsto> ''white'')"
  by (rule ext) (simp add: hideElement_def showElement_def)

lemma hideElement_idem [simp]: "hideElement (hideElement st) = hideElement st"
  by (rule ext) (simp add: hideElement_def)

section \<open>The date of the file name\<close>

lemma isoDate_T:
  assumes "0x54 \<notin> set date"
  shows "isoDate (date @ 0x54 # rest) = date"
  using assms by (simp add: isoDate_def split_append)

lemma isoDate_prefix: "prefix (isoDate now) now"
proof (cases "0x54 \<in> set now")
  case True
  then obtain date rest where "now = date @ 0x54 # rest" and "0x54 \<notin> set date"
    by (auto dest: split_list_first)
  then show ?thesis
    by (simp add: isoDate_T)
next
  case False
  then show ?thesis
    by (simp add: isoDate_def split_id)
qed

lemma isoDate_no_T: "0x54 \<notin> set (isoDate now)"
proof -
  have "hd (split 0x54 now) \<in> set (split 0x54 now)"
    by simp
  then have "0x54 \<notin> set (hd (split 0x54 now))"
    by (rule split_no_sep)
  then show ?thesis
    by (simp add: isoDate_def)
qed

section \<open>Properties of the export\<close>

text \<open>
  C39 (functional). The file is named with the fixed prefix, the date part of the time
  of the call, and \<open>.pdf\<close>: for a time whose text is a date, \<open>T\<close> and a time of day,
  the file name is \<open>Analisis_ROI_Setterless_\<close>, the date, \<open>.pdf\<close>.
\<close>

theorem filename_iso_date:
  assumes "of_char CHR ''T'' \<notin> set date"
  shows "filename (pdfOptions (date @ js ''T'' @ time)) =
           js ''Analisis_ROI_Setterless_'' @ date @ js ''.pdf''"
  using assms by (simp add: pdfOptions_def isoDate_T)

theorem filename_iso_date_witness:
  "filename (pdfOptions (js ''2025-03-09T18:21:07.512Z'')) =
     js ''Analisis_ROI_Setterless_2025-03-09.pdf''"
proof -
  have "of_char CHR ''T'' \<notin> set (js ''2025-03-09'')"
    by (simp add: js_def)
  from filename_iso_date [OF this, of "js ''18:21:07.512Z''"] show ?thesis
    by simp
qed

text \<open>
  Without a mounted element or without a truthy result \<open>generatePDF\<close> does
  nothing: the style of the element, the jobs and the alerts stay as they are.
\<close>

theorem generatePDF_guard:
  assumes "element x = None \<or> \<not> truthyOrNull roiResult"
  shows "generatePDF roiResult now throws x = x"
  using assms by (auto simp: generatePDF_def split: option.splits)

theorem generatePDF_guard_witness:
  "generatePDF None (js ''2025-03-09T18:21:07.512Z'') False
     \<lparr>element = Some Map.empty, saving = [], alerts = []\<rparr> =
   \<lparr>element = Some Map.empty, saving = [], alerts = []\<rparr>"
  by (rule generatePDF_guard) (simp add: truthyOrNull_def)

text \<open>
  An export that the library completes hands over one job with the
  options and leaves the element hidden: after \<open>generatePDF\<close> and the callback of the
  saved file the element does not cover the page, no job is left and no alert was
  shown.
\<close>

theorem export_completes:
  assumes "element x = Some st" and "truthyOrNull roiResult" and "saving x = []"
  shows "saving (generatePDF roiResult now False x) = [pdfOptions now] \<and>
         saved (generatePDF roiResult now False x) =
           x\<lparr>element := Some (hideElement (showElement st))\<rparr> \<and>
         \<not> covering (hideElement (showElement st))"
  using assms by (simp add: generatePDF_def saved_def)

theorem export_completes_witness:
  "saved (generatePDF (Some (JStr (js ''ok''))) (js ''2025-03-09T18:21:07.512Z'') False
     \<lparr>element = Some Map.empty, saving = [], alerts = []\<rparr>) =
   \<lparr>element = Some (hideElement (showElement Map.empty)), saving = [], alerts = []\<rparr>"
proof -
  let ?x = "\<lparr>element = Some Map.empty, saving = [], alerts = []\<rparr> :: Export"
  have "element ?x = Some Map.empty" "truthyOrNull (Some (JStr (js ''ok'')))" "saving ?x = []"
    by (simp_all add: truthyOrNull_def)
  from export_completes [OF this] show ?thesis
    by simp
qed

text \<open>
  C20 (error). An export in which the library throws shows the alert and leaves the
  element in front of the page: the handler of the exception does not undo the
  styles that made the element visible, and no callback will.
\<close>

theorem export_failure_covers_page:
  assumes "element x = Some st" and "truthyOrNull roiResult" and "saving x = []"
  shows "generatePDF roiResult now True x =
           x\<lparr>element := Some (showElement st), alerts := alerts x @ [alertMessage]\<rparr> \<and>
         covering (showElement st) \<and>
         saved (generatePDF roiResult now True x) = generatePDF roiResult now True x"
  using assms by (simp add: generatePDF_def saved_def)

theorem export_failure_covers_page_witness:
  "generatePDF (Some (JStr (js ''ok''))) (js ''2025-03-09T18:21:07.512Z'') True
     \<lparr>element = Some Map.empty, saving = [], alerts = []\<rparr> =
   \<lparr>element = Some (showElement Map.empty), saving = [], alerts = [alertMessage]\<rparr> \<and>
   covering (showElement Map.empty)"
proof -
  let ?x = "\<lparr>element = Some Map.empty, saving = [], alerts = []\<rparr> :: Export"
  have "element ?x = Some Map.empty" "truthyOrNull (Some (JStr (js ''ok'')))" "saving ?x = []"
    by (simp_all add: truthyOrNull_def)
  from export_failure_covers_page [OF this] show ?thesis
    by simp
qed

end
