(* ===== verification/Layout.thy ===== *)
theory Layout
  imports JSX
begin

text \<open>
  The frame of the page, \<open>src/app/layout.tsx\<close>: the metadata that the framework puts
  into the head of the document (\<open>metadata\<close>) and the component \<open>RootLayout\<close>, which
  wraps the page into \<open>html\<close> and \<open>body\<close> elements.
\<close>

record Metadata =
  title :: jsstring
  description :: jsstring

definition metadata :: Metadata where
  "metadata =
     \<lparr>title = js ''Calculadora ROI Setterless 360'' @ [0xB0],
      description =
        js ''Calcula el ROI de tu inversi'' @ [0xF3] @ js ''n inmobiliaria con Setterless 360'' @
        [0xB0]\<rparr>"

definition RootLayout :: "jsx list \<Rightarrow> jsx" where
  "RootLayout children' =
     Element ''html'' None [(''lang'', Lit ''es'')] '''' []
       [Element ''body'' None [] '''' [] children']"

lemma textOf_RootLayout [simp]: "textOf (RootLayout cs) = concat (map textOf cs)"
  by (simp add: RootLayout_def)

lemma lang_RootLayout: "map_of (props (RootLayout cs)) ''lang'' = Some (Lit ''es'')"
  by (simp add: RootLayout_def)

end
