(* ===== verification/Build_Config.thy ===== *)
theory Build_Config
  imports JS_Value
begin

text \<open>
  The configuration of the bundler, \<open>src/next.config.js\<close>. Its one function, \<open>webpack\<close>,
  receives the configuration that the framework has built and returns it, with the
  PDF library added to the external modules when the bundle is for the server.

  \<^item> The property \<open>externals\<close> of a configuration is absent, a list of entries, or a
    value of another kind that the bundler also accepts (a string, a function, a
    regular expression, an object); \<open>externals\<close> has one constructor for each case.
    The rest of the configuration is not read and is the type parameter of \<open>Config\<close>.
  \<^item> \<open>config.externals || []\<close> replaces an absent property by the empty list. A value
    that is not a list has no \<open>push\<close>, so the call fails with a \<open>TypeError\<close>; \<open>webpack\<close>
    returns that error as \<open>Inl\<close>.
\<close>

datatype external = External string string

datatype externals = Absent | Entries "external list" | NotAList

record 'a Config =
  externals :: externals
  others :: 'a

definition webpack :: "'a Config \<Rightarrow> bool \<Rightarrow> jsError + 'a Config" where
  "webpack config isServer =
     (if isServer then
        (case (case externals config of Absent \<Rightarrow> Entries [] | e \<Rightarrow> e) of
           Entries es \<Rightarrow>
             Inr (config\<lparr>externals := Entries (es @ [External ''html2pdf.js'' ''html2pdf.js''])\<rparr>)
         | _ \<Rightarrow> Inl TypeError)
      else Inr config)"

section \<open>Properties of the configuration\<close>

lemma webpack_client [simp]: "webpack config False = Inr config"
  by (simp add: webpack_def)

lemma webpack_server_absent:
  "externals config = Absent \<Longrightarrow>
   webpack config True =
     Inr (config\<lparr>externals := Entries [External ''html2pdf.js'' ''html2pdf.js'']\<rparr>)"
  by (simp add: webpack_def)

lemma webpack_server_entries:
  "externals config = Entries es \<Longrightarrow>
   webpack config True =
     Inr (config\<lparr>externals := Entries (es @ [External ''html2pdf.js'' ''html2pdf.js''])\<rparr>)"
  by (simp add: webpack_def)

lemma webpack_server_other: "externals config = NotAList \<Longrightarrow> webpack config True = Inl TypeError"
  by (simp add: webpack_def)


end
