(* ===== verification/Spec2Isabelle.thy ===== *)
theory Spec2Isabelle
  imports View PDF_Export Layout Build_Config
begin

text \<open>
  \<^bold>\<open>A verification development for the ROI calculator page.\<close>

  The program is one React component, \<open>CalculadoraROI\<close> in
  \<open>src/components/CalculadoraROI.tsx\<close>: a form of five numeric fields, a handler that
  posts them to a webhook, and two formatters that turn the text of the answer into
  elements, one for the screen and one for the PDF export. \<open>src/app/layout.tsx\<close> and
  \<open>src/next.config.js\<close> hold the page frame and the build configuration.

  \<^bold>\<open>Parts of the program and the theories that model them.\<close>

  \<^item> \<open>ROI_Prelude\<close>: strings of the runtime as lists of UTF-16 code units (\<open>jsstring\<close>),
    literals (\<open>js\<close>, \<open>utf16\<close>), the fact collections \<open>js_defs\<close>, \<open>fmt_defs\<close>, \<open>form_defs\<close>
    and \<open>wf_intros\<close>, and list lemmas about loops that push and about trailing elements.
  \<^item> \<open>JS_String\<close>: the string operations that the source calls, each defined on code
    units as ECMAScript defines it: \<open>trim\<close>, \<open>split\<close>, \<open>startsWith\<close>, \<open>endsWith\<close>,
    \<open>includesStr\<close>, \<open>substring\<close>, \<open>stripAll\<close> (a global \<open>replace\<close> of a literal by the
    empty string) and \<open>stripClass\<close> (a global \<open>replace\<close> of a character class without
    the \<open>u\<close> flag). Its lemmas relate them to \<open>prefix\<close>, \<open>suffix\<close>, \<open>sublist\<close> and \<open>subseq\<close>
    of the list library, give the round trip of \<open>split\<close> and \<open>join\<close>, and say which
    operations keep a string well-formed UTF-16 (\<open>wellFormed\<close>).
  \<^item> \<open>JS_Value\<close>: numbers as bit patterns of doubles with the two tests the source
    needs, field values, JSON values, and their truthiness.
  \<^item> \<open>JSX\<close>: element trees (\<open>jsx\<close>) with tag, key, attributes, class name, inline
    style and children.
  \<^item> \<open>Report_Formatter\<close>: \<open>formatRoiResult\<close> (lines 78 to 128) as \<open>paragraphsOf\<close>,
    \<open>paragraphElement\<close>, \<open>pushParagraph\<close> and the fold \<open>formatRoiResult\<close>; the contract
    \<open>format\<close> of the specification with \<open>classify\<close>; the abstraction \<open>block_of\<close>. The
    lemmas show that the loop is a map over the non-blank lines, that the elements
    refine the contract, and what the elements display.
  \<^item> \<open>Document_Formatter\<close>: the hidden export content (lines 274 to 359) as \<open>pdfLine\<close>,
    \<open>pdfLines\<close>, \<open>pdfHeader\<close>, \<open>pdfFooter\<close>, \<open>pdfDocument\<close>; the contract
    \<open>formatForExport\<close>; the abstraction \<open>pdf_block_of\<close>. The lemmas show the refinement
    and what the removal of the glyphs from a heading does to its code units.
  \<^item> \<open>Form_State\<close>: the four state cells (lines 20 to 30) as the record \<open>State\<close>,
    \<open>handleInputChange\<close> (lines 130 to 137), \<open>handleSubmit\<close> up to its \<open>await\<close> and
    \<open>handleSubmit_response\<close> after it (lines 139 to 208), the events of a page as the
    function \<open>step\<close> with the guards of the rendered controls, the reachable pages as
    the inductive predicate \<open>reachable\<close>, and the submission flow of the specification
    as the inductive relation \<open>flow\<close> over \<open>phase\<close>. The lemmas show that an invariant
    (\<open>pageInv\<close>) holds on every reachable page and that every step follows the flow.
  \<^item> \<open>Code_Points\<close>: the reading of a string as Unicode code points (\<open>codePoints\<close>,
    \<open>fromCodePoints\<close>), under which the specification speaks of glyphs, and the removal
    of glyphs (\<open>stripGlyphs\<close>). The lemmas give the round trip with \<open>utf16\<close> and relate
    \<open>stripClass\<close>, which removes code units, to \<open>stripGlyphs\<close>.
  \<^item> \<open>PDF_Export\<close>: \<open>generatePDF\<close> (lines 33 to 76) as a transformer of the record
    \<open>Export\<close>, with the options object and the two groups of style assignments.
  \<^item> \<open>View\<close>: the element tree that the component returns (lines 210 to 527) as the
    function \<open>page\<close> of the state, composed of \<open>loadingOverlay\<close>, \<open>resultModal\<close>,
    \<open>pdfDocument\<close>, \<open>pageTitle\<close> and \<open>formCard\<close> with the five fields, \<open>messageBox\<close> and
    \<open>submitButton\<close>; every tag, attribute, class name and text is that of the source.
    \<open>render\<close> is \<open>page\<close> with the failure of \<open>split\<close> on a stored result that is not a
    string. \<open>handlers\<close> and \<open>propsOf\<close> read the handlers and the controls off a tree.
    The lemmas show which events the rendered page offers, which justifies the
    guards of \<open>step\<close>, and when the render fails.
  \<^item> \<open>Layout\<close>: \<open>metadata\<close> and \<open>RootLayout\<close> of \<open>src/app/layout.tsx\<close>.
  \<^item> \<open>Build_Config\<close>: the \<open>webpack\<close> function of \<open>src/next.config.js\<close> on a
    configuration whose externals are absent, a list, or something else.
  \<^item> This theory holds the properties that span the two formatters: when they agree,
    where they differ, and that neither shows more than the text it is given.

  \<^bold>\<open>How the parts interact.\<close> The state cell \<open>roiResult\<close> is written by
  \<open>handleSubmit_response\<close> and read by \<open>render\<close>, which passes it to both formatters,
  and by \<open>generatePDF\<close>. The formatters are applied to the same text independently;
  \<open>formatters_agree\<close> and \<open>formatters_diverge\<close> below say when their results
  correspond. The events of \<open>step\<close> are those that the tree of \<open>page\<close> refers to:
  \<open>View.offered_events\<close>, \<open>View.inputs_controlled\<close> and
  \<open>View.submit_disabled_while_loading\<close> relate the guards of \<open>step\<close> to the attributes
  of the rendered controls, and \<open>View.render_never_fails\<close> carries an invariant of
  \<open>reachable\<close> to the render.

  \<^bold>\<open>Parameters in place of the environment.\<close> The model has no clock, no network
  and no parser of its own. The handlers take as parameters the conversion \<open>Number\<close>
  of a string, the function \<open>JSON.parse\<close> (\<open>None\<close> where it throws), the outcome of the
  request (\<open>fetchResult\<close>), the date shown in the header of the export, the time of
  the call of \<open>generatePDF\<close> and whether the PDF library throws. Theorems hold for
  every value of these parameters unless they state a hypothesis about them.

  \<^bold>\<open>Bounds and fuel.\<close> No definition uses fuel. The two recursive string operations
  that are not structural, \<open>split\<close> and \<open>stripAll\<close>, are total functions with a
  termination proof by the length of the string; every loop of the source runs over a
  finite list and is a \<open>map\<close>, a \<open>filter\<close> or a \<open>foldl\<close>. Code units are 16-bit words and
  numbers 64-bit words, so comparisons and masks are those of the machine; code
  points are natural numbers, and \<open>scalar\<close> bounds those that \<open>utf16\<close> encodes
  faithfully.

  \<^bold>\<open>Not modelled.\<close> The validation that the browser performs on the \<open>required\<close>,
  \<open>min\<close> and \<open>step\<close> attributes before it fires a submit event: the model lets every
  submit through, so its invariants hold for more runs than a browser allows.
  Serialisation of the request body by \<open>JSON.stringify\<close> and the transport: a request
  is the record of what is passed to \<open>fetch\<close>. The PDF library \<open>html2pdf.js\<close>: only the
  options it is called with and whether the call throws. React's scheduling of state
  updates: the updates of a handler are applied in program order, and the render is
  a function of the state after them. The style sheet that \<open>layout.tsx\<close> imports and
  the meaning of the class names. Logging to the console.
\<close>

section \<open>The two formatters on the same text\<close>

text \<open>
  C4 (equivalence). On a text without the emphasis marker \<open>**\<close> the two formatters
  agree: the export shows the blocks that the screen shows, line by line, except
  that the headings of the export are without the code units of the glyphs.
\<close>

theorem formatters_agree:
  assumes "\<not> sublist (js ''**'') text"
  shows "map pdf_block_of (pdfLines text) =
         map (map_option exportBlock \<circ> block_of) (formatRoiResult text)"
proof -
  from assms have "stripAll [0x2A, 0x2A] text = text"
    by (simp add: stripAll_id includesStr_iff_sublist)
  then have "map block_of (formatRoiResult text) = map (Some \<circ> classify) (trimmedLines text)"
    by (simp add: formatRoiResult_trimmedLines)
  then have "map (map_option exportBlock \<circ> block_of) (formatRoiResult text) =
      map (map_option exportBlock) (map (Some \<circ> classify) (trimmedLines text))"
    by (simp flip: map_map)
  then show ?thesis
    by (simp add: pdf_blocks_trimmedLines classifyExport_exportBlock comp_def)
qed

theorem formatters_agree_witness:
  "map pdf_block_of (pdfLines example_report) =
   map (map_option exportBlock \<circ> block_of) (formatRoiResult example_report)"
proof -
  have "\<not> sublist (js ''**'') example_report"
    by (simp add: example_report_def js_defs flip: includesStr_iff_sublist)
  then show ?thesis
    by (rule formatters_agree)
qed


section \<open>The size of what is shown\<close>

text \<open>
  C14 (bounds). Neither formatter shows more than it is given: the number of elements is
  at most the number of lines of the text, one more than its line feeds, and the texts
  of the elements together have at most as many code units as the text. For the export
  this counts the bullet that it puts in place of the marker of a list item.
\<close>

theorem output_bounded:
  "length (formatRoiResult text) \<le> Suc (count_list text LF) \<and>
   length (concat (map textOf (formatRoiResult text))) \<le> length text \<and>
   length (pdfLines text) \<le> Suc (count_list text LF) \<and>
   length (concat (map textOf (pdfLines text))) \<le> length text"
proof -
  let ?clean = "trim (stripAll [0x2A, 0x2A] text)"
  have clean: "subseq ?clean text"
    using sublist_imp_subseq [OF sublist_trim] subseq_stripAll by (rule subseq_order.order_trans)
  have "length (formatRoiResult text) \<le> length (split LF ?clean)"
    by (simp add: length_formatRoiResult paragraphsOf_eq)
  also have "\<dots> \<le> Suc (count_list text LF)"
    using count_list_subseq [OF clean] by (simp add: length_split)
  finally have 1: "length (formatRoiResult text) \<le> Suc (count_list text LF)" .
  have "length (concat (map textOf (formatRoiResult text))) \<le>
      length (concat (map snd (enumerate 0 (paragraphsOf text))))"
    unfolding formatRoiResult_map map_map by (rule length_concat_map) (simp add: sublist_length_le
      sublist_order.order_trans [OF sublist_blockText sublist_trim])
  also have "\<dots> \<le> length ?clean"
    unfolding paragraphsOf_eq map_snd_enumerate by (rule length_concat_split)
  also have "\<dots> \<le> length text"
    using clean by (rule list_emb_length)
  finally have 2: "length (concat (map textOf (formatRoiResult text))) \<le> length text" .
  have 3: "length (pdfLines text) \<le> Suc (count_list text LF)"
    using length_filter_le [of "\<lambda>l. \<not> blank l" "split LF text"]
    by (simp add: pdfLines_eq length_split)
  have "length (concat (map textOf (pdfLines text))) \<le>
      length (concat (map snd (enumerate 0 (filter (\<lambda>l. \<not> blank l) (split LF text)))))"
    unfolding pdfLines_eq map_map by (rule length_concat_map) (simp add: length_textOf_pdfLine)
  also have "\<dots> \<le> length text"
    unfolding map_snd_enumerate by (rule length_concat_split)
  finally have 4: "length (concat (map textOf (pdfLines text))) \<le> length text" .
  from 1 2 3 4 show ?thesis
    by simp
qed

end
